(* ===== verification/Py_Prelude.thy ===== *)
theory Py_Prelude
  imports Main "HOL-Library.Sublist"
begin

text \<open>
  Shared vocabulary of the development: the Python string operations that the agent code
  (\<open>src/src/agentscope/agents/code_agent.py\<close>) applies to prompts, model output and error
  messages, written as executable HOL functions over \<open>string\<close> (a list of 8-bit characters,
  read as the Latin-1 code points of a Python \<open>str\<close>).  Every operation here follows CPython's
  \<open>str\<close> method of the same name: \<open>py_strip\<close> is \<open>str.strip()\<close> with its whitespace set,
  \<open>py_replace\<close> is \<open>str.replace\<close> (including the empty-pattern case), \<open>py_in\<close> is the
  substring test \<open>a in b\<close>, \<open>py_join\<close> is \<open>sep.join(xs)\<close>.  The lemmas characterise them
  against the list library (\<open>sublist\<close>, \<open>prefix\<close>, \<open>suffix\<close>) and are collected in the
  \<open>py_str\<close> bundle used by the component theories.
\<close>

named_theorems py_str "characteristic equations of the Python string operations"

type_synonym pystr = string

subsection \<open>Definitions\<close>

text \<open>\<open>str.startswith\<close> as a structural recursion, executable by \<open>simp\<close>.\<close>

fun starts_with :: "string \<Rightarrow> string \<Rightarrow> bool" where
  "starts_with [] _ = True"
| "starts_with (a # as) [] = False"
| "starts_with (a # as) (b # bs) = (a = b \<and> starts_with as bs)"

text \<open>\<open>needle in hay\<close>: some suffix of \<open>hay\<close> starts with \<open>needle\<close>; \<open>'' in s\<close> holds.\<close>

fun py_in :: "string \<Rightarrow> string \<Rightarrow> bool" where
  "py_in needle [] = (needle = [])"
| "py_in needle (c # cs) = (starts_with needle (c # cs) \<or> py_in needle cs)"

definition py_endswith :: "string \<Rightarrow> string \<Rightarrow> bool" where
  "py_endswith s suf = starts_with (rev suf) (rev s)"

text \<open>
  \<open>str.isspace\<close> on the code points 0..255: the ASCII controls 9..13, the separators
  28..31, space, NEL (0x85) and NO-BREAK SPACE (0xA0).
\<close>

definition py_isspace :: "char \<Rightarrow> bool" where
  "py_isspace c \<longleftrightarrow> (let n = of_char c :: nat in
     (9 \<le> n \<and> n \<le> 13) \<or> (28 \<le> n \<and> n \<le> 32) \<or> n = 133 \<or> n = 160)"

definition py_lstrip :: "string \<Rightarrow> string" where
  "py_lstrip s = dropWhile py_isspace s"

definition py_rstrip :: "string \<Rightarrow> string" where
  "py_rstrip s = rev (dropWhile py_isspace (rev s))"

definition py_strip :: "string \<Rightarrow> string" where
  "py_strip s = py_rstrip (py_lstrip s)"

text \<open>\<open>sep.join(xs)\<close>.\<close>

fun py_join :: "string \<Rightarrow> string list \<Rightarrow> string" where
  "py_join sep [] = []"
| "py_join sep [x] = x"
| "py_join sep (x # y # ys) = x @ sep @ py_join sep (y # ys)"

text \<open>
  \<open>s.replace(old, new)\<close> for a non-empty \<open>old\<close>: occurrences are replaced left to right
  and never overlap, scanning resumes after each replaced occurrence.
\<close>

fun replace_nonempty :: "string \<Rightarrow> string \<Rightarrow> string \<Rightarrow> string" where
  "replace_nonempty old new [] = []"
| "replace_nonempty old new (c # cs) =
     (if starts_with old (c # cs)
      then new @ replace_nonempty old new (drop (length old - 1) cs)
      else c # replace_nonempty old new cs)"

text \<open>With an empty \<open>old\<close>, CPython inserts \<open>new\<close> before every character and at the end.\<close>

fun replace_empty :: "string \<Rightarrow> string \<Rightarrow> string" where
  "replace_empty new [] = new"
| "replace_empty new (c # cs) = new @ c # replace_empty new cs"

definition py_replace :: "string \<Rightarrow> string \<Rightarrow> string \<Rightarrow> string" where
  "py_replace s old new =
     (if old = [] then replace_empty new s else replace_nonempty old new s)"

subsection \<open>Lemmas\<close>

lemma starts_with_prefix [py_str]: "starts_with xs ys \<longleftrightarrow> prefix xs ys"
  by (induction xs ys rule: starts_with.induct) auto

lemma starts_with_append [simp]: "starts_with xs (xs @ ys)"
  by (simp add: starts_with_prefix)

lemma starts_with_drop:
  "starts_with xs ys \<Longrightarrow> ys = xs @ drop (length xs) ys"
  by (auto simp: starts_with_prefix prefix_def)

lemma py_in_sublist [py_str]: "py_in xs ys \<longleftrightarrow> sublist xs ys"
proof (induction ys)
  case Nil
  then show ?case by simp
next
  case (Cons c cs)
  then show ?case
    by (auto simp: starts_with_prefix sublist_Cons_right)
qed

lemma py_in_append [intro]:
  "py_in xs ys \<Longrightarrow> py_in xs (zs @ ys @ ws)"
  by (auto simp: py_in_sublist intro: sublist_order.order_trans[OF _ sublist_appendI])

lemma py_in_suffix: "py_in xs (ys @ xs)"
  by (simp add: py_in_sublist)

lemma py_in_appendD:
  "\<not> py_in xs (ys @ zs) \<Longrightarrow> \<not> py_in xs ys \<and> \<not> py_in xs zs"
  by (auto simp: py_in_sublist sublist_append)

lemma py_endswith_suffix [py_str]: "py_endswith s suf \<longleftrightarrow> suffix suf s"
  by (simp add: py_endswith_def starts_with_prefix suffix_to_prefix)

lemma dropWhile_none:
  "\<forall>c \<in> set s. \<not> P c \<Longrightarrow> dropWhile P s = s"
  by (induction s) auto

lemma py_strip_no_spaces [simp]:
  "\<forall>c \<in> set s. \<not> py_isspace c \<Longrightarrow> py_strip s = s"
  by (simp add: py_strip_def py_rstrip_def py_lstrip_def dropWhile_none)

lemma replace_nonempty_no_occurrence:
  "old \<noteq> [] \<Longrightarrow> \<not> py_in old s \<Longrightarrow> replace_nonempty old new s = s"
  by (induction s) auto

lemma py_replace_absent [py_str]:
  "old \<noteq> [] \<Longrightarrow> \<not> py_in old s \<Longrightarrow> py_replace s old new = s"
  by (simp add: py_replace_def replace_nonempty_no_occurrence)

lemma py_join_append_sep:
  "xs \<noteq> [] \<Longrightarrow> py_join sep (xs @ [y]) = py_join sep xs @ sep @ y"
  by (induction sep xs rule: py_join.induct) auto

lemma py_join_Cons [py_str]:
  "py_join sep (x # xs) = (if xs = [] then x else x @ sep @ py_join sep xs)"
  by (cases xs) auto

lemma py_in_not_member [simp]: "a \<notin> set s \<Longrightarrow> \<not> py_in (a # w) s"
  by (induction s) (auto simp: starts_with_prefix)

lemma py_in_prefix_mono: "py_in (xs @ ys) s \<Longrightarrow> py_in xs s"
  unfolding py_in_sublist
  by (rule sublist_order.order_trans[OF prefix_imp_sublist[OF prefixI[OF refl]]])

lemma py_in_pair_append [py_str]:
  "py_in [a, b] (xs @ ys) \<longleftrightarrow>
     py_in [a, b] xs \<or> py_in [a, b] ys \<or> (xs \<noteq> [] \<and> ys \<noteq> [] \<and> last xs = a \<and> hd ys = b)"
proof -
  have split: "[a, b] = xs1 @ xs2 \<longleftrightarrow>
                 (xs1 = [] \<and> xs2 = [a, b]) \<or> (xs1 = [a] \<and> xs2 = [b]) \<or> (xs1 = [a, b] \<and> xs2 = [])"
    for xs1 xs2 :: string
    by (cases xs1; cases "tl xs1") (auto simp: Cons_eq_append_conv)
  have "suffix [a] xs \<longleftrightarrow> xs \<noteq> [] \<and> last xs = a"
    by (cases xs rule: rev_cases) (auto simp: suffix_def)
  moreover have "prefix [b] ys \<longleftrightarrow> ys \<noteq> [] \<and> hd ys = b"
    by (cases ys) auto
  ultimately show ?thesis
    by (auto simp: py_in_sublist sublist_append split)
qed

lemma py_in_drop_starts:
  "py_in xs ys \<Longrightarrow> \<exists>j \<le> length ys. starts_with xs (drop j ys)"
proof (induction ys)
  case Nil
  then show ?case by simp
next
  case (Cons c cs)
  show ?case
  proof (cases "starts_with xs (c # cs)")
    case True
    then show ?thesis by (intro exI[of _ 0]) simp
  next
    case False
    then obtain j where "j \<le> length cs" "starts_with xs (drop j cs)"
      using Cons by auto
    then show ?thesis by (intro exI[of _ "Suc j"]) simp
  qed
qed

lemma py_in_drop_mono: "py_in xs (drop k ys) \<Longrightarrow> py_in xs ys"
  unfolding py_in_sublist
  by (rule sublist_order.order_trans[OF _ suffix_imp_sublist[OF suffix_drop]])

lemma starts_with_take:
  "starts_with xs (take k ys) \<Longrightarrow> starts_with xs ys"
  unfolding starts_with_prefix by (erule prefix_order.order_trans[OF _ take_is_prefix])

lemma starts_with_drop_take:
  "starts_with xs (drop j (take k ys)) \<Longrightarrow> starts_with xs (drop j ys)"
  by (rule starts_with_take[of _ "k - j"]) (simp add: drop_take)

lemma replace_nonempty_snoc:
  "old \<noteq> [] \<Longrightarrow> c \<notin> set old \<Longrightarrow> replace_nonempty old new (s @ [c]) = replace_nonempty old new s @ [c]"
proof (induction old new s rule: replace_nonempty.induct)
  case (1 old new)
  then show ?case by (cases old) auto
next
  case (2 old new x xs)
  show ?case
  proof (cases "starts_with old (x # xs)")
    case True
    then have "length old \<le> Suc (length xs)"
      by (auto simp: starts_with_prefix dest: prefix_length_le)
    then have "drop (length old - 1) (xs @ [c]) = drop (length old - 1) xs @ [c]"
      by simp
    moreover have "starts_with old ((x # xs) @ [c])"
      using True by (simp only: starts_with_prefix prefix_prefix)
    ultimately show ?thesis
      using True 2 by simp
  next
    case False
    have "\<not> starts_with old (x # xs @ [c])"
    proof
      assume "starts_with old (x # xs @ [c])"
      then have "prefix old ((x # xs) @ [c])" by (simp add: starts_with_prefix)
      with False "2.prems"(2) show False
        unfolding prefix_snoc starts_with_prefix by auto
    qed
    then show ?thesis
      using False 2 by simp
  qed
qed

lemma py_replace_endswith:
  "old \<noteq> [] \<Longrightarrow> c \<notin> set old \<Longrightarrow> py_endswith s [c] \<Longrightarrow> py_endswith (py_replace s old new) [c]"
  by (auto simp: py_endswith_suffix suffix_def py_replace_def replace_nonempty_snoc)

lemma replace_nonempty_at:
  assumes "old \<noteq> []" and "hd old \<notin> set p"
  shows "replace_nonempty old new (p @ old @ r) = p @ new @ replace_nonempty old new r"
  using assms(2)
proof (induction p)
  case Nil
  obtain c cs where o: "old = c # cs" using assms(1) by (cases old) auto
  show ?case by (simp add: o)
next
  case (Cons a p)
  have "\<not> starts_with old (a # p @ old @ r)"
    using Cons.prems assms(1) by (cases old) auto
  then show ?case using Cons by simp
qed

end
