(* ===== verification/Py_Builtins.thy ===== *)
theory Py_Builtins
  imports Py_Prelude
begin

text \<open>
  The Python built-ins whose exact output reaches the agent's prompts and error messages:
  \<open>repr(s)\<close> and \<open>ascii(s)\<close> of a \<open>str\<close> (CPython's \<open>unicode_repr\<close> restricted to the
  code points 0..255), \<open>str(xs)\<close> of a list of strings (used for the authorized-import list of
  \<open>CodeAgent.__init__\<close>), and the exception values the agent raises or lets through, with
  \<open>str(e)\<close> as CPython prints it.
\<close>

subsection \<open>Definitions\<close>

definition backslash :: char where "backslash = CHR 0x5C"
definition squote :: char where "squote = CHR 0x27"
definition dquote :: char where "dquote = CHR 0x22"

definition hex_digit :: "nat \<Rightarrow> char" where
  "hex_digit n = ''0123456789abcdef'' ! n"

text \<open>\<open>\xhh\<close>, lower-case hexadecimal, as \<open>unicode_repr\<close> writes it.\<close>

definition hex_escape :: "char \<Rightarrow> string" where
  "hex_escape c = (let n = of_char c :: nat in
     [backslash, CHR ''x'', hex_digit (n div 16), hex_digit (n mod 16)])"

text \<open>
  \<open>str.isprintable\<close> on 0..255: ASCII 0x20..0x7E and Latin-1 0xA1..0xFF except the
  soft hyphen 0xAD (category Cf); 0x7F..0xA0 are controls or the no-break space.
\<close>

definition py_isprintable :: "char \<Rightarrow> bool" where
  "py_isprintable c \<longleftrightarrow> (let n = of_char c :: nat in
     (32 \<le> n \<and> n \<le> 126) \<or> (161 \<le> n \<and> n \<noteq> 173))"

text \<open>One character of \<open>repr\<close> with quote character \<open>q\<close>, in the order of the C loop.\<close>

definition repr_char :: "char \<Rightarrow> char \<Rightarrow> string" where
  "repr_char q c =
     (if c = q \<or> c = backslash then [backslash, c]
      else if c = CHR 0x09 then [backslash, CHR ''t'']
      else if c = CHR 0x0A then [backslash, CHR ''n'']
      else if c = CHR 0x0D then [backslash, CHR ''r'']
      else if py_isprintable c then [c]
      else hex_escape c)"

text \<open>The quote is \<open>"\<close> exactly when the string holds a \<open>'\<close> and no \<open>"\<close>.\<close>

definition repr_quote :: "string \<Rightarrow> char" where
  "repr_quote s = (if squote \<in> set s \<and> dquote \<notin> set s then dquote else squote)"

definition py_repr :: "string \<Rightarrow> string" where
  "py_repr s = (let q = repr_quote s in q # concat (map (repr_char q) s) @ [q])"

text \<open>\<open>ascii(s)\<close>: \<open>repr(s)\<close> with the remaining non-ASCII characters backslash-escaped.\<close>

definition py_ascii :: "string \<Rightarrow> string" where
  "py_ascii s = concat (map (\<lambda>c. if (of_char c :: nat) < 128 then [c] else hex_escape c)
                          (py_repr s))"

text \<open>\<open>str(xs)\<close> for a list of strings: \<open>list_repr\<close> joins the item reprs with \<open>', '\<close>.\<close>

definition py_str_list :: "string list \<Rightarrow> string" where
  "py_str_list xs = ''['' @ py_join '', '' (map py_repr xs) @ '']''"

text \<open>\<open>str(n)\<close> for a non-negative integer, most significant digit first.\<close>

fun nat_str :: "nat \<Rightarrow> string" where
  "nat_str n = (if n < 10 then [''0123456789'' ! n]
                else nat_str (n div 10) @ [''0123456789'' ! (n mod 10)])"

declare nat_str.simps [simp del]

text \<open>The exceptions of the modelled code, each with the argument it is raised with.\<close>

datatype py_exc =
    TypeError string
  | ValueError string
  | KeyError string
  | IndexError string
  | AttributeError string

text \<open>\<open>str(e)\<close>: a \<open>KeyError\<close> prints the \<open>repr\<close> of its key, the others their message.\<close>

fun py_exc_str :: "py_exc \<Rightarrow> string" where
  "py_exc_str (TypeError m) = m"
| "py_exc_str (ValueError m) = m"
| "py_exc_str (KeyError k) = py_repr k"
| "py_exc_str (IndexError m) = m"
| "py_exc_str (AttributeError m) = m"

text \<open>
  \<open>s.split(sep)\<close> with an explicit separator, the reference against which \<open>str.replace\<close>
  is checked: the pieces between the non-overlapping occurrences of \<open>sep\<close>, found from
  the left; an empty separator raises \<open>ValueError\<close>.
\<close>

fun split_nonempty :: "string \<Rightarrow> string \<Rightarrow> string \<Rightarrow> string list" where
  "split_nonempty sep cur [] = [cur]"
| "split_nonempty sep cur (c # cs) =
     (if starts_with sep (c # cs) \<and> sep \<noteq> []
      then cur # split_nonempty sep [] (drop (length sep - 1) cs)
      else split_nonempty sep (cur @ [c]) cs)"

definition py_split :: "string \<Rightarrow> string \<Rightarrow> py_exc + string list" where
  "py_split s sep = (if sep = [] then Inl (ValueError ''empty separator'') else Inr (split_nonempty sep [] s))"

text \<open>
  The reader of the literals \<open>repr\<close> writes, as Python's parser reads a one-line \<open>str\<close>
  literal: an opening quote, characters and the escapes \<open>\\\<close>, \<open>\'\<close>, \<open>\"\<close>,
  \<open>\t\<close>, \<open>\n\<close>, \<open>\r\<close> and \<open>\xhh\<close> (lower-case hexadecimal), and the same quote at
  the end.  It is the reference against which \<open>py_repr\<close> is checked.
\<close>

definition hex_val :: "char \<Rightarrow> nat option" where
  "hex_val c = (let n = of_char c :: nat in
     if 48 \<le> n \<and> n \<le> 57 then Some (n - 48)
     else if 97 \<le> n \<and> n \<le> 102 then Some (n - 87) else None)"

fun unrepr_body :: "char \<Rightarrow> string \<Rightarrow> string option" where
  "unrepr_body q [] = None"
| "unrepr_body q [c] = (if c = q then Some [] else None)"
| "unrepr_body q (c # d # ds) =
     (if c = q then None
      else if c \<noteq> backslash then map_option (Cons c) (unrepr_body q (d # ds))
      else if d = CHR ''t'' then map_option (Cons (CHR 0x09)) (unrepr_body q ds)
      else if d = CHR ''n'' then map_option (Cons (CHR 0x0A)) (unrepr_body q ds)
      else if d = CHR ''r'' then map_option (Cons (CHR 0x0D)) (unrepr_body q ds)
      else if d = backslash \<or> d = squote \<or> d = dquote then map_option (Cons d) (unrepr_body q ds)
      else if d = CHR ''x'' then
        (case ds of
           h1 # h2 # es \<Rightarrow>
             (case (hex_val h1, hex_val h2) of
                (Some a, Some b) \<Rightarrow> map_option (Cons (char_of (16 * a + b))) (unrepr_body q es)
              | _ \<Rightarrow> None)
         | _ \<Rightarrow> None)
      else None)"

definition py_unrepr :: "string \<Rightarrow> string option" where
  "py_unrepr s = (case s of
     [] \<Rightarrow> None
   | q # body \<Rightarrow> if q = squote \<or> q = dquote then unrepr_body q body else None)"

subsection \<open>Lemmas\<close>

lemma repr_char_plain [simp]:
  "py_isprintable c \<Longrightarrow> c \<noteq> q \<Longrightarrow> c \<noteq> backslash \<Longrightarrow> repr_char q c = [c]"
  by (auto simp: repr_char_def py_isprintable_def)

lemma concat_map_singleton:
  "(\<forall>c \<in> set s. f c = [c]) \<Longrightarrow> concat (map f s) = s"
  by (induction s) auto

text \<open>
  A string of printable characters without quotes or backslashes is printed between single
  quotes unchanged.
\<close>

lemma py_repr_plain [py_str]:
  assumes "\<forall>c \<in> set s. py_isprintable c \<and> c \<noteq> squote \<and> c \<noteq> dquote \<and> c \<noteq> backslash"
  shows "py_repr s = squote # s @ [squote]"
proof -
  have q: "repr_quote s = squote"
    using assms by (auto simp: repr_quote_def)
  have "concat (map (repr_char squote) s) = s"
    using assms by (intro concat_map_singleton) simp
  then show ?thesis
    by (simp add: py_repr_def q)
qed

lemma nat_str_digit [simp]: "n < 10 \<Longrightarrow> nat_str n = [''0123456789'' ! n]"
  by (simp add: nat_str.simps)

lemma repr_char_nonempty: "1 \<le> length (repr_char q c)"
  by (simp add: repr_char_def hex_escape_def Let_def)

lemma py_repr_length: "length s + 2 \<le> length (py_repr s)"
proof -
  have "length s \<le> length (concat (map (repr_char q) s))" for q
  proof (induction s)
    case (Cons a s)
    have "1 \<le> length (repr_char q a)" by (rule repr_char_nonempty)
    with Cons.IH show ?case by simp
  qed simp
  then show ?thesis
    by (simp add: py_repr_def Let_def)
qed

lemma split_nonempty_not_Nil: "split_nonempty sep cur s \<noteq> []"
  by (induction sep cur s rule: split_nonempty.induct) auto

lemma join_split_nonempty:
  "old \<noteq> [] \<Longrightarrow> py_join new (split_nonempty old cur s) = cur @ replace_nonempty old new s"
proof (induction old cur s rule: split_nonempty.induct)
  case (2 sep cur c cs)
  then show ?case
    by (auto simp: py_join_Cons split_nonempty_not_Nil)
qed simp

text \<open>
  \<open>str.replace\<close> with a non-empty pattern is \<open>new.join(s.split(old))\<close>: the
  left-to-right scan of \<open>replace_nonempty\<close> cuts the string at the same occurrences as
  \<open>str.split\<close>.
\<close>

lemma py_replace_split_join:
  assumes "py_split s old = Inr parts"
  shows "py_replace s old new = py_join new parts"
  using assms join_split_nonempty[of old new "[]" s]
  by (auto simp: py_split_def py_replace_def split: if_splits)

lemma py_replace_split_join_witness:
  "py_split ''a-b--c'' ''-'' = Inr [''a'', ''b'', [], ''c''] \<and>
   py_replace ''a-b--c'' ''-'' ''+'' = py_join ''+'' [''a'', ''b'', [], ''c'']"
  using py_replace_split_join[of "''a-b--c''" "''-''" "[''a'', ''b'', [], ''c'']" "''+''"]
  by (simp add: py_split_def)

lemma hex_val_digit: "n < 16 \<Longrightarrow> hex_val (hex_digit n) = Some n"
  by (auto simp: hex_val_def hex_digit_def less_Suc_eq numeral_eq_Suc)

lemma unrepr_plain:
  "c \<noteq> q \<Longrightarrow> c \<noteq> backslash \<Longrightarrow> unrepr_body q (c # rest) = map_option (Cons c) (unrepr_body q rest)"
  by (cases rest) auto

lemma quote_chars:
  "squote \<noteq> backslash" "dquote \<noteq> backslash" "squote \<noteq> dquote"
  "CHR ''t'' \<noteq> backslash" "CHR ''n'' \<noteq> backslash" "CHR ''r'' \<noteq> backslash"
  "squote \<noteq> CHR ''t''" "squote \<noteq> CHR ''n''" "squote \<noteq> CHR ''r''"
  "dquote \<noteq> CHR ''t''" "dquote \<noteq> CHR ''n''" "dquote \<noteq> CHR ''r''"
  "backslash \<noteq> CHR ''t''" "backslash \<noteq> CHR ''n''" "backslash \<noteq> CHR ''r''"
  by (simp_all add: squote_def dquote_def backslash_def)

lemma unrepr_hex:
  assumes "q \<noteq> backslash"
  shows "unrepr_body q (hex_escape c @ rest) = map_option (Cons c) (unrepr_body q rest)"
proof -
  have lt: "(of_char c :: nat) div 16 < 16" "(of_char c :: nat) mod 16 < 16"
    using nat_of_char_less_256[of c] by (simp_all add: less_mult_imp_div_less)
  have inv: "char_of (16 * ((of_char c :: nat) div 16) + (of_char c :: nat) mod 16) = c"
    by simp
  have x: "CHR ''x'' \<noteq> CHR ''t''" "CHR ''x'' \<noteq> CHR ''n''" "CHR ''x'' \<noteq> CHR ''r''"
    "CHR ''x'' \<noteq> backslash" "CHR ''x'' \<noteq> squote" "CHR ''x'' \<noteq> dquote"
    by (simp_all add: squote_def dquote_def backslash_def)
  show ?thesis
    using assms x
    by (simp add: hex_escape_def Let_def hex_val_digit[OF lt(1)] hex_val_digit[OF lt(2)])
qed

lemma unrepr_escape:
  "q \<noteq> backslash \<Longrightarrow> d \<in> {backslash, squote, dquote} \<Longrightarrow>
   unrepr_body q ([backslash, d] @ rest) = map_option (Cons d) (unrepr_body q rest)"
  using quote_chars by auto

lemma unrepr_repr_char:
  assumes q: "q = squote \<or> q = dquote"
  shows "unrepr_body q (repr_char q c @ rest) = map_option (Cons c) (unrepr_body q rest)"
proof -
  have qb: "q \<noteq> backslash"
    using q quote_chars by auto
  show ?thesis
  proof (cases "c = q \<or> c = backslash")
    case True
    then have r: "repr_char q c = [backslash, c]"
      by (auto simp: repr_char_def)
    have "c \<in> {backslash, squote, dquote}"
      using True q by blast
    then show ?thesis
      by (simp only: r unrepr_escape[OF qb])
  next
    case False
    have bq: "backslash \<noteq> q" using qb by simp
    consider "c = CHR 0x09" | "c = CHR 0x0A" | "c = CHR 0x0D"
      | "c \<noteq> CHR 0x09" "c \<noteq> CHR 0x0A" "c \<noteq> CHR 0x0D" "py_isprintable c"
      | "c \<noteq> CHR 0x09" "c \<noteq> CHR 0x0A" "c \<noteq> CHR 0x0D" "\<not> py_isprintable c"
      by blast
    then show ?thesis
    proof cases
      case 1
      then show ?thesis using False bq by (simp add: repr_char_def)
    next
      case 2
      then show ?thesis using False bq by (simp add: repr_char_def)
    next
      case 3
      then show ?thesis using False bq by (simp add: repr_char_def)
    next
      case 4
      then show ?thesis using False unrepr_plain[of c q rest] by (simp add: repr_char_def)
    next
      case 5
      then show ?thesis using False unrepr_hex[OF qb, of c rest] by (simp add: repr_char_def)
    qed
  qed
qed

lemma unrepr_body_repr:
  "q = squote \<or> q = dquote \<Longrightarrow> unrepr_body q (concat (map (repr_char q) s) @ [q]) = Some s"
  by (induction s) (simp_all add: unrepr_repr_char)

text \<open>
  \<open>repr\<close> of a \<open>str\<close> can be read back: the literal it writes denotes the string
  it was given, whatever the characters (quotes, backslashes, controls, Latin-1).  So the
  response quoted by \<open>{code_blob=}\<close> in the extractor's error messages is the response.
\<close>

lemma py_repr_roundtrip: "py_unrepr (py_repr s) = Some s"
proof -
  have "repr_quote s = squote \<or> repr_quote s = dquote"
    by (simp add: repr_quote_def)
  then show ?thesis
    by (auto simp: py_unrepr_def py_repr_def Let_def unrepr_body_repr)
qed

end
