(* ===== verification/Code_Extractor.thy ===== *)
theory Code_Extractor
  imports Py_Builtins
begin

text \<open>
  The code extractor of \<open>CodeAgent\<close> (\<open>code_agent.py\<close>, \<open>parse_code_blobs\<close>, lines
  266-295).  The model reproduces \<open>re.findall\<close> for the pattern
  \<open>```(?:py|python)?\n(.*?)\n```\<close> under \<open>re.DOTALL\<close>: the search tries every start
  position from the left, an attempt tries the alternatives \<open>py\<close>, \<open>python\<close> and the empty
  tag in that order, the body is lazy (it ends at the first \<open>\n```\<close>), and the next search
  resumes after the end of the match.  \<open>ast.parse\<close> is a parameter (the Python grammar is
  outside the model): it either accepts the text, raises \<open>SyntaxError\<close> (caught by the code)
  or raises another exception (which propagates).  The two \<open>ValueError\<close> messages are
  written out as the f-strings build them, \<open>.strip()\<close> included.

  The method is declared without \<open>self\<close> and without \<open>@staticmethod\<close>, yet \<open>reply\<close> calls
  it as \<open>self.parse_code_blobs(response)\<close>: Python binds the instance as the first argument.
  \<open>call_parse_code_blobs\<close> models a call with an explicit argument list, so that the bound
  call is \<open>call_parse_code_blobs ast_parse [PyObj ''CodeAgent'', PyStr response]\<close>.
\<close>

subsection \<open>Definitions\<close>

definition fence_open :: string where "fence_open = ''```''"

definition fence_close :: string where "fence_close = ''\<newline>```''"

text \<open>The optional group \<open>(?:py|python)?\<close>: the group's alternatives first, then empty.\<close>

definition fence_tags :: "string list" where "fence_tags = [''py'', ''python'', '''']"

text \<open>The lazy \<open>(.*?)\n```\<close>: the first position where \<open>\n```\<close> starts.\<close>

fun find_close :: "string \<Rightarrow> nat option" where
  "find_close [] = None"
| "find_close (c # cs) =
     (if starts_with fence_close (c # cs) then Some 0 else map_option Suc (find_close cs))"

text \<open>
  Backtracking over the tag alternatives: the captured body and the number of characters
  consumed after the opening backticks.
\<close>

fun try_tags :: "string list \<Rightarrow> string \<Rightarrow> (string \<times> nat) option" where
  "try_tags [] r = None"
| "try_tags (a # as) r =
     (if starts_with (a @ ''\<newline>'') r
      then (case find_close (drop (length a + 1) r) of
              Some k \<Rightarrow> Some (take k (drop (length a + 1) r), length a + 1 + k + 4)
            | None \<Rightarrow> try_tags as r)
      else try_tags as r)"

text \<open>A match attempt at the start of \<open>s\<close>: the group and the length of the whole match.\<close>

definition match_at :: "string \<Rightarrow> (string \<times> nat) option" where
  "match_at s =
     (if starts_with fence_open s
      then map_option (\<lambda>(m, n). (m, 3 + n)) (try_tags fence_tags (drop 3 s))
      else None)"

text \<open>\<open>re.findall\<close>: after a match of length \<open>n\<close> the search resumes \<open>n\<close> characters on.\<close>

fun findall_code :: "string \<Rightarrow> string list" where
  "findall_code [] = []"
| "findall_code (c # cs) =
     (case match_at (c # cs) of
        Some (m, n) \<Rightarrow> m # findall_code (drop (n - 1) cs)
      | None \<Rightarrow> findall_code cs)"

text \<open>The outcome of \<open>ast.parse(code_blob)\<close>.\<close>

datatype ast_outcome = AstOk | AstSyntaxError | AstRaises py_exc

text \<open>The raw pattern as \<open>{pattern}\<close> prints it: \<open>\n\<close> is a backslash and an \<open>n\<close>.\<close>

definition code_blob_pattern :: string where
  "code_blob_pattern =
     ''```(?:py|python)?'' @ [backslash, CHR ''n''] @ ''(.*?)'' @ [backslash, CHR ''n''] @ ''```''"

definition final_answer_hint_msg :: "string \<Rightarrow> string" where
  \<open>final_answer_hint_msg code_blob = py_strip (
     ''\<newline>    The code blob is invalid, because the regex pattern '' @ code_blob_pattern @
     '' was not found in code_blob='' @ py_repr code_blob @
     ''. It seems like you\'re trying to return the final answer, you can do it as follows:
    Code:
    ```py
    final_answer("YOUR FINAL ANSWER HERE")
    ```<end_code>'')\<close>

definition no_code_blob_msg :: "string \<Rightarrow> string" where
  \<open>no_code_blob_msg code_blob = py_strip (
     ''\<newline>    The code blob is invalid, because the regex pattern '' @ code_blob_pattern @
     '' was not found in code_blob='' @ py_repr code_blob @
     ''. Make sure to include code with the correct pattern, for instance:
    Thoughts: Your thoughts
    Code:
    ```py
    # Your python code here
    ```<end_code>'')\<close>

definition parse_code_blobs :: "(string \<Rightarrow> ast_outcome) \<Rightarrow> string \<Rightarrow> py_exc + string" where
  "parse_code_blobs ast_parse code_blob =
     (let matches = findall_code code_blob in
      if matches = [] then
        (case ast_parse code_blob of
           AstOk \<Rightarrow> Inr code_blob
         | AstRaises e \<Rightarrow> Inl e
         | AstSyntaxError \<Rightarrow>
             if py_in ''final'' code_blob \<and> py_in ''answer'' code_blob
             then Inl (ValueError (final_answer_hint_msg code_blob))
             else Inl (ValueError (no_code_blob_msg code_blob)))
      else Inr (py_join ''\<newline>\<newline>'' (map py_strip matches)))"

text \<open>Python values passed as arguments: a string, or an instance of the named class.\<close>

datatype pyval = PyStr string | PyObj string

text \<open>
  A call of the function object \<open>parse_code_blobs\<close> with positional arguments: it takes
  exactly one; with one non-string argument \<open>re.findall\<close> raises \<open>TypeError\<close>.
\<close>

definition call_parse_code_blobs ::
  "(string \<Rightarrow> ast_outcome) \<Rightarrow> pyval list \<Rightarrow> py_exc + string" where
  \<open>call_parse_code_blobs ast_parse args =
     (case args of
        [] \<Rightarrow> Inl (TypeError (''CodeAgent.parse_code_blobs() missing 1 required positional ''
                             @ ''argument: \'code_blob'' @ [squote]))
      | [PyStr s] \<Rightarrow> parse_code_blobs ast_parse s
      | [PyObj cls] \<Rightarrow> Inl (TypeError (''expected string or bytes-like object, got '' @ py_repr cls))
      | _ \<Rightarrow> Inl (TypeError (''CodeAgent.parse_code_blobs() takes 1 positional argument but ''
                           @ nat_str (length args) @ '' were given'')))\<close>

text \<open>A text made of fenced blocks: a leading gap, then blocks each followed by a gap.\<close>

definition fenced :: "string \<Rightarrow> string \<Rightarrow> string" where
  "fenced tag c = fence_open @ tag @ ''\<newline>'' @ c @ fence_close"

definition fenced_text :: "string \<Rightarrow> (string \<times> string \<times> string) list \<Rightarrow> string" where
  "fenced_text g0 bs = g0 @ concat (map (\<lambda>(tag, c, g). fenced tag c @ g) bs)"

subsection \<open>Lemmas\<close>

lemma starts_with_long:
  "length xs \<le> length ys \<Longrightarrow> starts_with xs (ys @ zs) = starts_with xs ys"
  by (induction xs ys rule: starts_with.induct) auto

lemma starts_with_sublist:
  "starts_with xs ys \<Longrightarrow> py_in xs ys"
  by (simp add: py_str)

lemma find_close_before:
  assumes "\<not> py_in fence_close c"
  shows "find_close (c @ fence_close @ rest) = Some (length c)"
  using assms
proof (induction c)
  case Nil
  then show ?case by (simp add: fence_close_def)
next
  case (Cons x c)
  have noc: "\<not> py_in fence_close c"
    using Cons.prems by (auto simp: py_str sublist_Cons_right)
  have "\<not> starts_with fence_close ((x # c) @ fence_close @ rest)"
  proof
    assume sw: "starts_with fence_close ((x # c) @ fence_close @ rest)"
    show False
    proof (cases "length (x # c) \<ge> 4")
      case True
      then have "starts_with fence_close ((x # c) @ fence_close @ rest) =
                 starts_with fence_close (x # c)"
        by (intro starts_with_long) (simp add: fence_close_def)
      with sw have "starts_with fence_close (x # c)" by simp
      then show False using Cons.prems by (auto dest: starts_with_sublist)
    next
      case False
      then show False
        using sw by (cases c; cases "tl c"; cases "tl (tl c)"; auto simp: fence_close_def)
    qed
  qed
  then show ?case
    using Cons.IH[OF noc] by simp
qed

lemma match_at_fenced:
  assumes "tag \<in> set fence_tags" and "\<not> py_in fence_close c"
  shows "match_at (fenced tag c @ rest) = Some (c, length (fenced tag c))"
proof -
  have fc: "find_close (c @ fence_close @ rest) = Some (length c)"
    using assms(2) by (rule find_close_before)
  have "try_tags fence_tags (tag @ ''\<newline>'' @ c @ fence_close @ rest) =
        Some (c, length tag + 1 + length c + 4)"
    using assms(1) fc by (auto simp: fence_tags_def fence_close_def)
  then show ?thesis
    by (simp add: match_at_def fenced_def fence_open_def fence_close_def)
qed

lemma match_at_Nil [simp]: "match_at [] = None"
  by (simp add: match_at_def fence_open_def)

lemma findall_code_match:
  assumes "match_at s = Some (m, n)" and "0 < n"
  shows "findall_code s = m # findall_code (drop n s)"
proof (cases s)
  case (Cons c cs)
  have "drop n s = drop (n - 1) cs"
    using Cons assms(2) by (cases n) auto
  with Cons assms(1) show ?thesis by simp
qed (use assms in simp)

lemma try_tags_head:
  "try_tags fence_tags r \<noteq> None \<Longrightarrow> \<exists>x xs. r = x # xs \<and> x \<noteq> CHR 0x60"
  by (cases r) (auto simp: fence_tags_def split: if_splits option.splits)

lemma match_at_gap:
  assumes "\<not> py_in fence_open (c # g)" and "s = [] \<or> starts_with fence_open s"
  shows "match_at (c # g @ s) = None"
proof (rule ccontr)
  assume "match_at (c # g @ s) \<noteq> None"
  then have sw: "starts_with fence_open (c # g @ s)"
    and tt: "try_tags fence_tags (drop 3 (c # g @ s)) \<noteq> None"
    by (auto simp: match_at_def split: if_splits)
  show False
  proof (cases "length (c # g) \<ge> 3")
    case True
    then have "starts_with fence_open ((c # g) @ s) = starts_with fence_open (c # g)"
      by (intro starts_with_long) (simp add: fence_open_def)
    with sw have "starts_with fence_open (c # g)" by simp
    then show False using assms(1) by (auto dest: starts_with_sublist)
  next
    case False
    then have short: "g = [] \<or> (\<exists>y. g = [y])"
      by (cases g) (auto simp: Suc_le_eq)
    have "s \<noteq> []"
      using sw short by (auto simp: fence_open_def)
    with assms(2) obtain t where s: "s = CHR 0x60 # CHR 0x60 # CHR 0x60 # t"
      by (auto simp: fence_open_def elim!: starts_with.elims)
    have "\<exists>u. drop 3 (c # g @ s) = CHR 0x60 # u"
      using short s by auto
    with try_tags_head[OF tt] show False by auto
  qed
qed

lemma findall_code_gap:
  assumes "\<not> py_in fence_open g" and "s = [] \<or> starts_with fence_open s"
  shows "findall_code (g @ s) = findall_code s"
  using assms(1)
proof (induction g)
  case (Cons c g)
  have "\<not> py_in fence_open g"
    using Cons.prems by (auto simp: py_str sublist_Cons_right)
  moreover have "match_at (c # g @ s) = None"
    using Cons.prems assms(2) by (rule match_at_gap)
  ultimately show ?case
    using Cons.IH by simp
qed simp

lemma fenced_starts [simp]: "starts_with fence_open (fenced tag c @ rest)"
  by (simp add: fenced_def)

lemma fenced_text_Cons:
  "fenced_text g0 ((tag, c, g) # bs) = g0 @ fenced tag c @ fenced_text g bs"
  by (simp add: fenced_text_def)

lemma findall_code_fenced_text:
  assumes "\<not> py_in fence_open g0"
    and "\<forall>(tag, c, g) \<in> set bs.
           tag \<in> set fence_tags \<and> \<not> py_in fence_close c \<and> \<not> py_in fence_open g"
  shows "findall_code (fenced_text g0 bs) = map (\<lambda>(tag, c, g). c) bs"
  using assms
proof (induction bs arbitrary: g0)
  case Nil
  then show ?case
    using findall_code_gap[of g0 "[]"] by (simp add: fenced_text_def)
next
  case (Cons b bs)
  obtain tag c g where b: "b = (tag, c, g)"
    by (cases b)
  have ok: "tag \<in> set fence_tags" "\<not> py_in fence_close c" "\<not> py_in fence_open g"
    using Cons.prems(2) b by auto
  have "findall_code (fenced_text g0 (b # bs)) = findall_code (fenced tag c @ fenced_text g bs)"
    using findall_code_gap[OF Cons.prems(1)] by (simp add: b fenced_text_Cons)
  also have "\<dots> = c # findall_code (fenced_text g bs)"
    using findall_code_match[OF match_at_fenced[OF ok(1,2)]] by (simp add: fenced_def)
  also have "findall_code (fenced_text g bs) = map (\<lambda>(tag, c, g). c) bs"
    using Cons.IH ok(3) Cons.prems(2) by simp
  finally show ?case
    by (simp add: b)
qed

lemma findall_code_unfenced:
  "\<not> py_in fence_open s \<Longrightarrow> findall_code s = []"
  using findall_code_gap[of s "[]"] by simp

lemma find_close_Some:
  "find_close r = Some k \<Longrightarrow>
   starts_with fence_close (drop k r) \<and> (\<forall>j < k. \<not> starts_with fence_close (drop j r))"
proof (induction r arbitrary: k)
  case (Cons c cs)
  show ?case
  proof (cases "starts_with fence_close (c # cs)")
    case True
    then show ?thesis using Cons.prems by simp
  next
    case False
    then obtain k' where k: "k = Suc k'" and fc: "find_close cs = Some k'"
      using Cons.prems by auto
    have "\<not> starts_with fence_close (drop j (c # cs))" if "j < k" for j
      using Cons.IH[OF fc] False that k by (cases j) auto
    then show ?thesis
      using Cons.IH[OF fc] k by simp
  qed
qed simp

lemma find_close_body:
  assumes "find_close r = Some k"
  shows "\<not> py_in fence_close (take k r) \<and> r = take k r @ fence_close @ drop (k + 4) r"
proof
  show "\<not> py_in fence_close (take k r)"
  proof
    assume "py_in fence_close (take k r)"
    then obtain j where j: "j \<le> length (take k r)" "starts_with fence_close (drop j (take k r))"
      using py_in_drop_starts by blast
    then have "j < k"
      by (cases "j < length (take k r)") (auto simp: fence_close_def)
    moreover have "starts_with fence_close (drop j r)"
      using j(2) by (rule starts_with_drop_take)
    ultimately show False
      using find_close_Some[OF assms] by blast
  qed
next
  have "starts_with fence_close (drop k r)"
    using find_close_Some[OF assms] by blast
  then have d0: "drop k r = fence_close @ drop (length fence_close) (drop k r)"
    by (rule starts_with_drop)
  have l: "length fence_close = 4"
    by (simp add: fence_close_def)
  note d = d0[unfolded l]
  have "r = take k r @ drop k r"
    by simp
  also have "\<dots> = take k r @ fence_close @ drop (k + 4) r"
    by (subst d) (simp only: drop_drop add.commute)
  finally show "r = take k r @ fence_close @ drop (k + 4) r" .
qed

lemma find_close_length:
  assumes "find_close r = Some k"
  shows "length (take k r) = k"
proof -
  have e: "r = take k r @ fence_close @ drop (k + 4) r"
    using find_close_body[OF assms] by blast
  have "length r = length (take k r) + length fence_close + length (drop (k + 4) r)"
    using arg_cong[OF e, of length] by simp
  then show ?thesis
    by (auto simp: fence_close_def min_def split: if_splits)
qed

lemma try_tags_sound:
  "try_tags as r = Some (m, n) \<Longrightarrow>
   \<exists>a \<in> set as. starts_with (a @ ''\<newline>'' @ m @ fence_close) r \<and> \<not> py_in fence_close m \<and>
                n = length a + 1 + length m + 4"
proof (induction as)
  case (Cons a as)
  show ?case
  proof (cases "starts_with (a @ ''\<newline>'') r \<and> find_close (drop (length a + 1) r) \<noteq> None")
    case True
    define d where "d = drop (length a + 1) r"
    obtain k where sw: "starts_with (a @ ''\<newline>'') r" and fc: "find_close d = Some k"
      using True by (auto simp: d_def)
    have mn: "m = take k d" "n = length a + 1 + k + 4"
      using Cons.prems sw fc by (auto simp: d_def)
    have r: "r = (a @ ''\<newline>'') @ d"
      using starts_with_drop[OF sw] by (simp add: d_def)
    have r2: "r = (a @ ''\<newline>'' @ m @ fence_close) @ drop (k + 4) d"
      using r find_close_body[OF fc] mn(1) by simp
    have "starts_with (a @ ''\<newline>'' @ m @ fence_close) r"
      by (subst r2) (rule starts_with_append)
    then show ?thesis
      using find_close_body[OF fc] find_close_length[OF fc] mn by auto
  next
    case False
    then have "try_tags as r = Some (m, n)"
      using Cons.prems by (auto split: if_splits option.splits)
    then show ?thesis using Cons.IH by auto
  qed
qed simp

lemma match_at_sound:
  "match_at s = Some (m, n) \<Longrightarrow>
   \<exists>tag \<in> set fence_tags. starts_with (fenced tag m) s \<and> \<not> py_in fence_close m \<and>
                          n = length (fenced tag m)"
proof -
  assume ma: "match_at s = Some (m, n)"
  then have sw: "starts_with fence_open s"
    and tt: "try_tags fence_tags (drop 3 s) = Some (m, n - 3)" "3 \<le> n"
    by (auto simp: match_at_def split: if_splits)
  obtain tag where tag: "tag \<in> set fence_tags"
    "starts_with (tag @ ''\<newline>'' @ m @ fence_close) (drop 3 s)" "\<not> py_in fence_close m"
    "n - 3 = length tag + 1 + length m + 4"
    using try_tags_sound[OF tt(1)] by blast
  have s: "s = fence_open @ drop 3 s"
    using starts_with_drop[OF sw] by (simp add: fence_open_def numeral_3_eq_3)
  have "drop 3 s = (tag @ ''\<newline>'' @ m @ fence_close) @
                   drop (length (tag @ ''\<newline>'' @ m @ fence_close)) (drop 3 s)"
    by (rule starts_with_drop[OF tag(2)])
  then have s2: "s = fenced tag m @ drop (length (tag @ ''\<newline>'' @ m @ fence_close)) (drop 3 s)"
    using s by (simp add: fenced_def)
  have "starts_with (fenced tag m) s"
    by (subst s2) (rule starts_with_append)
  then show ?thesis
    using tag tt(2) by (auto simp: fenced_def fence_open_def fence_close_def)
qed

text \<open>
  C2.  On a response made of fenced blocks \<open>```py\<close>, \<open>```python\<close> or \<open>```\<close>, each
  closed by \<open>\n```\<close> and separated by text without a fence, \<open>parse_code_blobs\<close>
  returns the blocks' bodies, stripped, joined with blank lines, in order; the Python
  parser is not consulted.
\<close>

theorem parse_code_blobs_fenced:
  assumes "\<not> py_in fence_open g0"
    and "\<forall>(tag, c, g) \<in> set bs.
           tag \<in> set fence_tags \<and> \<not> py_in fence_close c \<and> \<not> py_in fence_open g"
    and "bs \<noteq> []"
  shows "parse_code_blobs ast_parse (fenced_text g0 bs) =
           Inr (py_join ''\<newline>\<newline>'' (map (\<lambda>(tag, c, g). py_strip c) bs))"
proof -
  have "findall_code (fenced_text g0 bs) = map (\<lambda>(tag, c, g). c) bs"
    using assms(1,2) by (rule findall_code_fenced_text)
  moreover have "map py_strip (map (\<lambda>(tag, c, g). c) bs) = map (\<lambda>(tag, c, g). py_strip c) bs"
    by (auto simp: split_def)
  ultimately show ?thesis
    using assms(3) by (simp add: parse_code_blobs_def del: map_map)
qed

theorem parse_code_blobs_fenced_witness:
  "parse_code_blobs (\<lambda>_. AstSyntaxError)
     (fenced_text ''Thought: I print.\<newline>Code:\<newline>''
        [(''py'', ''print(1)'', ''<end_code>''), ([], ''  x = 2 '', [])])
   = Inr ''print(1)\<newline>\<newline>x = 2''"
proof -
  have h1: "\<not> py_in fence_open ''Thought: I print.\<newline>Code:\<newline>''"
    by (simp add: fence_open_def)
  have h2: "\<forall>(tag, c, g) \<in> set [(''py'', ''print(1)'', ''<end_code>''), ([], ''  x = 2 '', [])].
           tag \<in> set fence_tags \<and> \<not> py_in fence_close c \<and> \<not> py_in fence_open g"
    by (simp add: fence_open_def fence_close_def fence_tags_def)
  have "parse_code_blobs (\<lambda>_. AstSyntaxError)
     (fenced_text ''Thought: I print.\<newline>Code:\<newline>''
        [(''py'', ''print(1)'', ''<end_code>''), ([], ''  x = 2 '', [])])
   = Inr (py_join ''\<newline>\<newline>'' [py_strip ''print(1)'', py_strip ''  x = 2 ''])"
    using parse_code_blobs_fenced[OF h1 h2] by simp
  then show ?thesis
    by (simp add: py_strip_def py_lstrip_def py_rstrip_def py_isspace_def)
qed

text \<open>
  C8.  A response without any fence that the Python parser accepts is itself the code blob,
  returned unchanged.
\<close>
theorem parse_code_blobs_unfenced_code:
  assumes "\<not> py_in fence_open s" and "ast_parse s = AstOk"
  shows "parse_code_blobs ast_parse s = Inr s"
  using assms by (simp add: parse_code_blobs_def findall_code_unfenced)

theorem parse_code_blobs_unfenced_code_witness:
  "parse_code_blobs (\<lambda>s. if s = ''x = 1'' then AstOk else AstSyntaxError) ''x = 1'' = Inr ''x = 1''"
  by (rule parse_code_blobs_unfenced_code) (simp_all add: fence_open_def)

text \<open>
  C9.  A response without fence that does not parse and mentions both \<open>final\<close> and
  \<open>answer\<close> raises the \<open>ValueError\<close> that asks for \<open>final_answer\<close> inside a code blob.
\<close>

theorem parse_code_blobs_final_answer_hint:
  assumes "\<not> py_in fence_open s" and "ast_parse s = AstSyntaxError"
    and "py_in ''final'' s" and "py_in ''answer'' s"
  shows "parse_code_blobs ast_parse s = Inl (ValueError (final_answer_hint_msg s))"
  using assms by (simp add: parse_code_blobs_def findall_code_unfenced)

theorem parse_code_blobs_final_answer_hint_witness:
  "parse_code_blobs (\<lambda>_. AstSyntaxError) ''The final answer is 42.''
     = Inl (ValueError (final_answer_hint_msg ''The final answer is 42.''))"
  by (rule parse_code_blobs_final_answer_hint) (simp_all add: fence_open_def)

text \<open>
  C10.  Any other response without fence that does not parse raises the \<open>ValueError\<close>
  that quotes the response and the expected pattern.
\<close>

theorem parse_code_blobs_generic_error:
  assumes "\<not> py_in fence_open s" and "ast_parse s = AstSyntaxError"
    and "\<not> (py_in ''final'' s \<and> py_in ''answer'' s)"
  shows "parse_code_blobs ast_parse s = Inl (ValueError (no_code_blob_msg s))"
  using assms by (auto simp: parse_code_blobs_def findall_code_unfenced)

theorem parse_code_blobs_generic_error_witness:
  "parse_code_blobs (\<lambda>_. AstSyntaxError) ''Thought: answer soon''
     = Inl (ValueError (no_code_blob_msg ''Thought: answer soon''))"
  by (rule parse_code_blobs_generic_error) (simp_all add: fence_open_def)

text \<open>
  C22.  The extractor never invents code: on any response, every block that
  \<open>re.findall\<close> returns occurs in the response between an opening fence with one of
  the tags \<open>py\<close>, \<open>python\<close> or none and the next closing \<open>\n```\<close>, and holds no closing
  fence itself.
\<close>

theorem findall_code_sound:
  "m \<in> set (findall_code s) \<Longrightarrow>
   \<exists>tag \<in> set fence_tags. py_in (fenced tag m) s \<and> \<not> py_in fence_close m"
proof (induction s rule: findall_code.induct)
  case (2 c cs)
  show ?case
  proof (cases "match_at (c # cs)")
    case (Some p)
    obtain m' n where p: "p = (m', n)" by (cases p)
    show ?thesis
    proof (cases "m = m'")
      case True
      then show ?thesis
        using match_at_sound[of "c # cs" m' n] Some p by (auto dest: starts_with_sublist)
    next
      case False
      then have "m \<in> set (findall_code (drop (n - 1) cs))"
        using "2.prems" Some p by simp
      then show ?thesis
        using "2.IH"(2)[OF Some p[symmetric]] by (auto intro: py_in_drop_mono)
    qed
  next
    case None
    then show ?thesis
      using "2.prems" "2.IH"(1) by auto
  qed
qed simp

theorem findall_code_sound_witness:
  "\<exists>tag \<in> set fence_tags. py_in (fenced tag ''print(1)'') ''Code:\<newline>```py\<newline>print(1)\<newline>```<end_code>''
     \<and> \<not> py_in fence_close ''print(1)''"
  by (rule findall_code_sound)
     (simp add: match_at_def fence_open_def fence_tags_def fence_close_def)

text \<open>
  The bound call \<open>self.parse_code_blobs(response)\<close> passes two positional arguments to a
  function of one parameter: it raises \<open>TypeError\<close> whatever the response is, before the
  response is looked at.
\<close>

lemma call_parse_code_blobs_bound:
  "call_parse_code_blobs ast_parse [PyObj cls, PyStr response] =
     Inl (TypeError ''CodeAgent.parse_code_blobs() takes 1 positional argument but 2 were given'')"
  by (simp add: call_parse_code_blobs_def)

lemma call_parse_code_blobs_unbound:
  "call_parse_code_blobs ast_parse [PyStr s] = parse_code_blobs ast_parse s"
  by (simp add: call_parse_code_blobs_def)

end
