(* ===== verification/Py_Format_Spec.thy ===== *)
theory Py_Format_Spec
  imports Py_Builtins
begin

text \<open>
  The format specification mini-language for a \<open>str\<close> value: what \<open>format(v, spec)\<close> does
  when \<open>str.format\<close> renders a field \<open>{name:spec}\<close> of the system-prompt template
  (\<open>code_agent.py\<close> line 248).  The model follows CPython 3.11,
  \<open>Python/formatter_unicode.c\<close>: \<open>get_integer\<close> reads a width or a precision with the
  \<open>Py_ssize_t\<close> overflow check (\<open>read_int\<close>); \<open>parse_internal_render_format_spec\<close> reads
  fill, alignment, sign, \<open>z\<close>, \<open>#\<close>, \<open>0\<close>, width, grouping, precision and type in that order,
  with its error messages (\<open>parse_spec\<close>); \<open>format_string_internal\<close> rejects the options
  that do not apply to strings and pads the value, truncated to the precision, as
  \<open>calc_padding\<close> and \<open>fill_padding\<close> do (\<open>format_str_internal\<close>); and
  \<open>_PyUnicode_FormatAdvancedWriter\<close> dispatches on the type (\<open>format_str\<close>).  For \<open>str\<close> the
  default type is \<open>s\<close> and the default alignment \<open><\<close>.  A result too large to allocate
  (\<open>MemoryError\<close>) is not modelled: the model returns the padded string.  \<open>print_spec\<close> writes
  a parsed specifier back as text; on well-formed specifiers (\<open>spec_wf\<close>) the parser
  inverts it.
\<close>

subsection \<open>Definitions\<close>

definition py_ssize_t_max :: int where "py_ssize_t_max = 2 ^ 63 - 1"

definition is_decimal :: "char \<Rightarrow> bool" where
  "is_decimal c \<longleftrightarrow> c \<in> set ''0123456789''"

definition digit_val :: "char \<Rightarrow> int" where
  "digit_val c = int (of_char c) - 48"

text \<open>\<open>%x\<close> without padding, for the code points 0..255.\<close>

definition hex_str :: "nat \<Rightarrow> string" where
  "hex_str n = (if n < 16 then [hex_digit n] else [hex_digit (n div 16), hex_digit (n mod 16)])"

definition quoted :: "string \<Rightarrow> string" where
  "quoted s = [squote] @ s @ [squote]"

text \<open>A character in an error message: \<open>%c\<close> between 32 and 128, \<open>\x%x\<close> otherwise.\<close>

definition code_text :: "char \<Rightarrow> string" where
  "code_text c = (if 32 < (of_char c :: nat) \<and> (of_char c :: nat) < 128 then [c]
                  else [backslash, CHR ''x''] @ hex_str (of_char c))"

text \<open>The parsed specifier, \<open>InternalFormatSpec\<close>.\<close>

record std_spec =
  sp_fill :: char
  sp_align :: char
  sp_sign :: "char option"
  sp_no_neg_0 :: bool
  sp_alternate :: bool
  sp_width :: "int option"
  sp_thousands :: "char option"
  sp_precision :: "int option"
  sp_type :: char

text \<open>\<open>get_integer\<close> of \<open>formatter_unicode.c\<close>: the leading decimal digits, with the overflow
  check before each step; \<open>None\<close> when no digit is consumed.\<close>

fun read_digits :: "int \<Rightarrow> string \<Rightarrow> py_exc + int \<times> string" where
  "read_digits acc [] = Inr (acc, [])"
| "read_digits acc (c # cs) =
     (if \<not> is_decimal c then Inr (acc, c # cs)
      else if acc > (py_ssize_t_max - digit_val c) div 10
      then Inl (ValueError ''Too many decimal digits in format string'')
      else read_digits (acc * 10 + digit_val c) cs)"

definition read_int :: "string \<Rightarrow> py_exc + int option \<times> string" where
  "read_int s =
     (if s \<noteq> [] \<and> is_decimal (hd s)
      then map_sum id (\<lambda>(n, r). (Some n, r)) (read_digits 0 s)
      else Inr (None, s))"

text \<open>The value of a string of decimal digits, read after \<open>acc\<close>, without bound.\<close>

definition decimal_value :: "int \<Rightarrow> string \<Rightarrow> int" where
  "decimal_value acc s = foldl (\<lambda>a c. a * 10 + digit_val c) acc s"

text \<open>Where \<open>get_integer\<close> stops: the end of the spec or a non-digit.\<close>

definition digits_end :: "string \<Rightarrow> bool" where
  "digits_end r \<longleftrightarrow> r = [] \<or> \<not> is_decimal (hd r)"

definition is_alignment_token :: "char \<Rightarrow> bool" where
  "is_alignment_token c \<longleftrightarrow> c \<in> set ''<>=^''"

definition is_sign_element :: "char \<Rightarrow> bool" where
  "is_sign_element c \<longleftrightarrow> c \<in> set '' +-''"

text \<open>An optional one-character flag.\<close>

definition opt_char :: "char \<Rightarrow> string \<Rightarrow> bool \<times> string" where
  "opt_char c s = (if s \<noteq> [] \<and> hd s = c then (True, tl s) else (False, s))"

text \<open>Fill and alignment: the fill is given only with an alignment after it.  The result is
  the fill, the alignment, whether a fill was given, and the rest.\<close>

definition spec_fill_align :: "string \<Rightarrow> (char \<times> char \<times> bool) \<times> string" where
  "spec_fill_align s =
     (if 2 \<le> length s \<and> is_alignment_token (s ! 1) then ((s ! 0, s ! 1, True), drop 2 s)
      else if s \<noteq> [] \<and> is_alignment_token (hd s) then ((CHR '' '', hd s, False), tl s)
      else ((CHR '' '', CHR ''<'', False), s))"

definition spec_sign :: "string \<Rightarrow> char option \<times> string" where
  "spec_sign s = (if s \<noteq> [] \<and> is_sign_element (hd s) then (Some (hd s), tl s) else (None, s))"

definition both_separators :: py_exc where
  "both_separators = ValueError (''Cannot specify both '' @ quoted '','' @ '' and '' @ quoted ''_'' @ ''.'')"

text \<open>Grouping: \<open>,\<close> then \<open>_\<close>, each at most once, not both.\<close>

definition spec_thousands :: "string \<Rightarrow> py_exc + char option \<times> string" where
  "spec_thousands s =
     (let (comma, r1) = opt_char (CHR '','') s;
          th = (if comma then Some (CHR '','') else None)
      in if r1 \<noteq> [] \<and> hd r1 = CHR ''_''
         then (if th \<noteq> None then Inl both_separators
               else if tl r1 \<noteq> [] \<and> hd (tl r1) = CHR '','' then Inl both_separators
               else Inr (Some (CHR ''_''), tl r1))
         else Inr (th, r1))"

text \<open>Precision: a dot must be followed by digits.\<close>

definition spec_precision :: "string \<Rightarrow> py_exc + int option \<times> string" where
  "spec_precision s =
     (if s \<noteq> [] \<and> hd s = CHR ''.''
      then (case read_int (tl s) of
              Inl e \<Rightarrow> Inl e
            | Inr (None, _) \<Rightarrow> Inl (ValueError ''Format specifier missing precision'')
            | Inr (Some p, r) \<Rightarrow> Inr (Some p, r))
      else Inr (None, s))"

text \<open>The grouping options allowed with each presentation type (\<open>invalid_thousands_separator_type\<close>).\<close>

definition check_thousands :: "char option \<Rightarrow> char \<Rightarrow> py_exc option" where
  "check_thousands th ty =
     (case th of
        None \<Rightarrow> None
      | Some t \<Rightarrow>
          if ty \<in> set ''defgEG%F'' \<or> ty = CHR 0x00 then None
          else if ty \<in> set ''boxX'' \<and> t = CHR ''_'' then None
          else Some (ValueError (''Cannot specify '' @ quoted [t] @ '' with '' @ quoted (code_text ty) @ ''.'')))"

text \<open>\<open>parse_internal_render_format_spec(obj, spec, ..., 's', '<')\<close>.  The branch that turns
  a \<open>0\<close> flag into \<open>=\<close> alignment applies only to a default alignment \<open>>\<close>, never to \<open>str\<close>.\<close>

definition parse_spec :: "string \<Rightarrow> py_exc + std_spec" where
  "parse_spec s =
     (let ((fill, align, fill_given), r1) = spec_fill_align s;
          (sign, r2) = spec_sign r1;
          (no_neg_0, r3) = opt_char (CHR ''z'') r2;
          (alternate, r4) = opt_char (CHR ''#'') r3;
          (zero, r5) = (if fill_given then (False, r4) else opt_char (CHR ''0'') r4)
      in case read_int r5 of
           Inl e \<Rightarrow> Inl e
         | Inr (width, r6) \<Rightarrow>
             (case spec_thousands r6 of
                Inl e \<Rightarrow> Inl e
              | Inr (th, r7) \<Rightarrow>
                  (case spec_precision r7 of
                     Inl e \<Rightarrow> Inl e
                   | Inr (prec, r8) \<Rightarrow>
                       if 1 < length r8
                       then Inl (ValueError (''Invalid format specifier '' @ quoted s @
                                             '' for object of type '' @ quoted ''str''))
                       else
                         (let ty = (if r8 = [] then CHR ''s'' else hd r8) in
                          case check_thousands th ty of
                            Some e \<Rightarrow> Inl e
                          | None \<Rightarrow>
                              Inr \<lparr>sp_fill = (if zero then CHR ''0'' else fill), sp_align = align,
                                   sp_sign = sign, sp_no_neg_0 = no_neg_0, sp_alternate = alternate,
                                   sp_width = width, sp_thousands = th, sp_precision = prec,
                                   sp_type = ty\<rparr>))))"

text \<open>\<open>calc_padding\<close>: the length shown (the value truncated to the precision) and the
  total width.\<close>

definition shown_length :: "std_spec \<Rightarrow> string \<Rightarrow> nat" where
  "shown_length f v = (case sp_precision f of Some p \<Rightarrow> min (length v) (nat p) | None \<Rightarrow> length v)"

definition padded_width :: "std_spec \<Rightarrow> string \<Rightarrow> nat" where
  "padded_width f v =
     (case sp_width f of Some w \<Rightarrow> max (shown_length f v) (nat w) | None \<Rightarrow> shown_length f v)"

text \<open>\<open>calc_padding\<close> and \<open>fill_padding\<close>: the shown part of the value, padded with the
  fill to the total width according to the alignment.\<close>

definition pad_string :: "std_spec \<Rightarrow> string \<Rightarrow> string" where
  "pad_string f v =
     (let len = shown_length f v;
          total = padded_width f v;
          lpad = (if sp_align f = CHR ''>'' then total - len
                  else if sp_align f = CHR ''^'' then (total - len) div 2 else 0);
          rpad = total - len - lpad
      in replicate lpad (sp_fill f) @ take len v @ replicate rpad (sp_fill f))"

text \<open>\<open>format_string_internal\<close>, with its fast path for a value that needs no padding and no
  truncation.\<close>

definition format_str_internal :: "std_spec \<Rightarrow> string \<Rightarrow> py_exc + string" where
  "format_str_internal f v =
     (if sp_sign f \<noteq> None
      then Inl (ValueError (if sp_sign f = Some (CHR '' '')
                            then ''Space not allowed in string format specifier''
                            else ''Sign not allowed in string format specifier''))
      else if sp_no_neg_0 f
      then Inl (ValueError ''Negative zero coercion (z) not allowed in string format specifier'')
      else if sp_alternate f
      then Inl (ValueError ''Alternate form (#) not allowed in string format specifier'')
      else if sp_align f = CHR ''=''
      then Inl (ValueError (quoted ''='' @ '' alignment not allowed in string format specifier''))
      else if (case sp_width f of None \<Rightarrow> True | Some w \<Rightarrow> w \<le> int (length v)) \<and>
              (case sp_precision f of None \<Rightarrow> True | Some p \<Rightarrow> int (length v) \<le> p)
      then Inr v
      else Inr (pad_string f v))"

text \<open>\<open>format(v, spec)\<close> for a \<open>str\<close> \<open>v\<close>: the empty spec is \<open>str(v)\<close>; otherwise only the
  type \<open>s\<close> applies.\<close>

definition format_str :: "string \<Rightarrow> string \<Rightarrow> py_exc + string" where
  "format_str v spec =
     (if spec = [] then Inr v
      else case parse_spec spec of
             Inl e \<Rightarrow> Inl e
           | Inr f \<Rightarrow>
               if sp_type f = CHR ''s'' then format_str_internal f v
               else Inl (ValueError (''Unknown format code '' @ quoted (code_text (sp_type f)) @
                                     '' for object of type '' @ quoted ''str'')))"

text \<open>The printer of a parsed specifier, the inverse of the parser on well-formed ones:
  fill and alignment always written, then each option in the parser's order, then the
  presentation type.\<close>

definition print_spec :: "std_spec \<Rightarrow> string" where
  "print_spec f =
     [sp_fill f, sp_align f] @
     (case sp_sign f of None \<Rightarrow> [] | Some c \<Rightarrow> [c]) @
     (if sp_no_neg_0 f then ''z'' else []) @
     (if sp_alternate f then ''#'' else []) @
     (case sp_width f of None \<Rightarrow> [] | Some w \<Rightarrow> nat_str (nat w)) @
     (case sp_thousands f of None \<Rightarrow> [] | Some t \<Rightarrow> [t]) @
     (case sp_precision f of None \<Rightarrow> [] | Some p \<Rightarrow> ''.'' @ nat_str (nat p)) @
     [sp_type f]"

definition spec_wf :: "std_spec \<Rightarrow> bool" where
  "spec_wf f \<longleftrightarrow>
     is_alignment_token (sp_align f) \<and>
     (case sp_sign f of None \<Rightarrow> True | Some c \<Rightarrow> is_sign_element c) \<and>
     (case sp_width f of None \<Rightarrow> True | Some w \<Rightarrow> 0 \<le> w \<and> w \<le> py_ssize_t_max) \<and>
     (case sp_thousands f of None \<Rightarrow> True | Some t \<Rightarrow> t \<in> set '',_'') \<and>
     (case sp_precision f of None \<Rightarrow> True | Some p \<Rightarrow> 0 \<le> p \<and> p \<le> py_ssize_t_max) \<and>
     sp_type f \<in> set ''bcdeEfFgGnosxX%'' \<and>
     check_thousands (sp_thousands f) (sp_type f) = None"

definition head_not :: "string \<Rightarrow> string \<Rightarrow> bool" where
  "head_not cs r \<longleftrightarrow> r \<noteq> [] \<and> hd r \<notin> set cs \<and> \<not> is_decimal (hd r)"

subsection \<open>Lemmas\<close>

lemmas format_spec_simps = format_str_def parse_spec_def spec_fill_align_def spec_sign_def opt_char_def
  read_int_def spec_thousands_def spec_precision_def check_thousands_def is_alignment_token_def
  is_sign_element_def is_decimal_def digit_val_def py_ssize_t_max_def format_str_internal_def
  pad_string_def shown_length_def padded_width_def

lemma format_str_empty [simp]: "format_str v [] = Inr v"
  by (simp add: format_str_def)

lemma digit_val_bounds:
  "is_decimal c \<Longrightarrow> 0 \<le> digit_val c \<and> digit_val c \<le> 9"
  by (auto simp: is_decimal_def digit_val_def)

lemma decimal_value_mono:
  "0 \<le> acc \<Longrightarrow> \<forall>c \<in> set s. is_decimal c \<Longrightarrow> acc \<le> decimal_value acc s"
proof (induction s arbitrary: acc)
  case (Cons c s)
  have "0 \<le> digit_val c" using Cons.prems digit_val_bounds by simp
  then have "acc \<le> acc * 10 + digit_val c" using Cons.prems(1) by simp
  also have "\<dots> \<le> decimal_value (acc * 10 + digit_val c) s"
    using Cons.IH[of "acc * 10 + digit_val c"] Cons.prems \<open>0 \<le> digit_val c\<close> by simp
  finally show ?case by (simp add: decimal_value_def)
qed (simp add: decimal_value_def)

lemma overflow_check:
  "0 \<le> d \<Longrightarrow> d \<le> 9 \<Longrightarrow> acc > (py_ssize_t_max - d) div 10 \<longleftrightarrow> acc * 10 + d > py_ssize_t_max"
proof -
  have "(py_ssize_t_max - d) div 10 < acc \<longleftrightarrow> py_ssize_t_max - d < acc * 10"
    using div_mult_mod_eq[of "py_ssize_t_max - d" 10]
          pos_mod_sign[of 10 "py_ssize_t_max - d"] pos_mod_bound[of 10 "py_ssize_t_max - d"]
    by linarith
  then show "acc > (py_ssize_t_max - d) div 10 \<longleftrightarrow> acc * 10 + d > py_ssize_t_max"
    by linarith
qed

lemma read_digits_value:
  "0 \<le> acc \<Longrightarrow> acc \<le> py_ssize_t_max \<Longrightarrow> \<forall>c \<in> set s. is_decimal c \<Longrightarrow> digits_end r \<Longrightarrow>
   read_digits acc (s @ r) =
     (if decimal_value acc s \<le> py_ssize_t_max then Inr (decimal_value acc s, r)
      else Inl (ValueError ''Too many decimal digits in format string''))"
proof (induction s arbitrary: acc)
  case Nil
  then show ?case by (cases r) (simp_all add: decimal_value_def digits_end_def)
next
  case (Cons c s)
  have d: "0 \<le> digit_val c" "digit_val c \<le> 9"
    using Cons.prems digit_val_bounds by auto
  have unf: "decimal_value acc (c # s) = decimal_value (acc * 10 + digit_val c) s"
    by (simp add: decimal_value_def)
  show ?case
  proof (cases "acc * 10 + digit_val c > py_ssize_t_max")
    case True
    then have "decimal_value acc (c # s) > py_ssize_t_max"
      using decimal_value_mono[of "acc * 10 + digit_val c" s] Cons.prems d unf by simp
    then show ?thesis
      using True overflow_check[OF d] Cons.prems by simp
  next
    case False
    then show ?thesis
      using Cons.IH[of "acc * 10 + digit_val c"] overflow_check[OF d] Cons.prems d unf by simp
  qed
qed

lemma digit_char:
  "n < 10 \<Longrightarrow> is_decimal (''0123456789'' ! n) \<and> digit_val (''0123456789'' ! n) = int n"
  by (auto simp: is_decimal_def digit_val_def numeral_eq_Suc less_Suc_eq)

lemma nat_str_digits:
  "nat_str n \<noteq> [] \<and> (\<forall>c \<in> set (nat_str n). is_decimal c) \<and> decimal_value 0 (nat_str n) = int n"
proof (induction n rule: nat_str.induct)
  case (1 n)
  show ?case
  proof (cases "n < 10")
    case True
    then show ?thesis using digit_char[OF True] by (simp add: decimal_value_def)
  next
    case False
    have m: "n mod 10 < 10" by simp
    have "int (n div 10) * 10 + int (n mod 10) = int n"
      using div_mult_mod_eq[of n 10] by (metis of_nat_add of_nat_mult of_nat_numeral)
    moreover have "nat_str n = nat_str (n div 10) @ [''0123456789'' ! (n mod 10)]"
      using False by (subst nat_str.simps) simp
    ultimately show ?thesis
      using "1.IH"[OF False] digit_char[OF m] by (simp add: decimal_value_def)
  qed
qed

lemma read_int_digits:
  assumes "ds \<noteq> []" "\<forall>c \<in> set ds. is_decimal c" "decimal_value 0 ds \<le> py_ssize_t_max" "digits_end r"
  shows "read_int (ds @ r) = Inr (Some (decimal_value 0 ds), r)"
proof -
  obtain c cs where ds: "ds = c # cs" using assms(1) by (cases ds) auto
  have "read_digits 0 (ds @ r) = Inr (decimal_value 0 ds, r)"
    using read_digits_value[of 0 ds r] assms by (simp add: py_ssize_t_max_def)
  then show ?thesis
    using assms(2) by (simp add: read_int_def ds)
qed

lemma decimal_not_flag:
  "is_decimal d \<Longrightarrow> \<not> is_sign_element d \<and> d \<noteq> CHR ''z'' \<and> d \<noteq> CHR ''#''"
  unfolding is_decimal_def is_sign_element_def
  by (simp only: list.set insert_iff empty_iff) (elim disjE; simp)

lemma parse_spec_fill_align_width:
  assumes "is_alignment_token a" and "int w \<le> py_ssize_t_max"
  shows "parse_spec ([c, a] @ nat_str w) =
           Inr \<lparr>sp_fill = c, sp_align = a, sp_sign = None, sp_no_neg_0 = False, sp_alternate = False,
                sp_width = Some (int w), sp_thousands = None, sp_precision = None, sp_type = CHR ''s''\<rparr>"
proof -
  obtain d ds where ns: "nat_str w = d # ds"
    using nat_str_digits[of w] by (cases "nat_str w") auto
  have d: "\<not> is_sign_element d" "d \<noteq> CHR ''z''" "d \<noteq> CHR ''#''"
    using decimal_not_flag[of d] nat_str_digits[of w] ns by auto
  have ri: "read_int (nat_str w) = Inr (Some (int w), [])"
    using read_int_digits[of "nat_str w" "[]"] nat_str_digits[of w] assms(2) by (simp add: digits_end_def)
  show ?thesis
    using assms(1) d ri
    by (simp add: parse_spec_def spec_fill_align_def spec_sign_def opt_char_def ns
                  spec_thousands_def spec_precision_def check_thousands_def)
qed

lemma align_not_brace:
  "a \<in> set ''<>^'' \<Longrightarrow> a \<noteq> CHR ''{'' \<and> a \<noteq> CHR ''}'' \<and> is_alignment_token a \<and> a \<noteq> CHR ''=''"
  unfolding is_alignment_token_def by (simp only: list.set insert_iff empty_iff) (elim disjE; simp)

text \<open>
  Printing and parsing a width agree: \<open>get_integer\<close> of \<open>formatter_unicode.c\<close> reads
  back the decimal text \<open>str(n)\<close> of any \<open>n\<close> that fits a \<open>Py_ssize_t\<close>, and stops
  exactly where the digits end.
\<close>

lemma read_int_nat_str:
  assumes "int n \<le> py_ssize_t_max" and "digits_end r"
  shows "read_int (nat_str n @ r) = Inr (Some (int n), r)"
  using read_int_digits[of "nat_str n" r] nat_str_digits[of n] assms by simp

lemma read_int_nat_str_witness:
  "read_int (nat_str 120 @ ''.5s'') = Inr (Some 120, ''.5s'')"
  using read_int_nat_str[of 120 "''.5s''"] by (simp add: py_ssize_t_max_def digits_end_def is_decimal_def)

lemma pad_string_fast:
  assumes "case sp_width f of None \<Rightarrow> True | Some w \<Rightarrow> w \<le> int (length v)"
      and "case sp_precision f of None \<Rightarrow> True | Some p \<Rightarrow> int (length v) \<le> p"
  shows "pad_string f v = v"
proof -
  have "shown_length f v = length v"
    using assms(2) by (auto simp: shown_length_def split: option.splits)
  moreover have "padded_width f v = length v"
    using assms(1) \<open>shown_length f v = length v\<close> by (auto simp: padded_width_def split: option.splits)
  ultimately show ?thesis by (simp add: pad_string_def Let_def)
qed

lemma format_str_internal_pad:
  assumes "sp_sign f = None" "\<not> sp_no_neg_0 f" "\<not> sp_alternate f" "sp_align f \<noteq> CHR ''=''"
  shows "format_str_internal f v = Inr (pad_string f v)"
  using assms pad_string_fast[where f = f and v = v] by (simp add: format_str_internal_def)

lemma parse_spec_Nil:
  "parse_spec [] = Inr \<lparr>sp_fill = CHR '' '', sp_align = CHR ''<'', sp_sign = None, sp_no_neg_0 = False,
     sp_alternate = False, sp_width = None, sp_thousands = None, sp_precision = None, sp_type = CHR ''s''\<rparr>"
  by (simp add: parse_spec_def spec_fill_align_def spec_sign_def opt_char_def read_int_def
                spec_thousands_def spec_precision_def check_thousands_def)

text \<open>
  The fast path of \<open>format_string_internal\<close> is an optimisation: whenever
  \<open>format(v, spec)\<close> returns, through the fast path, the padding code or the empty spec,
  its result is the reference padding \<open>pad_string\<close> of the parsed specifier.
\<close>

lemma format_str_is_padding:
  assumes "format_str v sp = Inr r"
  shows "\<exists>f. parse_spec sp = Inr f \<and> r = pad_string f v"
proof (cases "sp = []")
  case True
  then show ?thesis
    using assms parse_spec_Nil pad_string_fast by (simp add: format_str_def)
next
  case False
  then obtain f where f: "parse_spec sp = Inr f" and s: "sp_type f = CHR ''s''"
      and r: "format_str_internal f v = Inr r"
    using assms by (auto simp: format_str_def split: sum.splits if_splits)
  have "sp_sign f = None" "\<not> sp_no_neg_0 f" "\<not> sp_alternate f" "sp_align f \<noteq> CHR ''=''"
    using r by (auto simp: format_str_internal_def split: if_splits)
  then show ?thesis
    using f r format_str_internal_pad by fastforce
qed

text \<open>
  The layout of a formatted string: the fill, the value truncated to the precision,
  the fill again, \<open>max(len, width)\<close> characters in all; right alignment puts all the fill
  on the left, centring splits it with the odd character on the right, and the other
  alignments put it all on the right.
\<close>

lemma pad_string_layout:
  "\<exists>l r. pad_string f v = replicate l (sp_fill f) @ take (shown_length f v) v @ replicate r (sp_fill f) \<and>
         l + shown_length f v + r = padded_width f v \<and>
         (sp_align f = CHR ''>'' \<longrightarrow> r = 0) \<and>
         (sp_align f = CHR ''^'' \<longrightarrow> l \<le> r \<and> r \<le> l + 1) \<and>
         (sp_align f \<noteq> CHR ''>'' \<and> sp_align f \<noteq> CHR ''^'' \<longrightarrow> l = 0)"
proof -
  have le: "shown_length f v \<le> padded_width f v"
    by (auto simp: padded_width_def split: option.splits)
  show ?thesis
    unfolding pad_string_def Let_def
    by (rule exI, rule exI, rule conjI[OF refl]) (use le in auto)
qed

lemma format_str_is_padding_witness:
  "format_str ''abc'' ''^7'' = Inr ''  abc  '' \<and> (\<exists>f. parse_spec ''^7'' = Inr f \<and> ''  abc  '' = pad_string f ''abc'')"
proof
  show c: "format_str ''abc'' ''^7'' = Inr ''  abc  ''"
    by (simp add: format_spec_simps Let_def, simp add: numeral_2_eq_2)
  show "\<exists>f. parse_spec ''^7'' = Inr f \<and> ''  abc  '' = pad_string f ''abc''"
    by (rule format_str_is_padding[OF c])
qed

lemma pad_string_layout_witness:
  "\<exists>l r. pad_string \<lparr>sp_fill = CHR ''*'', sp_align = CHR ''^'', sp_sign = None, sp_no_neg_0 = False,
          sp_alternate = False, sp_width = Some 9, sp_thousands = None, sp_precision = Some 2,
          sp_type = CHR ''s''\<rparr> ''abc'' = replicate l CHR ''*'' @ ''ab'' @ replicate r CHR ''*'' \<and>
        l + 2 + r = 9 \<and> l \<le> r \<and> r \<le> l + 1"
  using pad_string_layout[of "\<lparr>sp_fill = CHR ''*'', sp_align = CHR ''^'', sp_sign = None, sp_no_neg_0 = False,
          sp_alternate = False, sp_width = Some 9, sp_thousands = None, sp_precision = Some 2,
          sp_type = CHR ''s''\<rparr>" "''abc''"]
  by (simp add: shown_length_def padded_width_def)

lemma type_head:
  "ty \<in> set ''bcdeEfFgGnosxX%'' \<Longrightarrow> head_not '' +-z#,_.'' [ty]"
  unfolding head_not_def is_decimal_def by (simp only: list.set insert_iff empty_iff) (elim disjE; simp)

lemma stage_precision:
  assumes "head_not ''.'' r"
      and "case prec of None \<Rightarrow> True | Some p \<Rightarrow> 0 \<le> p \<and> p \<le> py_ssize_t_max"
  shows "spec_precision ((case prec of None \<Rightarrow> [] | Some p \<Rightarrow> ''.'' @ nat_str (nat p)) @ r) = Inr (prec, r)"
proof (cases prec)
  case None
  then show ?thesis using assms(1) by (simp add: spec_precision_def head_not_def)
next
  case (Some p)
  have "read_int (nat_str (nat p) @ r) = Inr (Some (int (nat p)), r)"
    using read_int_digits[of "nat_str (nat p)" r] nat_str_digits[of "nat p"] assms Some
    by (simp add: head_not_def digits_end_def)
  then show ?thesis using Some assms(2) by (simp add: spec_precision_def)
qed

lemma stage_thousands:
  assumes "head_not '',_'' r" and "case th of None \<Rightarrow> True | Some t \<Rightarrow> t \<in> set '',_''"
  shows "spec_thousands ((case th of None \<Rightarrow> [] | Some t \<Rightarrow> [t]) @ r) = Inr (th, r)"
  using assms by (cases th) (auto simp: spec_thousands_def opt_char_def head_not_def)

lemma stage_width:
  assumes "head_not [] r" and "case w of None \<Rightarrow> True | Some n \<Rightarrow> 0 \<le> n \<and> n \<le> py_ssize_t_max"
  shows "read_int ((case w of None \<Rightarrow> [] | Some n \<Rightarrow> nat_str (nat n)) @ r) = Inr (w, r)"
proof (cases w)
  case None
  then show ?thesis using assms(1) by (simp add: read_int_def head_not_def)
next
  case (Some n)
  then show ?thesis
    using read_int_digits[of "nat_str (nat n)" r] nat_str_digits[of "nat n"] assms
    by (simp add: head_not_def digits_end_def)
qed

lemma stage_flag:
  "r \<noteq> [] \<Longrightarrow> hd r \<noteq> c \<Longrightarrow> opt_char c ((if b then [c] else []) @ r) = (b, r)"
  by (simp add: opt_char_def)

lemma stage_sign:
  assumes "r \<noteq> []" "\<not> is_sign_element (hd r)" "case sg of None \<Rightarrow> True | Some c \<Rightarrow> is_sign_element c"
  shows "spec_sign ((case sg of None \<Rightarrow> [] | Some c \<Rightarrow> [c]) @ r) = (sg, r)"
  using assms by (cases sg) (simp_all add: spec_sign_def)

lemma stage_fill_align:
  "is_alignment_token a \<Longrightarrow> spec_fill_align (c # a # r) = ((c, a, True), r)"
  by (simp add: spec_fill_align_def)

lemma decimal_head_flags: "is_decimal d \<Longrightarrow> d \<notin> set '' +-z#''"
  unfolding is_decimal_def by (simp only: list.set insert_iff empty_iff) (elim disjE; simp)

text \<open>
  Printing and parsing a format specifier agree: \<open>parse_internal_render_format_spec\<close>
  reads back every well-formed specifier from its printed form (fill and alignment,
  sign, \<open>z\<close>, \<open>#\<close>, width, grouping, precision and a presentation type), each stage
  stopping exactly where the next begins.
\<close>

lemma parse_print_spec:
  assumes "spec_wf f"
  shows "parse_spec (print_spec f) = Inr f"
proof (cases f)
  case (fields fill align sg z alt w th p ty)
  define T where "T = [ty]"
  define P where "P = (case p of None \<Rightarrow> [] | Some n \<Rightarrow> ''.'' @ nat_str (nat n)) @ T"
  define H where "H = (case th of None \<Rightarrow> [] | Some t \<Rightarrow> [t]) @ P"
  define W where "W = (case w of None \<Rightarrow> [] | Some n \<Rightarrow> nat_str (nat n)) @ H"
  define A where "A = (if alt then ''#'' else []) @ W"
  define Z where "Z = (if z then ''z'' else []) @ A"
  define S where "S = (case sg of None \<Rightarrow> [] | Some c \<Rightarrow> [c]) @ Z"
  have wf: "is_alignment_token align" "case sg of None \<Rightarrow> True | Some c \<Rightarrow> is_sign_element c"
      "case w of None \<Rightarrow> True | Some n \<Rightarrow> 0 \<le> n \<and> n \<le> py_ssize_t_max"
      "case th of None \<Rightarrow> True | Some t \<Rightarrow> t \<in> set '',_''"
      "case p of None \<Rightarrow> True | Some n \<Rightarrow> 0 \<le> n \<and> n \<le> py_ssize_t_max"
      "ty \<in> set ''bcdeEfFgGnosxX%''" "check_thousands th ty = None"
    using assms by (simp_all add: spec_wf_def fields)
  have hT: "head_not '' +-z#,_.'' T"
    unfolding T_def by (rule type_head[OF wf(6)])
  have hP: "head_not '' +-z#,_'' P"
    using hT by (cases p) (simp_all add: P_def head_not_def is_decimal_def)
  have hH: "head_not '' +-z#'' H"
    using hP wf(4) by (cases th) (auto simp: H_def head_not_def is_decimal_def)
  have hW: "W \<noteq> [] \<and> hd W \<notin> set '' +-z#''"
  proof (cases w)
    case (Some n)
    then obtain d ds where "nat_str (nat n) = d # ds" "is_decimal d"
      using nat_str_digits[of "nat n"] by (cases "nat_str (nat n)") auto
    then show ?thesis using Some decimal_head_flags[of d] by (simp add: W_def)
  qed (use hH in \<open>simp add: W_def head_not_def\<close>)
  have hA: "A \<noteq> [] \<and> hd A \<notin> set '' +-z''"
    using hW by (cases alt) (simp_all add: A_def)
  have hZ: "Z \<noteq> [] \<and> \<not> is_sign_element (hd Z)"
    using hA by (cases z) (auto simp: Z_def is_sign_element_def)
  have print: "print_spec f = fill # align # S"
    by (simp add: print_spec_def fields S_def Z_def A_def W_def H_def P_def T_def)
  have s1: "spec_sign S = (sg, Z)"
    unfolding S_def using hZ wf(2) by (intro stage_sign) auto
  have s2: "opt_char (CHR ''z'') Z = (z, A)"
    unfolding Z_def using hA by (intro stage_flag) auto
  have s3: "opt_char (CHR ''#'') A = (alt, W)"
    unfolding A_def using hW by (intro stage_flag) auto
  have s4: "read_int W = Inr (w, H)"
    unfolding W_def using hH wf(3) by (intro stage_width) (auto simp: head_not_def)
  have s5: "spec_thousands H = Inr (th, P)"
    unfolding H_def using hP wf(4) by (intro stage_thousands) (auto simp: head_not_def)
  have s6: "spec_precision P = Inr (p, T)"
    unfolding P_def using hT wf(5) by (intro stage_precision) (auto simp: head_not_def)
  show ?thesis
    unfolding print using wf(1,7)
    by (simp add: parse_spec_def stage_fill_align s1 s2 s3 s4 s5 s6 T_def fields)
qed

lemma parse_print_spec_witness:
  "parse_spec ''*>12_.3x'' =
     Inr \<lparr>sp_fill = CHR ''*'', sp_align = CHR ''>'', sp_sign = None, sp_no_neg_0 = False,
          sp_alternate = False, sp_width = Some 12, sp_thousands = Some (CHR ''_''),
          sp_precision = Some 3, sp_type = CHR ''x''\<rparr>"
  using parse_print_spec[of "\<lparr>sp_fill = CHR ''*'', sp_align = CHR ''>'', sp_sign = None, sp_no_neg_0 = False,
          sp_alternate = False, sp_width = Some 12, sp_thousands = Some (CHR ''_''),
          sp_precision = Some 3, sp_type = CHR ''x''\<rparr>"]
  by (simp add: spec_wf_def print_spec_def nat_str.simps is_alignment_token_def check_thousands_def
                py_ssize_t_max_def)

end
