(* ===== verification/Py_Format.thy ===== *)
theory Py_Format
  imports Py_Format_Spec
begin

text \<open>
  \<open>str.format\<close> with keyword arguments of type \<open>str\<close>, as \<open>CodeAgent.__init__\<close> applies
  it to the system-prompt template (\<open>sys_prompt.format(name=self.name)\<close>,
  \<open>code_agent.py\<close> line 248).  The model follows CPython's \<open>MarkupIterator_next\<close> and
  \<open>parse_field\<close> (\<open>Objects/stringlib/unicode_format.h\<close>) as a deterministic machine that
  reads one character per step (\<open>fmt_step\<close>) and a final check at the end of the input
  (\<open>fmt_finish\<close>); fields are rendered as soon as they close, so the first error met from
  the left is the one raised, as in CPython.  The field name is resolved as
  \<open>field_name_split\<close> and \<open>get_integer\<close> do: an empty or all-digit first part is a
  positional index (there are no positional arguments, so \<open>IndexError\<close>; more digits than
  a \<open>Py_ssize_t\<close> holds give \<open>ValueError\<close>), any other first part is looked up among the
  keywords (\<open>KeyError\<close> when absent).  The rest of the name is walked over the value as
  \<open>FieldNameIterator_next\<close> does (\<open>field_walk\<close>): \<open>[i]\<close> indexes the string, \<open>[key]\<close>
  raises \<open>TypeError\<close>, \<open>.name\<close> raises \<open>AttributeError\<close> unless \<open>name\<close> is an attribute
  of \<open>str\<close>, whose rendering (a bound method with its memory address) is the one value
  left as \<open>FmtNotModelled\<close>.  A format spec is rendered by \<open>format_str\<close> of
  \<open>Py_Format_Spec\<close>; a spec that holds a field is first expanded by \<open>build_string\<close> one
  recursion level down (\<open>spec_expand\<close>), and at depth 0 \<open>build_string\<close> raises
  \<open>Max string recursion exceeded\<close>.  The scanner takes that expansion as a parameter
  \<open>ex\<close>, so \<open>py_format\<close> is the scanner at depth 2 without recursion between definitions.
  The model was compared with CPython 3.11 on the cases of the theorems and their
  witnesses.  A reference semantics of templates (\<open>tpl_part\<close>: literal text and keyword
  fields) is printed as a format string by \<open>print_tpl\<close> and rendered by \<open>render_tpl\<close>; the
  scanner is shown to agree with it.
\<close>

subsection \<open>Definitions\<close>

text \<open>Where the scanner is: one constructor per position of the C code.\<close>

datatype fmt_mode =
    FLit                                     \<comment> \<open>literal text\<close>
  | FOpen                                    \<comment> \<open>after a \<open>{\<close>: escape or field\<close>
  | FClose                                   \<comment> \<open>after a \<open>}\<close>: must be doubled\<close>
  | FName string                             \<comment> \<open>field name read so far\<close>
  | FBracket string                          \<comment> \<open>inside \<open>[...]\<close> of a field name\<close>
  | FConv string                             \<comment> \<open>after \<open>!\<close>\<close>
  | FAfterConv string char                   \<comment> \<open>conversion character read\<close>
  | FSpec string "char option" string nat    \<comment> \<open>format spec and its brace depth\<close>

datatype fmt_error = FmtRaise py_exc | FmtNotModelled string

text \<open>\<open>get_integer\<close>: \<open>None\<close> for -1 (not all digits), with the overflow check before each step.\<close>

fun get_integer_acc :: "int \<Rightarrow> string \<Rightarrow> fmt_error + int option" where
  "get_integer_acc acc [] = Inr (Some acc)"
| "get_integer_acc acc (c # cs) =
     (if \<not> is_decimal c then Inr None
      else if acc > (py_ssize_t_max - digit_val c) div 10
      then Inl (FmtRaise (ValueError ''Too many decimal digits in format string''))
      else get_integer_acc (acc * 10 + digit_val c) cs)"

definition get_integer :: "string \<Rightarrow> fmt_error + int option" where
  "get_integer s = (if s = [] then Inr None else get_integer_acc 0 s)"

text \<open>\<open>field_name_split\<close>: the first part ends at the first \<open>.\<close> or \<open>[\<close>.\<close>

definition field_first :: "string \<Rightarrow> string" where
  "field_first f = takeWhile (\<lambda>c. c \<noteq> CHR ''.'' \<and> c \<noteq> CHR ''['') f"

definition field_rest :: "string \<Rightarrow> string" where
  "field_rest f = dropWhile (\<lambda>c. c \<noteq> CHR ''.'' \<and> c \<noteq> CHR ''['') f"

text \<open>The attributes of a \<open>str\<close> object: \<open>dir(str)\<close> of CPython 3.11.\<close>

definition str_attrs :: "string list" where
  "str_attrs = [
    ''__add__'', ''__class__'', ''__contains__'', ''__delattr__'', ''__dir__'',
    ''__doc__'', ''__eq__'', ''__format__'', ''__ge__'', ''__getattribute__'',
    ''__getitem__'', ''__getnewargs__'', ''__getstate__'', ''__gt__'', ''__hash__'',
    ''__init__'', ''__init_subclass__'', ''__iter__'', ''__le__'', ''__len__'', ''__lt__'',
    ''__mod__'', ''__mul__'', ''__ne__'', ''__new__'', ''__reduce__'', ''__reduce_ex__'',
    ''__repr__'', ''__rmod__'', ''__rmul__'', ''__setattr__'', ''__sizeof__'', ''__str__'',
    ''__subclasshook__'', ''capitalize'', ''casefold'', ''center'', ''count'', ''encode'',
    ''endswith'', ''expandtabs'', ''find'', ''format'', ''format_map'', ''index'',
    ''isalnum'', ''isalpha'', ''isascii'', ''isdecimal'', ''isdigit'', ''isidentifier'',
    ''islower'', ''isnumeric'', ''isprintable'', ''isspace'', ''istitle'', ''isupper'',
    ''join'', ''ljust'', ''lower'', ''lstrip'', ''maketrans'', ''partition'',
    ''removeprefix'', ''removesuffix'', ''replace'', ''rfind'', ''rindex'', ''rjust'',
    ''rpartition'', ''rsplit'', ''rstrip'', ''split'', ''splitlines'', ''startswith'',
    ''strip'', ''swapcase'', ''title'', ''translate'', ''upper'', ''zfill'']"

text \<open>\<open>FieldNameIterator_next\<close> and the lookups of \<open>get_field_object\<close> on a \<open>str\<close> value:
  \<open>.name\<close> is \<open>getattr\<close> (an existing attribute is a method or another object, whose
  rendering shows a memory address, so it is \<open>FmtNotModelled\<close>); \<open>[digits]\<close> is
  \<open>v[i]\<close>, a one-character string; \<open>[key]\<close> with a non-integer key is \<open>v[key]\<close>.\<close>

function field_walk :: "string \<Rightarrow> string \<Rightarrow> fmt_error + string" where
  "field_walk v [] = Inr v"
| "field_walk v (c # r) =
     (if c = CHR ''.'' then
        (let name = takeWhile (\<lambda>d. d \<noteq> CHR ''.'' \<and> d \<noteq> CHR ''['') r in
         if name = [] then Inl (FmtRaise (ValueError ''Empty attribute in format string''))
         else if name \<in> set str_attrs then Inl (FmtNotModelled (c # r))
         else Inl (FmtRaise (AttributeError (quoted ''str'' @ '' object has no attribute '' @ quoted name))))
      else if c = CHR ''['' then
        (if CHR '']'' \<notin> set r
         then Inl (FmtRaise (ValueError (''Missing '' @ quoted '']'' @ '' in format string'')))
         else
           (let name = takeWhile (\<lambda>d. d \<noteq> CHR '']'') r;
                rest = drop (Suc (length name)) r
            in case get_integer name of
                 Inl e \<Rightarrow> Inl e
               | Inr idx \<Rightarrow>
                   if name = [] then Inl (FmtRaise (ValueError ''Empty attribute in format string''))
                   else (case idx of
                           None \<Rightarrow> Inl (FmtRaise (TypeError (''string indices must be integers, not '' @ quoted ''str'')))
                         | Some i \<Rightarrow>
                             if nat i < length v then field_walk [v ! nat i] rest
                             else Inl (FmtRaise (IndexError ''string index out of range'')))))
      else Inl (FmtRaise (ValueError (''Only '' @ quoted ''.'' @ '' or '' @ quoted ''['' @
                                      '' may follow '' @ quoted '']'' @ '' in format field specifier''))))"
  by pat_completeness auto

termination
  by (relation "measure (\<lambda>(v, r). length r)") auto

definition convert_field :: "char option \<Rightarrow> string \<Rightarrow> fmt_error + string" where
  "convert_field conv v =
     (case conv of
        None \<Rightarrow> Inr v
      | Some c \<Rightarrow>
          if c = CHR ''r'' then Inr (py_repr v)
          else if c = CHR ''s'' then Inr v
          else if c = CHR ''a'' then Inr (py_ascii v)
          else if 32 < (of_char c :: nat) \<and> (of_char c :: nat) < 127
          then Inl (FmtRaise (ValueError (''Unknown conversion specifier '' @ [c])))
          else Inl (FmtRaise (ValueError (''Unknown conversion specifier '' @ [backslash, CHR ''x'']
                                          @ hex_str (of_char c)))))"

text \<open>\<open>output_markup\<close>: look the field up, walk its attributes and indices, convert it,
  expand a spec that holds a field (\<open>ex\<close>, one recursion level down), and format the value.\<close>

definition render_field ::
  "(string \<Rightarrow> fmt_error + string) \<Rightarrow> (string \<times> string) list \<Rightarrow> string \<Rightarrow> char option \<Rightarrow> string \<Rightarrow>
   fmt_error + string" where
  "render_field ex kw f conv spec =
     (let first = field_first f in
      case get_integer first of
        Inl e \<Rightarrow> Inl e
      | Inr idx \<Rightarrow>
          if first = [] \<or> idx \<noteq> None
          then Inl (FmtRaise (IndexError (''Replacement index ''
                   @ nat_str (nat (case idx of None \<Rightarrow> 0 | Some i \<Rightarrow> i))
                   @ '' out of range for positional args tuple'')))
          else (case map_of kw first of
                  None \<Rightarrow> Inl (FmtRaise (KeyError first))
                | Some v \<Rightarrow>
                    (case field_walk v (field_rest f) of
                       Inl e \<Rightarrow> Inl e
                     | Inr obj \<Rightarrow>
                         (case convert_field conv obj of
                            Inl e \<Rightarrow> Inl e
                          | Inr v' \<Rightarrow>
                              (case (if CHR ''{'' \<in> set spec then ex spec else Inr spec) of
                                 Inl e \<Rightarrow> Inl e
                               | Inr spec' \<Rightarrow> map_sum FmtRaise id (format_str v' spec'))))))"

definition field_done ::
  "(string \<Rightarrow> fmt_error + string) \<Rightarrow> (string \<times> string) list \<Rightarrow> string \<Rightarrow> char option \<Rightarrow> string \<Rightarrow> fmt_error + fmt_mode \<times> string" where
  "field_done ex kw f conv spec = map_sum id (\<lambda>v. (FLit, v)) (render_field ex kw f conv spec)"

text \<open>One character of a field name (the loop of \<open>parse_field\<close>).\<close>

definition name_step :: "(string \<Rightarrow> fmt_error + string) \<Rightarrow> (string \<times> string) list \<Rightarrow> string \<Rightarrow> char \<Rightarrow> fmt_error + fmt_mode \<times> string" where
  \<open>name_step ex kw f c =
     (if c = CHR ''{'' then Inl (FmtRaise (ValueError ''unexpected \'{\' in field name''))
      else if c = CHR ''['' then Inr (FBracket (f @ [c]), [])
      else if c = CHR ''}'' then field_done ex kw f None []
      else if c = CHR '':'' then Inr (FSpec f None [] 1, [])
      else if c = CHR ''!'' then Inr (FConv f, [])
      else Inr (FName (f @ [c]), []))\<close>

text \<open>One step of the scanner: the next mode and the text it outputs.\<close>

definition fmt_step :: "(string \<Rightarrow> fmt_error + string) \<Rightarrow> (string \<times> string) list \<Rightarrow> fmt_mode \<Rightarrow> char \<Rightarrow> fmt_error + fmt_mode \<times> string" where
  \<open>fmt_step ex kw m c =
     (case m of
        FLit \<Rightarrow>
          if c = CHR ''{'' then Inr (FOpen, [])
          else if c = CHR ''}'' then Inr (FClose, [])
          else Inr (FLit, [c])
      | FOpen \<Rightarrow> if c = CHR ''{'' then Inr (FLit, [c]) else name_step ex kw [] c
      | FClose \<Rightarrow>
          if c = CHR ''}'' then Inr (FLit, [c])
          else Inl (FmtRaise (ValueError ''Single \'}\' encountered in format string''))
      | FName f \<Rightarrow> name_step ex kw f c
      | FBracket f \<Rightarrow>
          if c = CHR '']'' then Inr (FName (f @ [c]), []) else Inr (FBracket (f @ [c]), [])
      | FConv f \<Rightarrow> Inr (FAfterConv f c, [])
      | FAfterConv f cv \<Rightarrow>
          if c = CHR ''}'' then field_done ex kw f (Some cv) []
          else if c = CHR '':'' then Inr (FSpec f (Some cv) [] 1, [])
          else Inl (FmtRaise (ValueError ''expected \':\' after conversion specifier''))
      | FSpec f cv sp n \<Rightarrow>
          if c = CHR ''{'' then Inr (FSpec f cv (sp @ [c]) (Suc n), [])
          else if c = CHR ''}'' then
            (if n = 1 then field_done ex kw f cv sp else Inr (FSpec f cv (sp @ [c]) (n - 1), []))
          else Inr (FSpec f cv (sp @ [c]) n, []))\<close>

text \<open>The end of the input in each mode.\<close>

fun fmt_finish :: "fmt_mode \<Rightarrow> string \<Rightarrow> fmt_error + string" where
  "fmt_finish FLit acc = Inr acc"
| \<open>fmt_finish FOpen acc = Inl (FmtRaise (ValueError ''Single \'{\' encountered in format string''))\<close>
| \<open>fmt_finish FClose acc = Inl (FmtRaise (ValueError ''Single \'}\' encountered in format string''))\<close>
| \<open>fmt_finish (FName f) acc = Inl (FmtRaise (ValueError ''expected \'}\' before end of string''))\<close>
| \<open>fmt_finish (FBracket f) acc = Inl (FmtRaise (ValueError ''expected \'}\' before end of string''))\<close>
| "fmt_finish (FConv f) acc =
     Inl (FmtRaise (ValueError ''end of string while looking for conversion specifier''))"
| \<open>fmt_finish (FAfterConv f c) acc = Inl (FmtRaise (ValueError ''unmatched \'{\' in format spec''))\<close>
| \<open>fmt_finish (FSpec f cv sp n) acc = Inl (FmtRaise (ValueError ''unmatched \'{\' in format spec''))\<close>

text \<open>The steps of the scanner over a whole string, before the end-of-input check.\<close>

fun fmt_steps ::
  "(string \<Rightarrow> fmt_error + string) \<Rightarrow> (string \<times> string) list \<Rightarrow> fmt_mode \<Rightarrow> string \<Rightarrow> string \<Rightarrow> fmt_error + fmt_mode \<times> string" where
  "fmt_steps ex kw m acc [] = Inr (m, acc)"
| "fmt_steps ex kw m acc (c # cs) =
     (case fmt_step ex kw m c of
        Inl e \<Rightarrow> Inl e
      | Inr (m', out) \<Rightarrow> fmt_steps ex kw m' (acc @ out) cs)"

text \<open>\<open>build_string\<close>: the scanner over a whole template, then the end-of-input check.\<close>

definition fmt_run :: "(string \<Rightarrow> fmt_error + string) \<Rightarrow> string \<Rightarrow> (string \<times> string) list \<Rightarrow> fmt_error + string" where
  "fmt_run ex s kw =
     (case fmt_steps ex kw FLit [] s of
        Inl e \<Rightarrow> Inl e
      | Inr (m, acc) \<Rightarrow> fmt_finish m acc)"

text \<open>\<open>build_string\<close> at recursion depth 0 raises at once.\<close>

definition max_recursion :: "string \<Rightarrow> fmt_error + string" where
  "max_recursion sp = Inl (FmtRaise (ValueError ''Max string recursion exceeded''))"

text \<open>The expansion of a format spec that holds a field: \<open>build_string\<close> at depth 1.\<close>

definition spec_expand :: "(string \<times> string) list \<Rightarrow> string \<Rightarrow> fmt_error + string" where
  "spec_expand kw sp = fmt_run max_recursion sp kw"

text \<open>\<open>s.format(**kw)\<close>: \<open>build_string\<close> at depth 2.\<close>

definition py_format :: "string \<Rightarrow> (string \<times> string) list \<Rightarrow> fmt_error + string" where
  "py_format s kw = fmt_run (spec_expand kw) s kw"

text \<open>Text that the scanner copies through: no brace; field names of plain characters.\<close>

definition brace_free :: "string \<Rightarrow> bool" where
  "brace_free s \<longleftrightarrow> CHR ''{'' \<notin> set s \<and> CHR ''}'' \<notin> set s"

definition plain_name :: "string \<Rightarrow> bool" where
  "plain_name k \<longleftrightarrow> k \<noteq> [] \<and> \<not> is_decimal (hd k) \<and> (\<forall>c \<in> set k. c \<notin> set ''{}[]:!.'')"

text \<open>A reference semantics for templates: literal text and plain keyword fields.  A template
  is printed as a format string by doubling the braces of its text (\<open>print_tpl\<close>), and
  rendered directly by substituting each field (\<open>render_tpl\<close>), with \<open>KeyError\<close> at the
  first field whose keyword is missing.\<close>

datatype tpl_part = TLit string | TField string

definition escape_braces :: "string \<Rightarrow> string" where
  "escape_braces s = concat (map (\<lambda>c. if c = CHR ''{'' \<or> c = CHR ''}'' then [c, c] else [c]) s)"

fun print_tpl :: "tpl_part list \<Rightarrow> string" where
  "print_tpl [] = []"
| "print_tpl (TLit s # ps) = escape_braces s @ print_tpl ps"
| "print_tpl (TField k # ps) = ''{'' @ k @ ''}'' @ print_tpl ps"

fun render_tpl :: "(string \<times> string) list \<Rightarrow> tpl_part list \<Rightarrow> fmt_error + string" where
  "render_tpl kw [] = Inr []"
| "render_tpl kw (TLit s # ps) = map_sum id (\<lambda>r. s @ r) (render_tpl kw ps)"
| "render_tpl kw (TField k # ps) =
     (case map_of kw k of
        None \<Rightarrow> Inl (FmtRaise (KeyError k))
      | Some v \<Rightarrow> map_sum id (\<lambda>r. v @ r) (render_tpl kw ps))"

fun tpl_fields :: "tpl_part list \<Rightarrow> string list" where
  "tpl_fields [] = []"
| "tpl_fields (TLit s # ps) = tpl_fields ps"
| "tpl_fields (TField k # ps) = k # tpl_fields ps"

subsection \<open>Lemmas\<close>

lemmas fmt_unfold = fmt_step_def name_step_def field_done_def

lemma fmt_steps_append:
  "fmt_steps ex kw m acc (xs @ ys) =
     (case fmt_steps ex kw m acc xs of
        Inl e \<Rightarrow> Inl e
      | Inr (m', acc') \<Rightarrow> fmt_steps ex kw m' acc' ys)"
  by (induction xs arbitrary: m acc) (auto split: sum.splits)

lemma fmt_steps_plain:
  "brace_free p \<Longrightarrow> fmt_steps ex kw FLit acc p = Inr (FLit, acc @ p)"
  by (induction p arbitrary: acc) (auto simp: brace_free_def fmt_step_def)

lemma fmt_steps_escapes:
  "fmt_steps ex kw FLit acc ''{{'' = Inr (FLit, acc @ ''{'')"
  "fmt_steps ex kw FLit acc ''}}'' = Inr (FLit, acc @ ''}'')"
  by (simp_all add: fmt_step_def)

lemma fmt_steps_escaped:
  "brace_free w \<Longrightarrow> fmt_steps ex kw FLit acc (''{{'' @ w @ ''}}'') = Inr (FLit, acc @ ''{'' @ w @ ''}'')"
  by (simp add: fmt_steps_append fmt_steps_plain fmt_step_def)

text \<open>Doubled braces around brace-free words come out single, the rest unchanged.\<close>

theorem py_format_escaped_words:
  assumes "brace_free p" "brace_free w1" "brace_free q" "brace_free w2" "brace_free r"
  shows "py_format (p @ ''{{'' @ w1 @ ''}}'' @ q @ ''{{'' @ w2 @ ''}}'' @ r) kw =
           Inr (p @ ''{'' @ w1 @ ''}'' @ q @ ''{'' @ w2 @ ''}'' @ r)"
  using assms
  by (simp add: py_format_def fmt_run_def fmt_steps_append fmt_steps_plain fmt_step_def)

lemma fmt_steps_name:
  "\<forall>c \<in> set k. c \<notin> set ''{}[]:!.'' \<Longrightarrow>
   fmt_steps ex kw (FName f) acc k = Inr (FName (f @ k), acc)"
  by (induction k arbitrary: f) (auto simp: fmt_unfold)

lemma fmt_steps_spec:
  "brace_free sp \<Longrightarrow>
   fmt_steps ex kw (FSpec f cv sp0 n) acc sp = Inr (FSpec f cv (sp0 @ sp) n, acc)"
  by (induction sp arbitrary: sp0) (auto simp: brace_free_def fmt_step_def)

lemma get_integer_name:
  "k \<noteq> [] \<Longrightarrow> \<not> is_decimal (hd k) \<Longrightarrow> get_integer k = Inr None"
  by (cases k) (simp_all add: get_integer_def)

lemma field_split_plain:
  "\<forall>c \<in> set k. c \<notin> set ''{}[]:!.'' \<Longrightarrow> field_first k = k \<and> field_rest k = []"
  by (simp add: field_first_def field_rest_def)

lemma render_field_plain:
  assumes "plain_name k"
  shows "render_field ex kw k conv spec =
           (case map_of kw k of
              None \<Rightarrow> Inl (FmtRaise (KeyError k))
            | Some v \<Rightarrow>
                (case convert_field conv v of
                   Inl e \<Rightarrow> Inl e
                 | Inr v' \<Rightarrow>
                     (case (if CHR ''{'' \<in> set spec then ex spec else Inr spec) of
                        Inl e \<Rightarrow> Inl e
                      | Inr spec' \<Rightarrow> map_sum FmtRaise id (format_str v' spec'))))"
  using assms field_split_plain[of k] get_integer_name[of k]
  by (auto simp: plain_name_def render_field_def split: option.splits)

lemma fmt_steps_field:
  assumes "plain_name k"
  shows "fmt_steps ex kw FLit acc (''{'' @ k @ ''}'') =
           (case map_of kw k of
              None \<Rightarrow> Inl (FmtRaise (KeyError k))
            | Some v \<Rightarrow> Inr (FLit, acc @ v))"
proof -
  obtain c k' where k: "k = c # k'"
    using assms by (cases k) (auto simp: plain_name_def)
  have names: "\<forall>c \<in> set k'. c \<notin> set ''{}[]:!.''" and c: "c \<notin> set ''{}[]:!.''"
    using assms k by (auto simp: plain_name_def)
  have "fmt_steps ex kw FLit acc (''{'' @ k @ ''}'') = fmt_steps ex kw (FName [c]) acc (k' @ ''}'')"
    using c by (simp add: k fmt_unfold)
  also have "\<dots> = fmt_steps ex kw (FName k) acc ''}''"
    using fmt_steps_name[OF names] by (simp add: fmt_steps_append k)
  finally show ?thesis
    using render_field_plain[OF assms] by (auto simp: fmt_unfold convert_field_def split: option.splits)
qed

lemma fmt_steps_field_spec_missing:
  assumes "plain_name k" and "brace_free sp" and "map_of kw k = None"
  shows "fmt_steps ex kw FLit acc (''{'' @ k @ '':'' @ sp @ ''}'' @ rest) = Inl (FmtRaise (KeyError k))"
proof -
  obtain c k' where k: "k = c # k'"
    using assms by (cases k) (auto simp: plain_name_def)
  have names: "\<forall>c \<in> set k'. c \<notin> set ''{}[]:!.''" and c: "c \<notin> set ''{}[]:!.''"
    using assms k by (auto simp: plain_name_def)
  have "fmt_steps ex kw FLit acc (''{'' @ k @ '':'' @ sp @ ''}'' @ rest) =
        fmt_steps ex kw (FName [c]) acc (k' @ '':'' @ sp @ ''}'' @ rest)"
    using c by (simp add: k fmt_unfold)
  also have "\<dots> = fmt_steps ex kw (FSpec k None [] 1) acc (sp @ ''}'' @ rest)"
    using fmt_steps_name[OF names] by (simp add: fmt_steps_append k fmt_unfold)
  also have "\<dots> = fmt_steps ex kw (FSpec k None sp 1) acc (''}'' @ rest)"
    using fmt_steps_spec[OF assms(2)] by (simp add: fmt_steps_append)
  finally show ?thesis
    using render_field_plain[OF assms(1)] assms(3) by (simp add: fmt_unfold)
qed

lemma py_format_endswith_newline:
  assumes "py_format s kw = Inr r" and "py_endswith s ''\<newline>''"
  shows "py_endswith r ''\<newline>''"
proof -
  obtain s' where s: "s = s' @ ''\<newline>''"
    using assms(2) by (auto simp: py_endswith_suffix suffix_def)
  show ?thesis
  proof (cases "fmt_steps (spec_expand kw) kw FLit [] s'")
    case (Inl e)
    then show ?thesis using assms(1) by (simp add: s py_format_def fmt_run_def fmt_steps_append)
  next
    case (Inr p)
    obtain m acc where p: "p = (m, acc)" by (cases p)
    show ?thesis
      using assms(1) Inr
      by (cases m) (auto simp: s p py_format_def fmt_run_def fmt_steps_append fmt_unfold py_endswith_suffix
                         split: if_splits sum.splits)
  qed
qed

lemma get_integer_acc_bounds:
  "0 \<le> acc \<Longrightarrow> acc \<le> py_ssize_t_max \<Longrightarrow> get_integer_acc acc s = Inr (Some i) \<Longrightarrow>
   0 \<le> i \<and> i \<le> py_ssize_t_max"
proof (induction acc s rule: get_integer_acc.induct)
  case (2 acc c cs)
  show ?case
  proof (cases "is_decimal c \<and> \<not> acc > (py_ssize_t_max - digit_val c) div 10")
    case True
    then have d: "0 \<le> digit_val c" "digit_val c \<le> 9"
      using digit_val_bounds by auto
    from True have "acc * 10 \<le> (py_ssize_t_max - digit_val c) div 10 * 10"
      by simp
    also have "\<dots> \<le> py_ssize_t_max - digit_val c"
      using div_mult_mod_eq[of "py_ssize_t_max - digit_val c" 10]
            pos_mod_sign[of 10 "py_ssize_t_max - digit_val c"] by linarith
    finally have "acc * 10 + digit_val c \<le> py_ssize_t_max" by simp
    moreover have "0 \<le> acc * 10 + digit_val c"
      using "2.prems"(1) d by simp
    ultimately show ?thesis
      using "2.IH" True "2.prems"(3) by simp
  next
    case False
    then show ?thesis
      using "2.prems"(3) by (auto split: if_splits)
  qed
qed simp

text \<open>
  A field name that \<open>get_integer\<close> reads as an index is a non-negative number that
  fits a \<open>Py_ssize_t\<close>: the overflow check before each digit keeps the accumulator in
  range.
\<close>

lemma get_integer_bounds:
  assumes "get_integer s = Inr (Some i)"
  shows "0 \<le> i \<and> i \<le> py_ssize_t_max"
proof -
  from assms have "get_integer_acc 0 s = Inr (Some i)"
    by (simp add: get_integer_def split: if_splits)
  then show ?thesis
    by (rule get_integer_acc_bounds[rotated 2]) (simp_all add: py_ssize_t_max_def)
qed


theorem get_integer_bounds_witness:
  "get_integer ''42'' = Inr (Some 42) \<and> 0 \<le> (42::int) \<and> 42 \<le> py_ssize_t_max"
  using get_integer_bounds[of "''42''" 42]
  by (simp add: get_integer_def is_decimal_def digit_val_def py_ssize_t_max_def)

lemma get_integer_acc_value:
  "0 \<le> acc \<Longrightarrow> acc \<le> py_ssize_t_max \<Longrightarrow> \<forall>c \<in> set s. is_decimal c \<Longrightarrow>
   get_integer_acc acc s =
     (if decimal_value acc s \<le> py_ssize_t_max then Inr (Some (decimal_value acc s))
      else Inl (FmtRaise (ValueError ''Too many decimal digits in format string'')))"
proof (induction s arbitrary: acc)
  case Nil
  then show ?case by (simp add: decimal_value_def)
next
  case (Cons c s)
  have d: "0 \<le> digit_val c" "digit_val c \<le> 9"
    using Cons.prems digit_val_bounds by auto
  have unf: "decimal_value acc (c # s) = decimal_value (acc * 10 + digit_val c) s"
    by (simp add: decimal_value_def)
  show ?case
  proof (cases "acc * 10 + digit_val c > py_ssize_t_max")
    case True
    then have "decimal_value acc (c # s) > py_ssize_t_max"
      using decimal_value_mono[of "acc * 10 + digit_val c" s] Cons.prems d unf by simp
    then show ?thesis
      using True overflow_check[OF d] Cons.prems by simp
  next
    case False
    then show ?thesis
      using Cons.IH[of "acc * 10 + digit_val c"] overflow_check[OF d] Cons.prems d unf by simp
  qed
qed

text \<open>
  \<open>get_integer\<close> on a non-empty string of decimal digits computes its decimal value
  when that value fits a \<open>Py_ssize_t\<close> (at most \<open>2^63 - 1\<close>), and raises
  \<open>ValueError("Too many decimal digits in format string")\<close> exactly when it does not.
\<close>

lemma get_integer_value:
  assumes "s \<noteq> []" and "\<forall>c \<in> set s. is_decimal c"
  shows "get_integer s =
           (if decimal_value 0 s \<le> py_ssize_t_max then Inr (Some (decimal_value 0 s))
            else Inl (FmtRaise (ValueError ''Too many decimal digits in format string'')))"
  using assms get_integer_acc_value[of 0 s] by (simp add: get_integer_def py_ssize_t_max_def)

lemma get_integer_value_witness:
  "get_integer ''9223372036854775808'' = Inl (FmtRaise (ValueError ''Too many decimal digits in format string''))
   \<and> get_integer ''42'' = Inr (Some 42)"
  using get_integer_value[of "''9223372036854775808''"] get_integer_value[of "''42''"]
  by (simp add: is_decimal_def decimal_value_def digit_val_def py_ssize_t_max_def)

lemma fmt_steps_prefix_plain:
  "brace_free p \<Longrightarrow> fmt_steps ex kw FLit [] (p @ s) = fmt_steps ex kw FLit p s"
  by (simp add: fmt_steps_append fmt_steps_plain)

text \<open>
  A replacement field \<open>{k}\<close> with a plain keyword name, in brace-free text, is
  replaced by the keyword's value and the text around it is copied unchanged.
\<close>

lemma py_format_field:
  assumes "plain_name k" "map_of kw k = Some v" "brace_free p" "brace_free q"
  shows "py_format (p @ ''{'' @ k @ ''}'' @ q) kw = Inr (p @ v @ q)"
proof -
  have "fmt_steps (spec_expand kw) kw FLit [] (p @ (''{'' @ k @ ''}'') @ q) = Inr (FLit, p @ v @ q)"
    using assms fmt_steps_field[OF assms(1), of "spec_expand kw" kw p]
    by (simp only: fmt_steps_append fmt_steps_plain) (simp add: fmt_steps_plain)
  then show ?thesis
    by (simp add: py_format_def fmt_run_def)
qed

text \<open>
  The first replacement field \<open>{k}\<close> whose keyword is not given raises
  \<open>KeyError(k)\<close>, whatever follows it in the template.
\<close>

lemma py_format_missing_key:
  assumes "plain_name k" "map_of kw k = None" "brace_free p"
  shows "py_format (p @ ''{'' @ k @ ''}'' @ rest) kw = Inl (FmtRaise (KeyError k))"
proof -
  have "fmt_steps (spec_expand kw) kw FLit [] (p @ (''{'' @ k @ ''}'') @ rest) = Inl (FmtRaise (KeyError k))"
    using assms fmt_steps_field[OF assms(1), of "spec_expand kw" kw p]
    by (simp only: fmt_steps_append fmt_steps_plain) simp
  then show ?thesis
    by (simp add: py_format_def fmt_run_def)
qed

lemma py_format_field_witness:
  "py_format (''You are '' @ ''{'' @ ''name'' @ ''}'' @ ''.'') [(''name'', ''Friday'')] = Inr ''You are Friday.''"
  using py_format_field[of "''name''" "[(''name'', ''Friday'')]" "''Friday''" "''You are ''" "''.''"]
  by (simp add: plain_name_def brace_free_def is_decimal_def)

lemma py_format_missing_key_witness:
  "py_format (''Hi '' @ ''{'' @ ''user'' @ ''}'' @ '' {name}'') [(''name'', ''Friday'')]
     = Inl (FmtRaise (KeyError ''user''))"
  using py_format_missing_key[of "''user''" "[(''name'', ''Friday'')]" "''Hi ''" "'' {name}''"]
  by (simp add: plain_name_def brace_free_def is_decimal_def)

lemma decimal_not_special: "is_decimal c \<Longrightarrow> c \<notin> set ''{}[]:!.''"
  unfolding is_decimal_def by (simp only: list.set insert_iff empty_iff) (elim disjE; simp)

lemma decimal_plain:
  "\<forall>c \<in> set ds. is_decimal c \<Longrightarrow> \<forall>c \<in> set ds. c \<notin> set ''{}[]:!.''"
  using decimal_not_special by blast

text \<open>
  A field whose name is empty or all digits (\<open>{}\<close>, \<open>{0}\<close>, \<open>{12}\<close>) is a positional
  index, and \<open>.format(name=...)\<close> has no positional arguments: the first such field raises
  \<open>IndexError("Replacement index n out of range for positional args tuple")\<close> with its
  index (0 for \<open>{}\<close>).  A template with an empty dictionary or set literal \<open>{}\<close> cannot be
  used as a system prompt.
\<close>

lemma py_format_positional_field:
  assumes "brace_free p" and "\<forall>c \<in> set ds. is_decimal c" and "decimal_value 0 ds \<le> py_ssize_t_max"
  shows "py_format (p @ ''{'' @ ds @ ''}'' @ rest) kw =
           Inl (FmtRaise (IndexError (''Replacement index '' @ nat_str (nat (decimal_value 0 ds)) @
                                      '' out of range for positional args tuple'')))"
proof (cases ds)
  case Nil
  have "fmt_steps (spec_expand kw) kw FLit [] (p @ ''{}'' @ rest) =
          Inl (FmtRaise (IndexError ''Replacement index 0 out of range for positional args tuple''))"
    using assms(1)
    by (simp add: fmt_steps_append fmt_steps_plain fmt_unfold render_field_def get_integer_def
                  field_first_def)
  then show ?thesis
    by (simp add: Nil py_format_def fmt_run_def decimal_value_def)
next
  case (Cons d ds')
  have plain: "\<forall>c \<in> set ds'. c \<notin> set ''{}[]:!.''" "d \<notin> set ''{}[]:!.''"
    using decimal_plain[OF assms(2)] Cons by auto
  have gi: "get_integer ds = Inr (Some (decimal_value 0 ds))"
    using get_integer_acc_value[of 0 ds] assms(2,3) Cons
    by (simp add: get_integer_def py_ssize_t_max_def)
  have ff: "field_first ds = ds"
    using field_split_plain[of ds] decimal_plain[OF assms(2)] by simp
  have "fmt_steps (spec_expand kw) kw FLit [] (p @ ''{'' @ ds @ ''}'' @ rest) =
          fmt_steps (spec_expand kw) kw (FName [d]) p (ds' @ ''}'' @ rest)"
    using assms(1) plain(2) by (simp add: Cons fmt_steps_append fmt_steps_plain fmt_unfold)
  also have "\<dots> = fmt_steps (spec_expand kw) kw (FName ds) p (''}'' @ rest)"
    using fmt_steps_name[OF plain(1), of "spec_expand kw" kw "[d]" p] by (simp add: Cons fmt_steps_append)
  also have "\<dots> = Inl (FmtRaise (IndexError (''Replacement index '' @ nat_str (nat (decimal_value 0 ds)) @
                                      '' out of range for positional args tuple'')))"
    using gi ff Cons by (simp add: fmt_unfold render_field_def)
  finally show ?thesis
    by (simp add: py_format_def fmt_run_def)
qed

text \<open>
  A single closing brace that is not doubled raises
  \<open>ValueError("Single '}' encountered in format string")\<close>.
\<close>

lemma py_format_single_close:
  assumes "brace_free p" and "c \<noteq> CHR ''}''"
  shows "py_format (p @ ''}'' @ c # rest) kw =
           Inl (FmtRaise (ValueError (''Single '' @ [squote] @ ''}'' @ [squote] @ '' encountered in format string'')))"
proof -
  have "fmt_steps (spec_expand kw) kw FLit [] (p @ ''}'' @ c # rest) =
          Inl (FmtRaise (ValueError (''Single '' @ [squote] @ ''}'' @ [squote] @ '' encountered in format string'')))"
    using assms by (simp add: fmt_steps_append fmt_steps_plain fmt_step_def squote_def)
  then show ?thesis by (simp add: py_format_def fmt_run_def)
qed

lemma py_format_positional_field_witness:
  "py_format (''Example: '' @ ''{'' @ ''12'' @ ''}'' @ '' done'') [(''name'', ''Friday'')] =
     Inl (FmtRaise (IndexError ''Replacement index 12 out of range for positional args tuple''))"
  using py_format_positional_field[of "''Example: ''" "''12''" "'' done''" "[(''name'', ''Friday'')]"]
  by (simp add: brace_free_def is_decimal_def decimal_value_def digit_val_def py_ssize_t_max_def
                nat_str.simps)

lemma py_format_single_close_witness:
  "py_format (''a'' @ ''}'' @ ''x'') [] =
     Inl (FmtRaise (ValueError (''Single '' @ [squote] @ ''}'' @ [squote] @ '' encountered in format string'')))"
  using py_format_single_close[of "''a''" "CHR ''x''" "[]" "[]"]
  by (simp add: brace_free_def)

lemma fmt_steps_spec_nested:
  assumes "0 < n"
      and "fmt_steps ex kw (FSpec f cv (sp0 @ ''{'') (Suc n)) acc x = Inr (FSpec f cv ((sp0 @ ''{'') @ x) (Suc n), acc)"
  shows "fmt_steps ex kw (FSpec f cv sp0 n) acc (''{'' @ x @ ''}'') = Inr (FSpec f cv (sp0 @ ''{'' @ x @ ''}'') n, acc)"
  using assms by (simp add: fmt_steps_append fmt_step_def)

lemma fmt_steps_bracket:
  "\<forall>c \<in> set ds. c \<noteq> CHR '']'' \<Longrightarrow>
   fmt_steps ex kw (FBracket f) acc ds = Inr (FBracket (f @ ds), acc)"
  by (induction ds arbitrary: f) (auto simp: fmt_step_def)

lemma fmt_steps_open_name:
  assumes "plain_name k"
  shows "fmt_steps ex kw FLit acc (''{'' @ k @ rest) = fmt_steps ex kw (FName k) acc rest"
proof -
  obtain c k' where k: "k = c # k'"
    using assms by (cases k) (auto simp: plain_name_def)
  have names: "\<forall>c \<in> set k'. c \<notin> set ''{}[]:!.''" and c: "c \<notin> set ''{}[]:!.''"
    using assms k by (auto simp: plain_name_def)
  have "fmt_steps ex kw FLit acc (''{'' @ k @ rest) = fmt_steps ex kw (FName [c]) acc (k' @ rest)"
    using c by (simp add: k fmt_unfold)
  also have "\<dots> = fmt_steps ex kw (FName k) acc rest"
    using fmt_steps_name[OF names] by (simp add: fmt_steps_append k)
  finally show ?thesis .
qed

lemma fmt_steps_field_balanced:
  assumes "plain_name k"
      and "fmt_steps ex kw (FSpec k None [] 1) acc x = Inr (FSpec k None x 1, acc)"
  shows "fmt_steps ex kw FLit acc (''{'' @ k @ '':'' @ x @ ''}'') =
           map_sum id (\<lambda>r. (FLit, acc @ r)) (render_field ex kw k None x)"
proof -
  have "fmt_steps ex kw FLit acc (''{'' @ k @ '':'' @ x @ ''}'') = fmt_steps ex kw (FName k) acc ('':'' @ x @ ''}'')"
    by (rule fmt_steps_open_name[OF assms(1)])
  also have "\<dots> = fmt_steps ex kw (FSpec k None [] 1) acc (x @ ''}'')"
    by (simp add: fmt_unfold)
  also have "\<dots> = fmt_steps ex kw (FSpec k None x 1) acc ''}''"
    using assms(2) by (simp add: fmt_steps_append)
  also have "\<dots> = map_sum id (\<lambda>r. (FLit, acc @ r)) (render_field ex kw k None x)"
    by (cases "render_field ex kw k None x") (simp_all add: fmt_unfold)
  finally show ?thesis .
qed

lemma fmt_steps_field_spec:
  assumes "plain_name k" and "brace_free sp"
  shows "fmt_steps ex kw FLit acc (''{'' @ k @ '':'' @ sp @ ''}'') =
           (case map_of kw k of
              None \<Rightarrow> Inl (FmtRaise (KeyError k))
            | Some v \<Rightarrow> map_sum FmtRaise (\<lambda>r. (FLit, acc @ r)) (format_str v sp))"
  using fmt_steps_field_balanced[OF assms(1) fmt_steps_spec[OF assms(2), of ex kw k None "[]" 1 acc, unfolded append_Nil]]
        render_field_plain[OF assms(1), of ex kw None sp] assms(2)
  by (cases "map_of kw k"; cases "format_str (the (map_of kw k)) sp")
     (simp_all add: convert_field_def brace_free_def)

lemma spec_expand_field:
  "plain_name j \<Longrightarrow> map_of kw j = Some sp \<Longrightarrow> spec_expand kw (''{'' @ j @ ''}'') = Inr sp"
  using fmt_steps_field[of j max_recursion kw "[]"] by (simp add: spec_expand_def fmt_run_def)

lemma plain_brace_free: "plain_name j \<Longrightarrow> brace_free j"
  by (auto simp: plain_name_def brace_free_def)

lemma fmt_steps_spec_field:
  assumes "plain_name j" "0 < n"
  shows "fmt_steps ex kw (FSpec f cv sp0 n) acc (''{'' @ j @ ''}'') =
           Inr (FSpec f cv (sp0 @ ''{'' @ j @ ''}'') n, acc)"
  by (rule fmt_steps_spec_nested[OF assms(2) fmt_steps_spec[OF plain_brace_free[OF assms(1)]]])

lemma fmt_steps_nested_field:
  assumes "plain_name k" "plain_name j"
  shows "fmt_steps ex kw FLit acc (''{'' @ k @ '':{'' @ j @ ''}}'') =
           (case map_of kw k of
              None \<Rightarrow> Inl (FmtRaise (KeyError k))
            | Some v \<Rightarrow>
                (case ex (''{'' @ j @ ''}'') of
                   Inl e \<Rightarrow> Inl e
                 | Inr sp \<Rightarrow> map_sum FmtRaise (\<lambda>r. (FLit, acc @ r)) (format_str v sp)))"
proof -
  have "fmt_steps ex kw FLit acc (''{'' @ k @ '':'' @ (''{'' @ j @ ''}'') @ ''}'') =
          map_sum id (\<lambda>r. (FLit, acc @ r)) (render_field ex kw k None (''{'' @ j @ ''}''))"
    using fmt_steps_field_balanced[OF assms(1) fmt_steps_spec_field[OF assms(2) zero_less_one, of ex kw k None "[]" acc, unfolded append_Nil]]
    by simp
  then show ?thesis
    using render_field_plain[OF assms(1), of ex kw None "''{'' @ j @ ''}''"]
    by (cases "map_of kw k"; cases "ex (''{'' @ j @ ''}'')"; cases "format_str (the (map_of kw k)) (projr (ex (''{'' @ j @ ''}'')))")
       (simp_all add: convert_field_def)
qed

lemma brace_free_digits:
  assumes "\<forall>x \<in> set ds. is_decimal x"
  shows "brace_free ds"
proof -
  have "\<not> is_decimal CHR ''{''" "\<not> is_decimal CHR ''}''"
    by (simp_all add: is_decimal_def)
  then show ?thesis
    using assms unfolding brace_free_def by blast
qed

lemma decimal_not_bracket: "is_decimal d \<Longrightarrow> d \<noteq> CHR '']'' \<and> d \<noteq> CHR ''['' \<and> d \<noteq> CHR ''.''"
  using decimal_not_special[of d] by simp

lemma field_walk_index:
  assumes "ds \<noteq> []" "\<forall>c \<in> set ds. is_decimal c" "decimal_value 0 ds \<le> py_ssize_t_max"
  shows "field_walk v (''['' @ ds @ '']'' @ r) =
           (if nat (decimal_value 0 ds) < length v then field_walk [v ! nat (decimal_value 0 ds)] r
            else Inl (FmtRaise (IndexError ''string index out of range'')))"
proof -
  have nb: "\<forall>c \<in> set ds. c \<noteq> CHR '']''"
    using assms(2) decimal_not_bracket by blast
  have tw: "takeWhile (\<lambda>d. d \<noteq> CHR '']'') (ds @ CHR '']'' # r) = ds"
    using nb by (simp add: takeWhile_append2)
  have gi: "get_integer ds = Inr (Some (decimal_value 0 ds))"
    using get_integer_acc_value[of 0 ds] assms by (simp add: get_integer_def py_ssize_t_max_def)
  show ?thesis
    using assms(1) gi by (simp add: tw Let_def)
qed

lemma field_split_index:
  "plain_name k \<Longrightarrow> field_first (k @ CHR ''['' # r) = k \<and> field_rest (k @ CHR ''['' # r) = CHR ''['' # r"
  by (auto simp: plain_name_def field_first_def field_rest_def takeWhile_append2 dropWhile_append2)

lemma fmt_steps_index_field:
  assumes "plain_name k" "map_of kw k = Some v" "int i \<le> py_ssize_t_max"
  shows "fmt_steps ex kw FLit acc (''{'' @ k @ ''['' @ nat_str i @ '']}'') =
           (if i < length v then Inr (FLit, acc @ [v ! i])
            else Inl (FmtRaise (IndexError ''string index out of range'')))"
proof -
  let ?ds = "nat_str i"
  have ds: "?ds \<noteq> []" "\<forall>c \<in> set ?ds. is_decimal c" "decimal_value 0 ?ds = int i"
    using nat_str_digits[of i] by simp_all
  have nb: "\<forall>c \<in> set ?ds. c \<noteq> CHR '']''"
    using ds(2) decimal_not_bracket by blast
  have walk: "field_walk v (''['' @ ?ds @ '']'') =
                (if i < length v then Inr [v ! i] else Inl (FmtRaise (IndexError ''string index out of range'')))"
    using field_walk_index[OF ds(1,2), of v "[]"] ds(3) assms(3) by simp
  have rf: "render_field ex kw (k @ ''['' @ ?ds @ '']'') None [] =
              (if i < length v then Inr [v ! i] else Inl (FmtRaise (IndexError ''string index out of range'')))"
    using field_split_index[OF assms(1), of "?ds @ '']''"] get_integer_name[of k] assms(1,2) walk
    by (simp add: render_field_def plain_name_def convert_field_def)
  have "fmt_steps ex kw FLit acc (''{'' @ k @ ''['' @ ?ds @ '']}'') = fmt_steps ex kw (FName k) acc (''['' @ ?ds @ '']}'')"
    by (rule fmt_steps_open_name[OF assms(1)])
  also have "\<dots> = fmt_steps ex kw (FBracket (k @ ''['')) acc (?ds @ '']}'')"
    by (simp add: fmt_unfold)
  also have "\<dots> = fmt_steps ex kw (FName (k @ ''['' @ ?ds @ '']'')) acc ''}''"
    using fmt_steps_bracket[OF nb, of ex kw "k @ ''[''" acc]
    by (simp add: fmt_steps_append fmt_step_def cong: sum.case_cong)
  also have "\<dots> = (if i < length v then Inr (FLit, acc @ [v ! i])
                      else Inl (FmtRaise (IndexError ''string index out of range'')))"
    using rf by (simp add: fmt_unfold)
  finally show ?thesis .
qed

lemma max_recursion_field:
  assumes "plain_name j" "plain_name i" "map_of kw j \<noteq> None"
  shows "spec_expand kw (''{'' @ j @ '':{'' @ i @ ''}}'') =
           Inl (FmtRaise (ValueError ''Max string recursion exceeded''))"
  using fmt_steps_nested_field[OF assms(1,2), of max_recursion kw "[]"] assms(3)
  by (auto simp: spec_expand_def fmt_run_def max_recursion_def)

text \<open>
  A field \<open>{k:<fill><align><width>}\<close> (\<open>{name:*^10}\<close>) pads the keyword's value with
  the fill to the width: all on the left for \<open>>\<close>, split with the odd character on the right
  for \<open>^\<close>, all on the right for \<open><\<close>; a value at least as wide is copied unchanged.
\<close>

lemma py_format_aligned_field:
  assumes "plain_name k" "map_of kw k = Some v" "brace_free p" "brace_free q"
      and "c \<notin> set ''{}''" "a \<in> set ''<>^''" "int w \<le> py_ssize_t_max"
  shows "py_format (p @ ''{'' @ k @ '':'' @ [c, a] @ nat_str w @ ''}'' @ q) kw =
           Inr (p @ (let n = w - length v;
                         l = (if a = CHR ''>'' then n else if a = CHR ''^'' then n div 2 else 0)
                     in replicate l c @ v @ replicate (n - l) c) @ q)"
proof -
  let ?sp = "[c, a] @ nat_str w"
  let ?f = "\<lparr>sp_fill = c, sp_align = a, sp_sign = None, sp_no_neg_0 = False, sp_alternate = False,
             sp_width = Some (int w), sp_thousands = None, sp_precision = None, sp_type = CHR ''s''\<rparr>"
  have a: "a \<noteq> CHR ''{''" "a \<noteq> CHR ''}''" "is_alignment_token a" "a \<noteq> CHR ''=''"
    using align_not_brace[OF assms(6)] by simp_all
  have "brace_free (nat_str w)"
    using nat_str_digits[of w] by (simp add: brace_free_digits)
  then have bf: "brace_free ?sp"
    using assms(5) a(1,2) by (auto simp: brace_free_def)
  have "format_str v ?sp = Inr (pad_string ?f v)"
    using parse_spec_fill_align_width[OF a(3) assms(7), of c] format_str_internal_pad[of ?f v] a(4)
    by (simp add: format_str_def)
  also have "pad_string ?f v =
               (let n = w - length v;
                    l = (if a = CHR ''>'' then n else if a = CHR ''^'' then n div 2 else 0)
                in replicate l c @ v @ replicate (n - l) c)"
    by (simp add: pad_string_def shown_length_def padded_width_def Let_def max_def)
  finally have fs: "format_str v ?sp = Inr (let n = w - length v;
                    l = (if a = CHR ''>'' then n else if a = CHR ''^'' then n div 2 else 0)
                in replicate l c @ v @ replicate (n - l) c)" .
  have "fmt_steps (spec_expand kw) kw FLit [] (p @ (''{'' @ k @ '':'' @ ?sp @ ''}'') @ q) =
          Inr (FLit, p @ (let n = w - length v;
                    l = (if a = CHR ''>'' then n else if a = CHR ''^'' then n div 2 else 0)
                in replicate l c @ v @ replicate (n - l) c) @ q)"
    using fmt_steps_field_spec[OF assms(1) bf, of "spec_expand kw" kw p] assms(2,3,4) fs
    by (simp only: fmt_steps_append fmt_steps_plain) (simp add: fmt_steps_plain)
  then show ?thesis
    by (simp add: py_format_def fmt_run_def)
qed

text \<open>
  An indexed field \<open>{k[i]}\<close> is the \<open>i\<close>-th character of the keyword's value, and an
  index past its end raises \<open>IndexError("string index out of range")\<close>.
\<close>

lemma py_format_index_field:
  assumes "plain_name k" "map_of kw k = Some v" "brace_free p" "brace_free q" "int i \<le> py_ssize_t_max"
  shows "py_format (p @ ''{'' @ k @ ''['' @ nat_str i @ '']}'' @ q) kw =
           (if i < length v then Inr (p @ [v ! i] @ q)
            else Inl (FmtRaise (IndexError ''string index out of range'')))"
proof -
  have "fmt_steps (spec_expand kw) kw FLit [] (p @ (''{'' @ k @ ''['' @ nat_str i @ '']}'') @ q) =
          (if i < length v then Inr (FLit, p @ [v ! i] @ q)
           else Inl (FmtRaise (IndexError ''string index out of range'')))"
    using fmt_steps_index_field[OF assms(1,2,5), of "spec_expand kw" p] assms(3,4)
    by (simp only: fmt_steps_append fmt_steps_plain) (simp add: fmt_steps_plain)
  then show ?thesis
    by (simp add: py_format_def fmt_run_def)
qed

text \<open>
  A nested field in a format spec, \<open>{k:{j}}\<close>, is expanded first: the value of \<open>k\<close>
  is formatted with the value of \<open>j\<close> as its spec, and a spec error is raised as such.
\<close>

lemma py_format_nested_spec:
  assumes "plain_name k" "plain_name j" "map_of kw k = Some v" "map_of kw j = Some sp"
      and "brace_free p" "brace_free q"
  shows "py_format (p @ ''{'' @ k @ '':{'' @ j @ ''}}'' @ q) kw =
           (case format_str v sp of Inl e \<Rightarrow> Inl (FmtRaise e) | Inr r \<Rightarrow> Inr (p @ r @ q))"
proof -
  have "fmt_steps (spec_expand kw) kw FLit [] (p @ (''{'' @ k @ '':{'' @ j @ ''}}'') @ q) =
          (case format_str v sp of Inl e \<Rightarrow> Inl (FmtRaise e) | Inr r \<Rightarrow> Inr (FLit, p @ r @ q))"
    using fmt_steps_nested_field[OF assms(1,2), of "spec_expand kw" kw p] spec_expand_field[OF assms(2,4)]
          assms(3,5,6)
    by (cases "format_str v sp") (simp_all only: fmt_steps_append fmt_steps_plain, simp_all add: fmt_steps_plain)
  then show ?thesis
    by (cases "format_str v sp") (simp_all add: py_format_def fmt_run_def)
qed

text \<open>
  Fields nest two levels deep at most: \<open>{k:{j:{i}}}\<close> raises
  \<open>ValueError("Max string recursion exceeded")\<close> once the keywords \<open>k\<close> and \<open>j\<close> are
  found, whatever follows.
\<close>

lemma py_format_max_recursion:
  assumes "plain_name k" "plain_name j" "plain_name i" "map_of kw k \<noteq> None" "map_of kw j \<noteq> None"
      and "brace_free p"
  shows "py_format (p @ ''{'' @ k @ '':{'' @ j @ '':{'' @ i @ ''}}}'' @ rest) kw =
           Inl (FmtRaise (ValueError ''Max string recursion exceeded''))"
proof -
  let ?x = "''{'' @ j @ '':{'' @ i @ ''}}''"
  have inner: "fmt_steps ex kw (FSpec k None ''{'' 2) acc (j @ '':'' @ ''{'' @ i @ ''}'') =
                 Inr (FSpec k None (''{'' @ j @ '':'' @ ''{'' @ i @ ''}'') 2, acc)" for ex acc
  proof -
    have "brace_free (j @ '':'')"
      using plain_brace_free[OF assms(2)] by (simp add: brace_free_def)
    then have a1: "fmt_steps ex kw (FSpec k None ''{'' 2) acc (j @ '':'') =
                     Inr (FSpec k None (''{'' @ j @ '':'') 2, acc)"
      by (rule fmt_steps_spec)
    have a2: "fmt_steps ex kw (FSpec k None (''{'' @ j @ '':'') 2) acc (''{'' @ i @ ''}'') =
                Inr (FSpec k None ((''{'' @ j @ '':'') @ ''{'' @ i @ ''}'') 2, acc)"
      by (rule fmt_steps_spec_field[OF assms(3)]) simp
    have "fmt_steps ex kw (FSpec k None ''{'' 2) acc ((j @ '':'') @ (''{'' @ i @ ''}'')) =
            Inr (FSpec k None ((''{'' @ j @ '':'') @ ''{'' @ i @ ''}'') 2, acc)"
      unfolding fmt_steps_append[of ex kw "FSpec k None ''{'' 2" acc "j @ '':''" "''{'' @ i @ ''}''"] a1
      by (simp only: sum.case prod.case a2)
    then show ?thesis by (simp only: append_assoc)
  qed
  have spec: "fmt_steps ex kw (FSpec k None [] 1) acc ?x = Inr (FSpec k None ?x 1, acc)" for ex acc
    using fmt_steps_spec_nested[of 1 ex kw k None "[]" acc "j @ '':'' @ ''{'' @ i @ ''}''"] inner[of ex acc]
    by (simp add: numeral_2_eq_2)
  obtain v where v: "map_of kw k = Some v" using assms(4) by auto
  let ?F = "''{'' @ k @ '':'' @ ?x @ ''}''"
  have f: "fmt_steps (spec_expand kw) kw FLit p ?F =
             Inl (FmtRaise (ValueError ''Max string recursion exceeded''))"
    using fmt_steps_field_balanced[OF assms(1) spec[of "spec_expand kw" p]]
          render_field_plain[OF assms(1), of "spec_expand kw" kw None ?x] v
          max_recursion_field[OF assms(2,3,5)]
    by (simp add: convert_field_def)
  have "fmt_steps (spec_expand kw) kw FLit [] (p @ ?F @ rest) =
          Inl (FmtRaise (ValueError ''Max string recursion exceeded''))"
    unfolding fmt_steps_append[of "spec_expand kw" kw FLit "[]" p "?F @ rest"]
              fmt_steps_plain[OF assms(6)] append_Nil sum.case prod.case
              fmt_steps_append[of "spec_expand kw" kw FLit p ?F rest] f
    by simp
  then show ?thesis
    by (simp add: py_format_def fmt_run_def)
qed

lemma py_format_aligned_field_witness:
  "py_format (''Agent: '' @ ''{'' @ ''name'' @ '':'' @ [CHR ''*'', CHR ''^''] @ nat_str 10 @ ''}'' @ ''!'')
     [(''name'', ''Friday'')] = Inr ''Agent: **Friday**!''"
  using py_format_aligned_field[of "''name''" "[(''name'', ''Friday'')]" "''Friday''" "''Agent: ''" "''!''"
                                   "CHR ''*''" "CHR ''^''" 10]
  by (simp add: plain_name_def brace_free_def is_decimal_def py_ssize_t_max_def, simp add: numeral_2_eq_2)

lemma py_format_index_field_witness:
  "py_format (''Initial: '' @ ''{'' @ ''name'' @ ''['' @ nat_str 0 @ '']}'' @ ''.'') [(''name'', ''Friday'')] =
     Inr ''Initial: F.''"
  using py_format_index_field[of "''name''" "[(''name'', ''Friday'')]" "''Friday''" "''Initial: ''" "''.''" 0]
  by (simp add: plain_name_def brace_free_def is_decimal_def py_ssize_t_max_def)

lemma py_format_nested_spec_witness:
  "py_format ([] @ ''{'' @ ''name'' @ '':{'' @ ''w'' @ ''}}'' @ ''|'') [(''name'', ''Friday''), (''w'', ''>8'')] =
     Inr ''  Friday|''"
  using py_format_nested_spec[of "''name''" "''w''" "[(''name'', ''Friday''), (''w'', ''>8'')]" "''Friday''"
                                 "''>8''" "[]" "''|''"]
  by (simp add: plain_name_def brace_free_def is_decimal_def format_spec_simps Let_def,
      simp add: numeral_2_eq_2)

lemma py_format_max_recursion_witness:
  "py_format ([] @ ''{'' @ ''a'' @ '':{'' @ ''b'' @ '':{'' @ ''c'' @ ''}}}'' @ '' tail'') [(''a'', ''x''), (''b'', ''y'')] =
     Inl (FmtRaise (ValueError ''Max string recursion exceeded''))"
  using py_format_max_recursion[of "''a''" "''b''" "''c''" "[(''a'', ''x''), (''b'', ''y'')]" "[]" "'' tail''"]
  by (simp add: plain_name_def brace_free_def is_decimal_def)

lemma fmt_steps_escape_braces:
  "fmt_steps ex kw FLit acc (escape_braces s) = Inr (FLit, acc @ s)"
proof (induction s arbitrary: acc)
  case (Cons c s)
  have "fmt_steps ex kw FLit acc (escape_braces (c # s)) =
          fmt_steps ex kw FLit acc ((if c = CHR ''{'' \<or> c = CHR ''}'' then [c, c] else [c]) @ escape_braces s)"
    by (simp add: escape_braces_def)
  also have "\<dots> = fmt_steps ex kw FLit (acc @ [c]) (escape_braces s)"
    by (simp add: fmt_steps_append fmt_step_def)
  finally show ?case using Cons.IH by simp
qed (simp add: escape_braces_def)

lemma fmt_steps_tpl:
  "\<forall>k \<in> set (tpl_fields ps). plain_name k \<Longrightarrow>
   fmt_steps ex kw FLit acc (print_tpl ps) = map_sum id (\<lambda>r. (FLit, acc @ r)) (render_tpl kw ps)"
proof (induction ps arbitrary: acc rule: tpl_fields.induct)
  case (2 s ps)
  then show ?case
    by (cases "render_tpl kw ps")
       (simp_all add: fmt_steps_append fmt_steps_escape_braces)
next
  case (3 k ps)
  then have k: "plain_name k" by simp
  have split: "fmt_steps ex kw FLit acc (print_tpl (TField k # ps)) =
      (case fmt_steps ex kw FLit acc (''{'' @ k @ ''}'') of
         Inl e \<Rightarrow> Inl e
       | Inr (m', acc') \<Rightarrow> fmt_steps ex kw m' acc' (print_tpl ps))"
    unfolding print_tpl.simps
    by (rule fmt_steps_append[of ex kw FLit acc "''{'' @ k @ ''}''" "print_tpl ps", unfolded append_assoc])
  show ?case
    unfolding split fmt_steps_field[OF k]
    using 3 by (cases "map_of kw k"; cases "render_tpl kw ps") simp_all
qed simp

text \<open>
  \<open>str.format\<close> refines the reference semantics of templates: a template of literal
  text and plain keyword fields, printed with its braces doubled, is formatted exactly as
  \<open>render_tpl\<close> renders it, the text copied and each field replaced by its keyword's value,
  or \<open>KeyError\<close> at the first field whose keyword is missing.
\<close>

lemma py_format_template:
  assumes "\<forall>k \<in> set (tpl_fields ps). plain_name k"
  shows "py_format (print_tpl ps) kw = render_tpl kw ps"
  using fmt_steps_tpl[OF assms, of "spec_expand kw" kw "[]"]
  by (cases "render_tpl kw ps") (simp_all add: py_format_def fmt_run_def)

lemma py_format_template_witness:
  "py_format (print_tpl [TLit ''You are '', TField ''name'', TLit ''. Reply with {answer: ...}.''])
     [(''name'', ''Friday'')] = Inr ''You are Friday. Reply with {answer: ...}.''"
  using py_format_template[of "[TLit ''You are '', TField ''name'', TLit ''. Reply with {answer: ...}.'']"
                              "[(''name'', ''Friday'')]"]
  by (simp add: plain_name_def is_decimal_def)

lemma print_tpl_append: "print_tpl (ps @ qs) = print_tpl ps @ print_tpl qs"
  by (induction ps rule: print_tpl.induct) simp_all

lemma tpl_fields_append: "tpl_fields (ps @ qs) = tpl_fields ps @ tpl_fields qs"
  by (induction ps rule: tpl_fields.induct) simp_all

lemma print_tpl_newline: "print_tpl (ps @ [TLit ''\<newline>'']) = print_tpl ps @ ''\<newline>''"
  by (simp add: print_tpl_append escape_braces_def)

text \<open>With the one keyword \<open>name\<close>, a template renders unless it has another field, and
  then fails at the first such field.\<close>

lemma render_tpl_one_key:
  "render_tpl [(''name'', v)] ps =
     (case filter (\<lambda>k. k \<noteq> ''name'') (tpl_fields ps) of
        [] \<Rightarrow> Inr (projr (render_tpl [(''name'', v)] ps))
      | k # ks \<Rightarrow> Inl (FmtRaise (KeyError k)))"
proof (induction ps rule: tpl_fields.induct)
  case (2 s ps)
  then show ?case
    by (cases "filter (\<lambda>k. k \<noteq> ''name'') (tpl_fields ps)"; cases "render_tpl [(''name'', v)] ps") simp_all
next
  case (3 k ps)
  then show ?case
    by (cases "filter (\<lambda>k. k \<noteq> ''name'') (tpl_fields ps)"; cases "render_tpl [(''name'', v)] ps") simp_all
qed simp

end
