(* ===== verification/Agent_Framework.thy ===== *)
theory Agent_Framework
  imports Py_Builtins "HOL-Library.AList"
begin

text \<open>
  The interfaces of the AgentScope framework that \<open>CodeAgent\<close> calls.  Their code is not
  part of this repository, so they are modelled from the specification (section 6) at the
  boundary the agent uses:
  \<^item> a message \<open>Msg(name, content, role)\<close> is a record; \<open>echo=True\<close> prints it once, which
    is an event of the agent's trace, not a field;
  \<^item> the conversation memory is the list of messages in insertion order; \<open>add\<close> ignores
    \<open>None\<close>, appends one message or a sequence of messages, never removes or reorders;
  \<^item> the tool registry (\<open>ServiceToolkit\<close>) maps tool names to descriptors in registration
    order; adding a tool under a name that exists replaces the descriptor in place;
  \<^item> the model client is an oracle with a state of its own (type \<open>'m\<close>): a request is the
    list of messages it is given and the optional stop sequences, the answer has the
    completion \<open>.text\<close> (\<open>resp_text\<close>) and an optional \<open>.stream\<close> (\<open>resp_stream\<close>);
  \<^item> a tool function returns a \<open>ServiceResponse(status, content)\<close>.
  Everything the agent prints or sends to the model is recorded as an \<open>event\<close>.
\<close>

subsection \<open>Definitions\<close>

datatype role = System | User | Assistant

record msg =
  msg_name :: string
  content :: string
  role :: role

text \<open>The argument \<open>x\<close> of \<open>reply\<close>: \<open>Optional[Union[Msg, Sequence[Msg]]]\<close>.\<close>

datatype reply_input = NoInput | OneMsg msg | MsgSeq "msg list"

fun input_msgs :: "reply_input \<Rightarrow> msg list" where
  "input_msgs NoInput = []"
| "input_msgs (OneMsg m) = [m]"
| "input_msgs (MsgSeq ms) = ms"

definition memory_add :: "msg list \<Rightarrow> reply_input \<Rightarrow> msg list" where
  "memory_add mem x = mem @ input_msgs x"

record tool =
  tool_name :: string
  tool_doc :: string

record toolkit =
  service_funcs :: "(string \<times> tool) list"

definition toolkit_add :: "toolkit \<Rightarrow> tool \<Rightarrow> toolkit" where
  "toolkit_add tk t = tk\<lparr>service_funcs := AList.update (tool_name t) t (service_funcs tk)\<rparr>"

record model_request =
  prompt :: "msg list"
  stop_sequences :: "string list option"

record model_response =
  resp_text :: string
  resp_stream :: "string option"

type_synonym 'm model_client = "'m \<Rightarrow> model_request \<Rightarrow> 'm \<times> model_response"

datatype event = ModelCall model_request | Echo msg | Spoke string

datatype exec_status = SUCCESS | ERROR

record 'c service_response =
  status :: exec_status
  resp_content :: 'c

subsection \<open>Lemmas\<close>

lemma memory_add_prefix: "take (length mem) (memory_add mem x) = mem"
  by (simp add: memory_add_def)

lemma toolkit_add_lookup:
  "map_of (service_funcs (toolkit_add tk t)) (tool_name t) = Some t"
  by (simp add: toolkit_add_def update_conv')

lemma toolkit_add_names:
  "set (map fst (service_funcs (toolkit_add tk t))) =
     insert (tool_name t) (set (map fst (service_funcs tk)))"
  by (auto simp: toolkit_add_def update_keys)

end
