(* ===== verification/Code_Agent.thy ===== *)
theory Code_Agent
  imports Code_Extractor Code_Prompt Agent_Framework
begin

text \<open>
  The agent class \<open>CodeAgent\<close> of \<open>src/src/agentscope/agents/code_agent.py\<close>.
  \<^item> \<open>code_agent\<close> is the instance state: the fields set by \<open>AgentBase.__init__\<close> that the
    class uses (\<open>name\<close>, the model client, the memory) and those set by
    \<open>CodeAgent.__init__\<close>, plus \<open>trace\<close>, the events the instance produces (model calls,
    echoed and spoken messages).
  \<^item> \<open>init_code_agent\<close> is \<open>__init__\<close> (lines 199-264).  It returns the caller's toolkit
    beside the outcome, because \<open>service_toolkit.add(self.finish)\<close> mutates the
    caller's object before anything can fail.  Its parameters \<open>tools_instruction\<close> (the
    toolkit's rendering of its tools) and \<open>base_modules\<close> (the value of
    \<open>list(set(BASE_BUILTIN_MODULES))\<close>, whose order is the hash order of a set) are left
    open, as these collaborators are not part of the repository.
  \<^item> \<open>reply\<close> is the method of lines 297-335: \<open>reply_loop\<close> is the \<open>for\<close> loop over
    \<open>range(self.max_iters)\<close> and \<open>summarize\<close> the code after it.  \<open>ast_parse\<close> is the
    Python parser used by \<open>parse_code_blobs\<close>, \<open>llm\<close> the model client.
  In the loop the result of \<open>fix_final_answer_code(...)\<close> is assigned and never used, and
  the function (a pure rewrite of a \<open>str\<close>) cannot raise, so the model leaves it out.
  \<open>finish\<close> is the tool of lines 338-349.  \<open>reply_seq\<close> is a caller that calls one instance
  on a sequence of inputs, catching what each call raises, to state what successive calls
  do to the memory and the trace.  Construction is characterised on every template of
  literal text and plain fields (\<open>print_tpl\<close> of \<open>Py_Format\<close>): it renders the template
  with the one keyword \<open>name\<close> and then applies the two replacements.
\<close>

subsection \<open>Definitions\<close>

text \<open>What \<open>LocalPythonInterpreter(additional_authorized_imports, service_funcs)\<close> is given.\<close>

record executor =
  exec_authorized_imports :: "string list"
  exec_tools :: "string list"

record 'm code_agent =
  agent_name :: string
  model :: 'm
  memory :: "msg list"
  service_toolkit :: toolkit
  verbose :: bool
  max_iters :: int
  authorized_imports :: "string list"
  additional_authorized_imports :: "string list"
  sys_prompt :: string
  system_prompt :: string
  python_executor :: executor
  trace :: "event list"

definition finish :: "string \<Rightarrow> string service_response" where
  "finish response = \<lparr>status = SUCCESS, resp_content = response\<rparr>"

text \<open>\<open>self.finish\<close> as the toolkit registers it: its name and its docstring.\<close>

definition finish_tool :: tool where
  "finish_tool = \<lparr>tool_name = ''finish'',
                  tool_doc = ''Finish reasoning and generate a response to the user.''\<rparr>"

definition unrestricted_imports_text :: string where
  "unrestricted_imports_text = ''You can import from any package you want.''"

definition init_code_agent ::
  "(toolkit \<Rightarrow> string) \<Rightarrow> string list \<Rightarrow> string \<Rightarrow> 'm \<Rightarrow> toolkit \<Rightarrow> string \<Rightarrow>
   string list option \<Rightarrow> int \<Rightarrow> bool \<Rightarrow> (fmt_error + 'm code_agent) \<times> toolkit" where
  "init_code_agent tools_instruction base_modules name m service_toolkit0 sys_prompt0
     additional max_iters0 verbose0 =
     (let tk = toolkit_add service_toolkit0 finish_tool;
          sp = (if py_endswith sys_prompt0 ''\<newline>'' then sys_prompt0 else sys_prompt0 @ ''\<newline>'');
          auth = base_modules;
          extra = (case additional of None \<Rightarrow> [] | Some xs \<Rightarrow> xs)
      in (case py_format sp [(''name'', name)] of
            Inl e \<Rightarrow> Inl e
          | Inr sp' \<Rightarrow>
              (let sys = py_replace sp' ''{{tool_descriptions}}'' (tools_instruction tk);
                   system = py_replace sys ''{{authorized_imports}}''
                              (if ''*'' \<in> set auth then unrestricted_imports_text
                               else py_str_list auth)
               in Inr \<lparr>agent_name = name, model = m,
                       memory = [\<lparr>msg_name = ''system'', content = sys, role = System\<rparr>],
                       service_toolkit = tk, verbose = verbose0, max_iters = max_iters0,
                       authorized_imports = auth, additional_authorized_imports = extra,
                       sys_prompt = sys, system_prompt = system,
                       python_executor = \<lparr>exec_authorized_imports = extra,
                                          exec_tools = map fst (service_funcs tk)\<rparr>,
                       trace = []\<rparr>),
          tk))"

definition reply_stop_sequences :: "string list" where
  "reply_stop_sequences = [''<end_code>'', ''Observation:'']"

text \<open>The \<open>ValueError\<close> that the \<open>except\<close> clause raises for a caught exception \<open>e\<close>.\<close>

definition parse_error_reply :: "py_exc \<Rightarrow> py_exc" where
  "parse_error_reply e = ValueError (''Error in code parsing:\<newline>'' @ py_exc_str e @
                                    ''\<newline>Make sure to provide correct code blobs.'')"

text \<open>
  One iteration: the request is built from \<open>self.memory and self.memory.get_memory() or x\<close>
  (the memory when it is not empty, the input otherwise), the model is called with the two
  stop sequences, and the response goes through the bound call
  \<open>self.parse_code_blobs(response)\<close>.
\<close>

fun reply_loop ::
  "'m model_client \<Rightarrow> (string \<Rightarrow> ast_outcome) \<Rightarrow> reply_input \<Rightarrow> nat \<Rightarrow> 'm code_agent \<Rightarrow>
   (py_exc + unit) \<times> 'm code_agent" where
  "reply_loop llm ast_parse x 0 st = (Inr (), st)"
| "reply_loop llm ast_parse x (Suc k) st =
     (let req = \<lparr>prompt = (if memory st \<noteq> [] then memory st else input_msgs x),
                 stop_sequences = Some reply_stop_sequences\<rparr>;
          (m', res) = llm (model st) req;
          st' = st\<lparr>model := m', trace := trace st @ [ModelCall req]\<rparr>
      in case call_parse_code_blobs ast_parse [PyObj ''CodeAgent'', PyStr (resp_text res)] of
           Inl e \<Rightarrow> (Inl (parse_error_reply e), st')
         | Inr code_action \<Rightarrow> reply_loop llm ast_parse x k st')"

definition hint_msg :: msg where
  "hint_msg = \<lparr>msg_name = ''system'',
               content = ''You have failed to generate response within the maximum '' @
                         ''iterations. Now respond directly by summarizing the current '' @
                         ''situation.'',
               role = System\<rparr>"

text \<open>
  After the loop: the hint is echoed when \<open>verbose\<close>, the model is called once on the
  memory followed by the hint and without stop sequences, the answer is spoken
  (\<open>res.stream or res.text\<close>) and returned as an assistant message.
\<close>

definition summarize :: "'m model_client \<Rightarrow> 'm code_agent \<Rightarrow> msg \<times> 'm code_agent" where
  "summarize llm st =
     (let st1 = st\<lparr>trace := trace st @ (if verbose st then [Echo hint_msg] else [])\<rparr>;
          req = \<lparr>prompt = memory st1 @ [hint_msg], stop_sequences = None\<rparr>;
          (m', res) = llm (model st1) req;
          st2 = st1\<lparr>model := m',
                    trace := trace st1 @ [ModelCall req,
                               Spoke (case resp_stream res of Some s \<Rightarrow> s | None \<Rightarrow> resp_text res)]\<rparr>
      in (\<lparr>msg_name = agent_name st, content = resp_text res, role = Assistant\<rparr>, st2))"

definition reply ::
  "'m model_client \<Rightarrow> (string \<Rightarrow> ast_outcome) \<Rightarrow> 'm code_agent \<Rightarrow> reply_input \<Rightarrow>
   (py_exc + msg) \<times> 'm code_agent" where
  "reply llm ast_parse st x =
     (let st1 = st\<lparr>memory := memory_add (memory st) x\<rparr>
      in case reply_loop llm ast_parse x (nat (max_iters st1)) st1 of
           (Inl e, st2) \<Rightarrow> (Inl e, st2)
         | (Inr u, st2) \<Rightarrow> (let (r, st3) = summarize llm st2 in (Inr r, st3)))"

text \<open>A caller that calls the same instance on a sequence of inputs, \<open>agent(x)\<close> after
  \<open>agent(x)\<close>, catching whatever each call raises: the results and the final state.\<close>

fun reply_seq ::
  "'m model_client \<Rightarrow> (string \<Rightarrow> ast_outcome) \<Rightarrow> 'm code_agent \<Rightarrow> reply_input list \<Rightarrow>
   (py_exc + msg) list \<times> 'm code_agent" where
  "reply_seq llm ast_parse st [] = ([], st)"
| "reply_seq llm ast_parse st (x # xs) =
     (let (r, st') = reply llm ast_parse st x;
          (rs, st'') = reply_seq llm ast_parse st' xs
      in (r # rs, st''))"

text \<open>
  The states an instance can be in: the result of a successful construction, and any
  state after a call of \<open>reply\<close> (one that raised included: the object survives it).
\<close>

inductive reachable_agent ::
  "'m model_client \<Rightarrow> (string \<Rightarrow> ast_outcome) \<Rightarrow> 'm code_agent \<Rightarrow> bool"
  for llm ast_parse where
  init: "fst (init_code_agent ti base name m tk sp extra mi vb) = Inr st \<Longrightarrow>
         reachable_agent llm ast_parse st"
| step: "reachable_agent llm ast_parse st \<Longrightarrow>
         reachable_agent llm ast_parse (snd (reply llm ast_parse st x))"

definition system_first :: "'m code_agent \<Rightarrow> bool" where
  "system_first st \<longleftrightarrow>
     memory st \<noteq> [] \<and> hd (memory st) = \<lparr>msg_name = ''system'', content = sys_prompt st, role = System\<rparr>"

definition is_model_call :: "event \<Rightarrow> bool" where
  "is_model_call e = (case e of ModelCall r \<Rightarrow> True | _ \<Rightarrow> False)"

text \<open>
  The invariant of an instance: the memory starts with the system message; both prompts end
  with a newline (section 4.1 of the specification); the executor was given exactly the
  toolkit's functions, \<open>finish\<close> among them.
\<close>

definition agent_inv :: "'m code_agent \<Rightarrow> bool" where
  "agent_inv st \<longleftrightarrow>
     system_first st \<and> py_endswith (sys_prompt st) ''\<newline>'' \<and> py_endswith (system_prompt st) ''\<newline>'' \<and>
     exec_tools (python_executor st) = map fst (service_funcs (service_toolkit st)) \<and>
     ''finish'' \<in> set (exec_tools (python_executor st))"

subsection \<open>Lemmas\<close>

text \<open>
  The loop never gets past its first iteration: the bound call raises before the
  response is looked at, and the \<open>except\<close> clause turns that into a \<open>ValueError\<close>.
\<close>

lemma reply_first_iteration:
  assumes "0 < max_iters st"
  shows "reply llm ast_parse st x =
     (let req = \<lparr>prompt = memory st @ input_msgs x, stop_sequences = Some reply_stop_sequences\<rparr>
      in (Inl (parse_error_reply
                (TypeError ''CodeAgent.parse_code_blobs() takes 1 positional argument but 2 were given'')),
          st\<lparr>memory := memory st @ input_msgs x, model := fst (llm (model st) req),
             trace := trace st @ [ModelCall req]\<rparr>))"
proof -
  obtain k where k: "nat (max_iters st) = Suc k"
    using assms by (cases "nat (max_iters st)") auto
  show ?thesis
    by (simp add: reply_def k Let_def memory_add_def call_parse_code_blobs_bound split: prod.split)
qed

lemma reply_no_iterations:
  assumes "max_iters st \<le> 0"
  shows "reply llm ast_parse st x =
           (let st1 = st\<lparr>memory := memory st @ input_msgs x\<rparr> in
            (Inr (fst (summarize llm st1)), snd (summarize llm st1)))"
proof -
  have "nat (max_iters st) = 0" using assms by simp
  then show ?thesis
    by (simp add: reply_def memory_add_def split: prod.split)
qed

lemma summarize_fields:
  "fst (summarize llm st) =
     \<lparr>msg_name = agent_name st,
      content = resp_text (snd (llm (model st) \<lparr>prompt = memory st @ [hint_msg], stop_sequences = None\<rparr>)),
      role = Assistant\<rparr>"
  "filter is_model_call (trace (snd (summarize llm st))) = filter is_model_call (trace st) @
     [ModelCall \<lparr>prompt = memory st @ [hint_msg], stop_sequences = None\<rparr>]"
  by (simp_all add: summarize_def is_model_call_def Let_def split: prod.split)

text \<open>\<open>reply\<close> changes the memory, the model client's state and the trace, nothing else.\<close>

lemma reply_loop_only:
  "\<exists>m tr. snd (reply_loop llm ast_parse x n st) = st\<lparr>model := m, trace := tr\<rparr>"
proof (induction n arbitrary: st)
  case 0
  show ?case by (intro exI[of _ "model st"] exI[of _ "trace st"]) simp
next
  case (Suc k)
  show ?case
    by (auto simp: call_parse_code_blobs_bound Let_def split: prod.split)
qed

lemma summarize_only:
  "\<exists>m tr. snd (summarize llm st) = st\<lparr>model := m, trace := tr\<rparr>"
  by (auto simp: summarize_def Let_def split: prod.split)

lemma reply_only:
  "\<exists>m tr. snd (reply llm ast_parse st x) =
      st\<lparr>memory := memory st @ input_msgs x, model := m, trace := tr\<rparr>"
proof -
  let ?st1 = "st\<lparr>memory := memory_add (memory st) x\<rparr>"
  obtain r st2 where l: "reply_loop llm ast_parse x (nat (max_iters ?st1)) ?st1 = (r, st2)"
    by (cases "reply_loop llm ast_parse x (nat (max_iters ?st1)) ?st1")
  obtain m1 tr1 where st2: "st2 = ?st1\<lparr>model := m1, trace := tr1\<rparr>"
    using reply_loop_only[of llm ast_parse x "nat (max_iters ?st1)" ?st1] l by auto
  show ?thesis
  proof (cases r)
    case (Inl e)
    then show ?thesis
      using l st2 by (intro exI[of _ m1] exI[of _ tr1]) (simp add: reply_def memory_add_def)
  next
    case (Inr u)
    obtain res st3 where s: "summarize llm st2 = (res, st3)"
      by (cases "summarize llm st2")
    obtain m2 tr2 where st3: "st3 = st2\<lparr>model := m2, trace := tr2\<rparr>"
      using summarize_only[of llm st2] s by auto
    show ?thesis
      using Inr l s st2 st3
      by (intro exI[of _ m2] exI[of _ tr2]) (simp add: reply_def memory_add_def)
  qed
qed

lemma reply_model_calls:
  "length (filter is_model_call (trace (snd (reply llm ast_parse st x)))) =
     Suc (length (filter is_model_call (trace st)))"
proof (cases "0 < max_iters st")
  case True
  then show ?thesis
    using reply_first_iteration[OF True, of llm ast_parse x] by (simp add: is_model_call_def Let_def)
next
  case False
  then show ?thesis
    using reply_no_iterations[of st llm ast_parse x] by (simp add: summarize_fields Let_def)
qed

lemma reply_keeps:
  "agent_name (snd (reply llm ast_parse st x)) = agent_name st \<and>
   sys_prompt (snd (reply llm ast_parse st x)) = sys_prompt st \<and>
   max_iters (snd (reply llm ast_parse st x)) = max_iters st \<and>
   memory (snd (reply llm ast_parse st x)) = memory st @ input_msgs x"
  using reply_only[of llm ast_parse st x] by auto

lemma init_inv:
  assumes h: "fst (init_code_agent ti base name m tk sp extra mi vb) = Inr st"
  shows "agent_inv st"
proof -
  define sp1 where "sp1 = (if py_endswith sp ''\<newline>'' then sp else sp @ ''\<newline>'')"
  have e1: "py_endswith sp1 ''\<newline>''"
    by (simp add: sp1_def py_endswith_suffix)
  have fin: "''finish'' \<in> fst ` set (service_funcs (toolkit_add tk finish_tool))"
    using toolkit_add_names[of tk finish_tool] by (simp add: finish_tool_def)
  show ?thesis
  proof (cases "py_format sp1 [(''name'', name)]")
    case (Inl e)
    then show ?thesis
      using h by (simp add: init_code_agent_def Let_def sp1_def[symmetric])
  next
    case (Inr sp')
    have n1: "py_endswith sp' ''\<newline>''"
      by (rule py_format_endswith_newline[OF Inr e1])
    have n2: "py_endswith (py_replace sp' ''{{tool_descriptions}}'' t) ''\<newline>''" for t
      by (rule py_replace_endswith) (simp_all add: n1)
    have n3: "py_endswith (py_replace (py_replace sp' ''{{tool_descriptions}}'' t)
                             ''{{authorized_imports}}'' u) ''\<newline>''" for t u
      by (rule py_replace_endswith) (simp_all add: n2)
    show ?thesis
      using h Inr n2 n3
      by (auto simp: init_code_agent_def Let_def sp1_def[symmetric] agent_inv_def system_first_def fin)
  qed
qed

lemma reply_inv:
  "agent_inv st \<Longrightarrow> agent_inv (snd (reply llm ast_parse st x))"
proof -
  assume inv: "agent_inv st"
  obtain m tr where r: "snd (reply llm ast_parse st x) =
      st\<lparr>memory := memory st @ input_msgs x, model := m, trace := tr\<rparr>"
    using reply_only[of llm ast_parse st x] by auto
  show ?thesis
    using inv by (auto simp: r agent_inv_def system_first_def)
qed

lemma brace_free_open:
  "brace_free x \<Longrightarrow>
   \<not> py_in (CHR ''{'' # w) x \<and> (x \<noteq> [] \<longrightarrow> hd x \<noteq> CHR ''{'' \<and> last x \<noteq> CHR ''{'')"
  by (auto simp: brace_free_def dest: hd_in_set last_in_set)

lemma starts_with_single [simp]: "starts_with [b] xs \<longleftrightarrow> xs \<noteq> [] \<and> hd xs = b"
  by (cases xs) auto

lemma no_double_open:
  assumes "brace_free p" "brace_free w1" "brace_free q" "brace_free w2" "brace_free r"
  shows "\<not> py_in ''{{'' (p @ ''{'' @ w1 @ ''}'' @ q @ ''{'' @ w2 @ ''}'' @ r)"
  using brace_free_open[OF assms(1)] brace_free_open[OF assms(2)] brace_free_open[OF assms(3)]
    brace_free_open[OF assms(4)] brace_free_open[OF assms(5)]
  by (auto simp: py_in_pair_append hd_append)

lemma absent_after_no_double_open:
  "\<not> py_in ''{{'' s \<Longrightarrow> \<not> py_in (''{{'' @ w) s"
  using py_in_prefix_mono by blast

lemma brace_free_newline:
  "brace_free sp \<Longrightarrow> brace_free (if py_endswith sp ''\<newline>'' then sp else sp @ ''\<newline>'')"
  by (simp add: brace_free_def)

lemma init_brace_free:
  assumes "brace_free sp"
  shows "init_code_agent ti base name m tk sp extra mi vb =
     (let sp1 = (if py_endswith sp ''\<newline>'' then sp else sp @ ''\<newline>'');
          tk' = toolkit_add tk finish_tool;
          extra' = (case extra of None \<Rightarrow> [] | Some xs \<Rightarrow> xs)
      in (Inr \<lparr>agent_name = name, model = m,
               memory = [\<lparr>msg_name = ''system'', content = sp1, role = System\<rparr>],
               service_toolkit = tk', verbose = vb, max_iters = mi,
               authorized_imports = base, additional_authorized_imports = extra',
               sys_prompt = sp1, system_prompt = sp1,
               python_executor = \<lparr>exec_authorized_imports = extra',
                                  exec_tools = map fst (service_funcs tk')\<rparr>,
               trace = []\<rparr>, tk'))"
proof -
  define sp1 where "sp1 = (if py_endswith sp ''\<newline>'' then sp else sp @ ''\<newline>'')"
  have bf: "brace_free sp1"
    unfolding sp1_def by (rule brace_free_newline[OF assms])
  then have fmt: "py_format sp1 [(''name'', name)] = Inr sp1"
    by (simp add: py_format_def fmt_run_def fmt_steps_plain)
  have no: "CHR ''{'' \<notin> set sp1"
    using bf by (simp add: brace_free_def)
  have r1: "py_replace sp1 ''{{tool_descriptions}}'' t = sp1" for t
    using no by (simp add: py_replace_absent del: py_in.simps)
  have r2: "py_replace sp1 ''{{authorized_imports}}'' t = sp1" for t
    using no by (simp add: py_replace_absent del: py_in.simps)
  show ?thesis
    using fmt r1 r2 by (simp add: init_code_agent_def Let_def sp1_def[symmetric])
qed

text \<open>A construction that succeeds, used by the examples below.\<close>

lemma init_example_succeeds:
  "\<exists>st. fst (init_code_agent (\<lambda>_. ''finish: Finish reasoning.'') [''math''] ''Friday'' (m::'m)
          \<lparr>service_funcs = []\<rparr> ''You are {name}.'' None 10 True) = Inr st"
  by (simp add: init_code_agent_def Let_def py_format_def fmt_run_def fmt_unfold py_endswith_def
                render_field_def get_integer_def field_first_def field_rest_def is_decimal_def
                convert_field_def)

text \<open>Construction with a template of literal text and plain fields: the template, with the
  newline the code appends, is rendered with the one keyword \<open>name\<close>, and the two
  placeholder replacements are applied to the result.\<close>

lemma init_code_agent_tpl:
  assumes "\<forall>k \<in> set (tpl_fields ps). plain_name k"
  shows "fst (init_code_agent ti base name m tk (print_tpl ps) extra mi vb) =
     map_sum id (\<lambda>s. \<lparr>agent_name = name, model = m,
         memory = [\<lparr>msg_name = ''system'',
                    content = py_replace s ''{{tool_descriptions}}'' (ti (toolkit_add tk finish_tool)),
                    role = System\<rparr>],
         service_toolkit = toolkit_add tk finish_tool, verbose = vb, max_iters = mi,
         authorized_imports = base,
         additional_authorized_imports = (case extra of None \<Rightarrow> [] | Some xs \<Rightarrow> xs),
         sys_prompt = py_replace s ''{{tool_descriptions}}'' (ti (toolkit_add tk finish_tool)),
         system_prompt = py_replace (py_replace s ''{{tool_descriptions}}'' (ti (toolkit_add tk finish_tool)))
                           ''{{authorized_imports}}''
                           (if ''*'' \<in> set base then unrestricted_imports_text else py_str_list base),
         python_executor = \<lparr>exec_authorized_imports = (case extra of None \<Rightarrow> [] | Some xs \<Rightarrow> xs),
                            exec_tools = map fst (service_funcs (toolkit_add tk finish_tool))\<rparr>,
         trace = []\<rparr>)
       (render_tpl [(''name'', name)]
          (if py_endswith (print_tpl ps) ''\<newline>'' then ps else ps @ [TLit ''\<newline>'']))"
proof -
  let ?ps = "if py_endswith (print_tpl ps) ''\<newline>'' then ps else ps @ [TLit ''\<newline>'']"
  have f: "\<forall>k \<in> set (tpl_fields ?ps). plain_name k"
    using assms by (simp add: tpl_fields_append)
  have p: "print_tpl ?ps =
           (if py_endswith (print_tpl ps) ''\<newline>'' then print_tpl ps else print_tpl ps @ ''\<newline>'')"
    by (simp add: print_tpl_newline)
  show ?thesis
    using py_format_template[OF f, of "[(''name'', name)]"]
    by (simp add: init_code_agent_def Let_def p[symmetric] split: sum.split)
qed

subsection \<open>Properties\<close>

text \<open>
  C1.  Whenever \<open>max_iters\<close> is positive (the default is 10), \<open>reply\<close> raises
  \<open>ValueError("Error in code parsing: ...takes 1 positional argument but 2 were given...")\<close>
  after exactly one model call, whatever the model answers: the input is kept in memory
  and nothing else is recorded.  The code-action loop of the specification never runs.
\<close>

theorem reply_fails_first_iteration:
  assumes "0 < max_iters st"
  shows "fst (reply llm ast_parse st x) =
           Inl (ValueError (''Error in code parsing:\<newline>'' @
             ''CodeAgent.parse_code_blobs() takes 1 positional argument but 2 were given'' @
             ''\<newline>Make sure to provide correct code blobs.''))
       \<and> memory (snd (reply llm ast_parse st x)) = memory st @ input_msgs x
       \<and> trace (snd (reply llm ast_parse st x)) =
           trace st @ [ModelCall \<lparr>prompt = memory st @ input_msgs x,
                                  stop_sequences = Some reply_stop_sequences\<rparr>]"
  using reply_first_iteration[OF assms, of llm ast_parse x]
  by (simp add: parse_error_reply_def Let_def)

theorem reply_fails_first_iteration_witness:
  "fst (reply (\<lambda>m req. (Suc m, \<lparr>resp_text = ''```py\<newline>final_answer(\"42\")\<newline>```'', resp_stream = None\<rparr>))
              (\<lambda>_. AstOk)
              \<lparr>agent_name = ''assistant'', model = (0::nat),
               memory = [\<lparr>msg_name = ''system'', content = ''Solve the task.\<newline>'', role = System\<rparr>],
               service_toolkit = \<lparr>service_funcs = [(''finish'', finish_tool)]\<rparr>, verbose = True,
               max_iters = 10, authorized_imports = [''math''], additional_authorized_imports = [],
               sys_prompt = ''Solve the task.\<newline>'', system_prompt = ''Solve the task.\<newline>'',
               python_executor = \<lparr>exec_authorized_imports = [], exec_tools = [''finish'']\<rparr>,
               trace = []\<rparr>
              (OneMsg \<lparr>msg_name = ''user'', content = ''What is 6 times 7?'', role = User\<rparr>))
   = Inl (ValueError (''Error in code parsing:\<newline>'' @
             ''CodeAgent.parse_code_blobs() takes 1 positional argument but 2 were given'' @
             ''\<newline>Make sure to provide correct code blobs.''))"
  using reply_fails_first_iteration[where st = "\<lparr>agent_name = ''assistant'', model = (0::nat),
               memory = [\<lparr>msg_name = ''system'', content = ''Solve the task.\<newline>'', role = System\<rparr>],
               service_toolkit = \<lparr>service_funcs = [(''finish'', finish_tool)]\<rparr>, verbose = True,
               max_iters = 10, authorized_imports = [''math''], additional_authorized_imports = [],
               sys_prompt = ''Solve the task.\<newline>'', system_prompt = ''Solve the task.\<newline>'',
               python_executor = \<lparr>exec_authorized_imports = [], exec_tools = [''finish'']\<rparr>,
               trace = []\<rparr>"]
  by simp

text \<open>
  C3.  Constructing a \<open>CodeAgent\<close> with the default template \<open>CODE_SYSTEM_PROMPT\<close> raises
  \<open>KeyError('question')\<close> from \<open>sys_prompt.format(name=self.name)\<close>, whatever the name,
  toolkit and options; the caller's toolkit has the \<open>finish\<close> tool added all the same.
\<close>

theorem init_default_prompt_key_error:
  "init_code_agent tools_instruction base_modules name m tk CODE_SYSTEM_PROMPT extra mi vb =
     (Inl (FmtRaise (KeyError (squote # ''question'' @ [squote]))), toolkit_add tk finish_tool)"
  by (simp add: init_code_agent_def CODE_SYSTEM_PROMPT_endswith CODE_SYSTEM_PROMPT_format_key_error)

text \<open>
  C4.  For a template that uses the placeholders as \<open>CODE_SYSTEM_PROMPT\<close> does,
  \<open>{{tool_descriptions}}\<close> and \<open>{{authorized_imports}}\<close> amid brace-free text, construction
  succeeds but neither placeholder is filled: \<open>str.format\<close> has already turned the doubled
  braces into single ones, so the literal \<open>str.replace\<close> calls find nothing.  The system
  prompt holds \<open>{tool_descriptions}\<close> and \<open>{authorized_imports}\<close> whatever the tools and the
  authorized imports are.
\<close>

theorem init_placeholders_unfilled:
  assumes "brace_free p" "brace_free q" "brace_free r"
  shows "\<exists>st. init_code_agent tools_instruction base_modules name m tk
                (p @ ''{{tool_descriptions}}'' @ q @ ''{{authorized_imports}}'' @ r @ ''\<newline>'')
                extra mi vb = (Inr st, toolkit_add tk finish_tool)
           \<and> sys_prompt st = p @ ''{tool_descriptions}'' @ q @ ''{authorized_imports}'' @ r @ ''\<newline>''
           \<and> system_prompt st = sys_prompt st"
proof -
  let ?t = "p @ ''{{tool_descriptions}}'' @ q @ ''{{authorized_imports}}'' @ r @ ''\<newline>''"
  let ?s = "p @ ''{tool_descriptions}'' @ q @ ''{authorized_imports}'' @ r @ ''\<newline>''"
  have r': "brace_free (r @ ''\<newline>'')"
    using assms(3) by (simp add: brace_free_def)
  have words: "brace_free ''tool_descriptions''" "brace_free ''authorized_imports''"
    by (simp_all add: brace_free_def)
  have ends: "py_endswith ?t ''\<newline>''"
    unfolding py_endswith_suffix append_assoc[symmetric] by (rule suffix_appendI) simp
  have fmt: "py_format ?t [(''name'', name)] = Inr ?s"
    using py_format_escaped_words[OF assms(1) words(1) assms(2) words(2) r'] by simp
  have nd: "\<not> py_in ''{{'' ?s"
    using no_double_open[OF assms(1) words(1) assms(2) words(2) r'] by simp
  have a1: "\<not> py_in ''{{tool_descriptions}}'' ?s"
    using absent_after_no_double_open[OF nd, of "''tool_descriptions}}''"] by simp
  have a2: "\<not> py_in ''{{authorized_imports}}'' ?s"
    using absent_after_no_double_open[OF nd, of "''authorized_imports}}''"] by simp
  show ?thesis
    using ends fmt a1 a2
    by (simp add: init_code_agent_def Let_def py_replace_absent del: py_in.simps)
qed

theorem init_placeholders_unfilled_witness:
  "\<exists>st. init_code_agent (\<lambda>_. ''1. finish: Finish reasoning.'') [''math'', ''re''] ''Guofeng Yi'' (0::nat)
          \<lparr>service_funcs = []\<rparr>
          (''Tools: '' @ ''{{tool_descriptions}}'' @ '' Imports: '' @ ''{{authorized_imports}}'' @ ''.'' @ ''\<newline>'')
          (Some [''numpy'']) 10 True = (Inr st, toolkit_add \<lparr>service_funcs = []\<rparr> finish_tool)
     \<and> sys_prompt st = ''Tools: '' @ ''{tool_descriptions}'' @ '' Imports: '' @ ''{authorized_imports}'' @ ''.'' @ ''\<newline>''
     \<and> system_prompt st = sys_prompt st"
  by (rule init_placeholders_unfilled) (simp_all add: brace_free_def)

text \<open>
  C5.  In every state an instance can reach (constructed, then any sequence of \<open>reply\<close>
  calls, raising or not) the invariant \<open>agent_inv\<close> holds.  The memory starts with the
  system message holding \<open>self.sys_prompt\<close>.  Both prompts end with a newline.  The
  executor's tools are the toolkit's functions, and \<open>finish\<close> is among them.
\<close>

theorem reachable_agent_inv:
  "reachable_agent llm ast_parse st \<Longrightarrow> agent_inv st"
proof (induction rule: reachable_agent.induct)
  case (init ti base name m tk sp extra mi vb st)
  then show ?case by (rule init_inv)
next
  case (step st x)
  from step.IH show ?case by (rule reply_inv)
qed

theorem reachable_agent_inv_witness:
  "\<exists>st. fst (init_code_agent (\<lambda>_. ''finish: Finish reasoning.'') [''math''] ''Friday'' (0::nat)
          \<lparr>service_funcs = []\<rparr> ''You are {name}.'' None 10 True) = Inr st \<and>
        reachable_agent (\<lambda>m req. (Suc m, \<lparr>resp_text = ''x = 1'', resp_stream = None\<rparr>)) (\<lambda>_. AstOk)
          (snd (reply (\<lambda>m req. (Suc m, \<lparr>resp_text = ''x = 1'', resp_stream = None\<rparr>)) (\<lambda>_. AstOk) st NoInput)) \<and>
        agent_inv
          (snd (reply (\<lambda>m req. (Suc m, \<lparr>resp_text = ''x = 1'', resp_stream = None\<rparr>)) (\<lambda>_. AstOk) st NoInput))"
proof -
  obtain st where st: "fst (init_code_agent (\<lambda>_. ''finish: Finish reasoning.'') [''math''] ''Friday'' (0::nat)
          \<lparr>service_funcs = []\<rparr> ''You are {name}.'' None 10 True) = Inr st"
    using init_example_succeeds[of "0::nat"] by (elim exE)
  let ?llm = "\<lambda>m req. (Suc m, \<lparr>resp_text = ''x = 1'', resp_stream = None\<rparr>)"
  have r: "reachable_agent ?llm (\<lambda>_. AstOk) (snd (reply ?llm (\<lambda>_. AstOk) st NoInput))"
    by (intro reachable_agent.step reachable_agent.init[OF st])
  have "agent_inv (snd (reply ?llm (\<lambda>_. AstOk) st NoInput))"
    by (rule reachable_agent_inv[OF r])
  then show ?thesis
    by (intro exI[of _ st] conjI st r)
qed

text \<open>
  C6.  Every call of \<open>reply\<close> makes exactly one model call: with the two stop sequences on
  the memory when \<open>max_iters\<close> is positive, otherwise without stop sequences on the memory
  followed by the hint.  The bound of the specification (at most \<open>max_iters\<close> turns, then one
  summarizing call) holds, but only one call is ever made.
\<close>

theorem reply_one_model_call:
  "filter is_model_call (trace (snd (reply llm ast_parse st x))) =
     filter is_model_call (trace st) @
       [ModelCall \<lparr>prompt = memory st @ input_msgs x @ (if 0 < max_iters st then [] else [hint_msg]),
                   stop_sequences = (if 0 < max_iters st then Some reply_stop_sequences else None)\<rparr>]"
proof (cases "0 < max_iters st")
  case True
  then show ?thesis
    using reply_first_iteration[OF True, of llm ast_parse x]
    by (simp add: is_model_call_def Let_def)
next
  case False
  then show ?thesis
    using reply_no_iterations[of st llm ast_parse x]
    by (simp add: summarize_fields Let_def)
qed

text \<open>
  C7.  With \<open>max_iters <= 0\<close> the loop body never runs and \<open>reply\<close> never raises: it returns
  an assistant message, under the agent's name, whose content is the model's answer to the
  memory (with the input) followed by the hint, asked without stop sequences.
\<close>

theorem reply_without_iterations:
  assumes "max_iters st \<le> 0"
  shows "fst (reply llm ast_parse st x) =
           Inr \<lparr>msg_name = agent_name st,
                content = resp_text (snd (llm (model st)
                            \<lparr>prompt = memory st @ input_msgs x @ [hint_msg], stop_sequences = None\<rparr>)),
                role = Assistant\<rparr>"
  using reply_no_iterations[OF assms, of llm ast_parse x]
  by (simp add: summarize_fields Let_def)

theorem reply_without_iterations_witness:
  "fst (reply (\<lambda>m req. (m, \<lparr>resp_text = ''I could not finish.'', resp_stream = None\<rparr>))
              (\<lambda>_. AstOk)
              \<lparr>agent_name = ''assistant'', model = (0::nat),
               memory = [\<lparr>msg_name = ''system'', content = ''Solve the task.\<newline>'', role = System\<rparr>],
               service_toolkit = \<lparr>service_funcs = [(''finish'', finish_tool)]\<rparr>, verbose = False,
               max_iters = 0, authorized_imports = [], additional_authorized_imports = [],
               sys_prompt = ''Solve the task.\<newline>'', system_prompt = ''Solve the task.\<newline>'',
               python_executor = \<lparr>exec_authorized_imports = [], exec_tools = [''finish'']\<rparr>,
               trace = []\<rparr>
              NoInput)
   = Inr \<lparr>msg_name = ''assistant'', content = ''I could not finish.'', role = Assistant\<rparr>"
  using reply_without_iterations[where st = "\<lparr>agent_name = ''assistant'', model = (0::nat),
               memory = [\<lparr>msg_name = ''system'', content = ''Solve the task.\<newline>'', role = System\<rparr>],
               service_toolkit = \<lparr>service_funcs = [(''finish'', finish_tool)]\<rparr>, verbose = False,
               max_iters = 0, authorized_imports = [], additional_authorized_imports = [],
               sys_prompt = ''Solve the task.\<newline>'', system_prompt = ''Solve the task.\<newline>'',
               python_executor = \<lparr>exec_authorized_imports = [], exec_tools = [''finish'']\<rparr>,
               trace = []\<rparr>"]
  by simp

text \<open>
  C11.  Construction refines substitution into the template.  Take any template of literal
  text (braces included) and plain fields, written as a format string by \<open>print_tpl\<close>.
  Construction either raises exactly the error of rendering the template with the single
  keyword \<open>name\<close>, after the newline is appended, or succeeds.  On success \<open>sys_prompt\<close>
  is the rendering with \<open>{{tool_descriptions}}\<close> replaced by the toolkit's instructions,
  and \<open>system_prompt\<close> is that text with \<open>{{authorized_imports}}\<close> replaced.
\<close>

theorem init_template_prompt:
  assumes "\<forall>k \<in> set (tpl_fields ps). plain_name k"
  shows "map_sum id (\<lambda>st. (sys_prompt st, system_prompt st))
           (fst (init_code_agent ti base name m tk (print_tpl ps) extra mi vb)) =
         map_sum id (\<lambda>s. (py_replace s ''{{tool_descriptions}}'' (ti (toolkit_add tk finish_tool)),
                          py_replace (py_replace s ''{{tool_descriptions}}'' (ti (toolkit_add tk finish_tool)))
                            ''{{authorized_imports}}''
                            (if ''*'' \<in> set base then unrestricted_imports_text else py_str_list base)))
           (render_tpl [(''name'', name)]
              (if py_endswith (print_tpl ps) ''\<newline>'' then ps else ps @ [TLit ''\<newline>'']))"
  using init_code_agent_tpl[OF assms, of ti base name m tk extra mi vb]
  by (cases "render_tpl [(''name'', name)]
               (if py_endswith (print_tpl ps) ''\<newline>'' then ps else ps @ [TLit ''\<newline>''])") simp_all

theorem init_template_prompt_witness:
  "map_sum id (\<lambda>st. (sys_prompt st, system_prompt st))
     (fst (init_code_agent (\<lambda>_. ''finish'') [''math''] ''Friday'' (0::nat) \<lparr>service_funcs = []\<rparr>
            (print_tpl [TLit ''You are '', TField ''name'', TLit ''. Reply as {json}.'']) None 10 True)) =
   Inr (''You are Friday. Reply as {json}.\<newline>'', ''You are Friday. Reply as {json}.\<newline>'')"
  using init_template_prompt[of "[TLit ''You are '', TField ''name'', TLit ''. Reply as {json}.'']"
          "\<lambda>_. ''finish''" "[''math'']" "''Friday''" "0::nat" "\<lparr>service_funcs = []\<rparr>" None 10 True]
  by (simp add: plain_name_def is_decimal_def escape_braces_def py_endswith_def py_replace_absent)

text \<open>
  C12.  Construction with such a template raises \<open>KeyError\<close> exactly when the template has
  a field other than \<open>{name}\<close>.  The error names the first such field, wherever it
  stands.  Otherwise construction succeeds with the system message as the only memory.
\<close>

theorem init_template_key_error:
  assumes "\<forall>k \<in> set (tpl_fields ps). plain_name k"
  shows "case filter (\<lambda>k. k \<noteq> ''name'') (tpl_fields ps) of
           [] \<Rightarrow> (\<exists>st. fst (init_code_agent ti base name m tk (print_tpl ps) extra mi vb) = Inr st \<and>
                     memory st = [\<lparr>msg_name = ''system'', content = sys_prompt st, role = System\<rparr>])
         | k # ks \<Rightarrow> fst (init_code_agent ti base name m tk (print_tpl ps) extra mi vb) =
                     Inl (FmtRaise (KeyError k))"
proof -
  let ?ps = "if py_endswith (print_tpl ps) ''\<newline>'' then ps else ps @ [TLit ''\<newline>'']"
  let ?r = "render_tpl [(''name'', name)] ?ps"
  have r: "?r = (case filter (\<lambda>k. k \<noteq> ''name'') (tpl_fields ps) of
                   [] \<Rightarrow> Inr (projr ?r) | k # ks \<Rightarrow> Inl (FmtRaise (KeyError k)))"
  proof -
    have "tpl_fields ?ps = tpl_fields ps"
      by (simp add: tpl_fields_append)
    then show ?thesis
      using render_tpl_one_key[of name ?ps] by (simp only:)
  qed
  note init = init_code_agent_tpl[OF assms, of ti base name m tk extra mi vb]
  show ?thesis
  proof (cases "filter (\<lambda>k. k \<noteq> ''name'') (tpl_fields ps)")
    case Nil
    then have "?r = Inr (projr ?r)"
      using r by simp
    then obtain s where s: "?r = Inr s" by blast
    show ?thesis
      using Nil s init by simp
  next
    case (Cons k ks)
    then show ?thesis
      using r init by simp
  qed
qed

theorem init_template_key_error_witness:
  "fst (init_code_agent (\<lambda>_. ''finish'') [''math''] ''Friday'' (0::nat) \<lparr>service_funcs = []\<rparr>
          (print_tpl [TLit ''Answer '', TField ''question'', TLit '' as '', TField ''name'']) None 10 True) =
   Inl (FmtRaise (KeyError ''question''))"
  using init_template_key_error[of "[TLit ''Answer '', TField ''question'', TLit '' as '', TField ''name'']"
          "\<lambda>_. ''finish''" "[''math'']" "''Friday''" "0::nat" "\<lparr>service_funcs = []\<rparr>" None 10 True]
  by (simp add: plain_name_def is_decimal_def)

text \<open>
  C15.  What a call with \<open>max_iters <= 0\<close> does, in order.  The hint is echoed when the
  agent is verbose.  The model is called once on the memory, the input and the hint,
  without stop sequences.  The stream of the answer is spoken when there is one, the text
  otherwise.  The memory keeps the input and neither the hint nor the answer.
\<close>

theorem reply_summary_trace:
  assumes "max_iters st \<le> 0"
  shows "trace (snd (reply llm ast_parse st x)) =
           trace st @ (if verbose st then [Echo hint_msg] else []) @
           [ModelCall \<lparr>prompt = memory st @ input_msgs x @ [hint_msg], stop_sequences = None\<rparr>,
            Spoke (case resp_stream (snd (llm (model st)
                          \<lparr>prompt = memory st @ input_msgs x @ [hint_msg], stop_sequences = None\<rparr>)) of
                     Some s \<Rightarrow> s
                   | None \<Rightarrow> resp_text (snd (llm (model st)
                          \<lparr>prompt = memory st @ input_msgs x @ [hint_msg], stop_sequences = None\<rparr>)))]
       \<and> memory (snd (reply llm ast_parse st x)) = memory st @ input_msgs x"
proof -
  obtain m' res
    where l: "llm (model st) \<lparr>prompt = memory st @ input_msgs x @ [hint_msg], stop_sequences = None\<rparr> = (m', res)"
    by (rule prod.exhaust)
  show ?thesis
    using reply_no_iterations[OF assms, of llm ast_parse x] by (simp add: l summarize_def Let_def split: option.split)
qed

theorem reply_summary_trace_witness:
  "trace (snd (reply (\<lambda>m req. (m, \<lparr>resp_text = ''Done.'', resp_stream = Some ''Done (streamed).''\<rparr>))
              (\<lambda>_. AstOk)
              \<lparr>agent_name = ''assistant'', model = (0::nat), memory = [],
               service_toolkit = \<lparr>service_funcs = [(''finish'', finish_tool)]\<rparr>, verbose = True,
               max_iters = 0, authorized_imports = [], additional_authorized_imports = [],
               sys_prompt = ''Solve.\<newline>'', system_prompt = ''Solve.\<newline>'',
               python_executor = \<lparr>exec_authorized_imports = [], exec_tools = [''finish'']\<rparr>,
               trace = []\<rparr>
              NoInput)) =
   [Echo hint_msg, ModelCall \<lparr>prompt = [hint_msg], stop_sequences = None\<rparr>, Spoke ''Done (streamed).'']"
  using reply_summary_trace[where st = "\<lparr>agent_name = ''assistant'', model = (0::nat), memory = [],
               service_toolkit = \<lparr>service_funcs = [(''finish'', finish_tool)]\<rparr>, verbose = True,
               max_iters = 0, authorized_imports = [], additional_authorized_imports = [],
               sys_prompt = ''Solve.\<newline>'', system_prompt = ''Solve.\<newline>'',
               python_executor = \<lparr>exec_authorized_imports = [], exec_tools = [''finish'']\<rparr>,
               trace = []\<rparr>" and x = NoInput]
  by simp

text \<open>
  C16.  The additional authorized imports never reach the prompts: two constructions that
  differ only in \<open>additional_authorized_imports\<close> give the same outcome, with the same
  \<open>sys_prompt\<close> and \<open>system_prompt\<close> on success.  They are handed to the executor only.
\<close>

theorem init_additional_imports_ignored:
  "map_sum id (\<lambda>st. (sys_prompt st, system_prompt st))
     (fst (init_code_agent ti base name m tk sp extra1 mi vb)) =
   map_sum id (\<lambda>st. (sys_prompt st, system_prompt st))
     (fst (init_code_agent ti base name m tk sp extra2 mi vb))"
  by (simp add: init_code_agent_def Let_def split: sum.split)

text \<open>
  C17.  Construction always registers the \<open>finish\<close> tool in the caller's toolkit, even when
  it raises afterwards, and on success the agent's toolkit and its executor's tools
  include \<open>finish\<close>.
\<close>

theorem init_registers_finish:
  "snd (init_code_agent ti base name m tk sp extra mi vb) = toolkit_add tk finish_tool \<and>
   map_of (service_funcs (toolkit_add tk finish_tool)) ''finish'' = Some finish_tool \<and>
   (\<forall>st. fst (init_code_agent ti base name m tk sp extra mi vb) = Inr st \<longrightarrow>
      service_toolkit st = toolkit_add tk finish_tool \<and>
      ''finish'' \<in> set (exec_tools (python_executor st)))"
proof -
  have n: "tool_name finish_tool = ''finish''"
    by (simp add: finish_tool_def)
  have look: "map_of (service_funcs (toolkit_add tk finish_tool)) ''finish'' = Some finish_tool"
    using toolkit_add_lookup[of tk finish_tool] n by simp
  have names: "''finish'' \<in> set (map fst (service_funcs (toolkit_add tk finish_tool)))"
    using toolkit_add_names[of tk finish_tool] n by simp
  show ?thesis
    using look names by (simp add: init_code_agent_def Let_def split: sum.split)
qed

theorem init_registers_finish_witness:
  "snd (init_code_agent (\<lambda>_. ''finish: Finish reasoning.'') [''math''] ''Friday'' (0::nat)
          \<lparr>service_funcs = []\<rparr> ''You are {name}.'' None 10 True) = toolkit_add \<lparr>service_funcs = []\<rparr> finish_tool \<and>
   (\<exists>st. fst (init_code_agent (\<lambda>_. ''finish: Finish reasoning.'') [''math''] ''Friday'' (0::nat)
          \<lparr>service_funcs = []\<rparr> ''You are {name}.'' None 10 True) = Inr st \<and>
        service_toolkit st = toolkit_add \<lparr>service_funcs = []\<rparr> finish_tool \<and>
        ''finish'' \<in> set (exec_tools (python_executor st)))"
proof -
  have "\<exists>st. fst (init_code_agent (\<lambda>_. ''finish: Finish reasoning.'') [''math''] ''Friday'' (0::nat)
          \<lparr>service_funcs = []\<rparr> ''You are {name}.'' None 10 True) = Inr st"
    by (rule init_example_succeeds)
  then show ?thesis
    using init_registers_finish[of "\<lambda>_. ''finish: Finish reasoning.''" "[''math'']" "''Friday''" "0::nat"
             "\<lparr>service_funcs = []\<rparr>" "''You are {name}.''" None 10 True]
    by auto
qed

text \<open>
  C24.  The specification's edge case of section 4.1 holds for templates that escape the
  placeholder for \<open>str.format\<close>.  The template writes \<open>{{{{tool_descriptions}}}}\<close>, which
  \<open>format\<close> turns into \<open>{{tool_descriptions}}\<close>.  The toolkit's instruction text is then
  inserted verbatim by \<open>str.replace\<close>, even when it contains braces, because it never goes
  through \<open>format\<close>.
\<close>

theorem init_tool_text_verbatim:
  assumes "brace_free p" "brace_free q"
  shows "\<exists>st. init_code_agent tools_instruction base_modules name m tk
                (p @ ''{{{{tool_descriptions}}}}'' @ q @ ''\<newline>'') extra mi vb =
              (Inr st, toolkit_add tk finish_tool)
           \<and> sys_prompt st = p @ tools_instruction (toolkit_add tk finish_tool) @ q @ ''\<newline>''"
proof -
  let ?t = "p @ ''{{{{tool_descriptions}}}}'' @ q @ ''\<newline>''"
  let ?old = "''{{tool_descriptions}}''"
  have q': "brace_free (q @ ''\<newline>'')"
    using assms(2) by (simp add: brace_free_def)
  have ends: "py_endswith ?t ''\<newline>''"
    unfolding py_endswith_suffix append_assoc[symmetric] by (rule suffix_appendI) simp
  have fmt: "py_format ?t [(''name'', name)] = Inr (p @ ?old @ q @ ''\<newline>'')"
    using assms(1) q'
    by (simp add: py_format_def fmt_run_def fmt_steps_append fmt_steps_plain fmt_step_def brace_free_def
             del: append_assoc)
  have hp: "hd ?old \<notin> set p"
    using assms(1) by (simp add: brace_free_def)
  have nq: "\<not> py_in ?old (q @ ''\<newline>'')"
    using q' by (simp add: brace_free_def del: py_in.simps)
  have rep: "py_replace (p @ ?old @ q @ ''\<newline>'') ?old T = p @ T @ q @ ''\<newline>''" for T
    using replace_nonempty_at[OF _ hp, of T "q @ ''\<newline>''"] replace_nonempty_no_occurrence[OF _ nq]
    by (simp add: py_replace_def)
  show ?thesis
    using ends fmt rep by (simp add: init_code_agent_def Let_def)
qed

theorem init_tool_text_verbatim_witness:
  "\<exists>st. init_code_agent (\<lambda>_. ''finish(response) returns {status, content}'') [''math''] ''Friday'' (0::nat)
          \<lparr>service_funcs = []\<rparr> (''Tools: '' @ ''{{{{tool_descriptions}}}}'' @ ''.'' @ ''\<newline>'') None 10 True =
        (Inr st, toolkit_add \<lparr>service_funcs = []\<rparr> finish_tool)
     \<and> sys_prompt st = ''Tools: '' @ ''finish(response) returns {status, content}'' @ ''.'' @ ''\<newline>''"
  using init_tool_text_verbatim[of "''Tools: ''" "''.''" "\<lambda>_. ''finish(response) returns {status, content}''"
          "[''math'']" "''Friday''" "0::nat" "\<lparr>service_funcs = []\<rparr>" None 10 True]
  by (simp add: brace_free_def)

text \<open>
  C14.  Over any sequence of calls on one instance, whether they raise or not, the memory
  is the memory after construction followed by the inputs, in order: no model answer,
  observation or reply is ever recorded; each call makes exactly one model call and returns
  one result; the system prompt never changes.
\<close>

theorem reply_seq_transcript:
  "memory (snd (reply_seq llm ast_parse st xs)) = memory st @ concat (map input_msgs xs) \<and>
   length (filter is_model_call (trace (snd (reply_seq llm ast_parse st xs)))) =
     length (filter is_model_call (trace st)) + length xs \<and>
   length (fst (reply_seq llm ast_parse st xs)) = length xs \<and>
   sys_prompt (snd (reply_seq llm ast_parse st xs)) = sys_prompt st"
proof (induction xs arbitrary: st)
  case (Cons x xs)
  obtain r st' where r: "reply llm ast_parse st x = (r, st')" by (cases "reply llm ast_parse st x")
  have st': "memory st' = memory st @ input_msgs x" "sys_prompt st' = sys_prompt st"
      "length (filter is_model_call (trace st')) = Suc (length (filter is_model_call (trace st)))"
    using reply_keeps[of llm ast_parse st x] reply_model_calls[of llm ast_parse st x] r by simp_all
  obtain rs st'' where rs: "reply_seq llm ast_parse st' xs = (rs, st'')"
    by (cases "reply_seq llm ast_parse st' xs")
  show ?case
    using Cons.IH[of st'] st' r rs by simp
qed simp

end
