(* ===== verification/Test_Script.thy ===== *)
theory Test_Script
  imports Code_Agent
begin

text \<open>
  The script \<open>test_code_agent.py\<close> beside the agent: two tool functions, the toolkit they are
  registered in, and the run that builds a \<open>CodeAgent\<close> with a plain system prompt and asks
  it one question.
  \<^item> \<open>web_serarch\<close> (lines 14-34) and \<open>get_weather\<close> (lines 37-63) are the tool functions.
    \<open>get_weather\<close> checks its arguments dynamically, so its arguments are Python values
    (\<open>pyval\<close>): a \<open>str\<close> or an object of some class.  The weather record it returns is a
    dictionary with values of two kinds (\<open>wval\<close>), an association list in insertion order.
  \<^item> \<open>script_toolkit\<close> is the toolkit of lines 66-70.  The preset keyword arguments given to
    \<open>add\<close> (\<open>api_key\<close>, \<open>num_results\<close>) only change the JSON schema, which the agent
    does not read; the descriptor keeps the name and the docstring summary.
  \<^item> \<open>run_test_script\<close> is lines 132-139: the construction with the defaults of
    \<open>__init__\<close> (\<open>max_iters = 10\<close>, \<open>verbose = True\<close>, no additional imports) and the call
    \<open>agent1(Msg(...))\<close>, which runs \<open>reply\<close>.  The question is a parameter: the script's
    literal is Chinese text, outside the 8-bit strings of the model, and nothing depends on
    it.
  \<^item> \<open>script_setup\<close> is lines 72-78: the print of the tools' instructions, the loop over
    the functions, and the print of the list of their JSON schemas, as the list of
    \<open>script_output\<close>s; the schema of a function and the rendering of the instructions
    are parameters.  \<open>test_script\<close> runs the setup, then \<open>run_test_script\<close>.
  \<^item> \<open>agentscope.init\<close> and the commented-out code (lines 80-128) are configuration and
    are not modelled.
\<close>

subsection \<open>Definitions\<close>

definition web_serarch :: "string \<Rightarrow> string \<Rightarrow> string \<Rightarrow> int \<Rightarrow> string service_response" where
  "web_serarch query engine api_key num_results =
     \<lparr>status = SUCCESS,
      resp_content = ''Searching the web using '' @ engine @ '' with query: '' @ query @
                     '' and API key: '' @ api_key\<rparr>"

datatype wval = WStr string | WInt int

definition get_weather :: "pyval \<Rightarrow> pyval \<Rightarrow> py_exc + (string \<times> wval) list service_response" where
  \<open>get_weather location unit =
     (case location of
        PyObj cls \<Rightarrow> Inl (TypeError ''location must be a string'')
      | PyStr loc \<Rightarrow>
          (case unit of
             PyStr u \<Rightarrow>
               if u \<in> set [''c'', ''f''] then
                 Inr \<lparr>status = SUCCESS,
                      resp_content = [(''location'', WStr loc),
                                      (''temperature'', WInt (if u = ''c'' then 20 else 68)),
                                      (''unit'', WStr u),
                                      (''description'', WStr ''Clear'')]\<rparr>
               else Inl (ValueError (''unit must be \'c\' or \'f'' @ [squote]))
           | PyObj cls \<Rightarrow> Inl (ValueError (''unit must be \'c\' or \'f'' @ [squote]))))\<close>

definition web_serarch_tool :: tool where
  "web_serarch_tool = \<lparr>tool_name = ''web_serarch'',
                        tool_doc = ''Search the web using the given search engine.''\<rparr>"

definition get_weather_tool :: tool where
  "get_weather_tool = \<lparr>tool_name = ''get_weather'',
                        tool_doc = ''Get the weather information for a specified location.''\<rparr>"

definition script_toolkit :: toolkit where
  "script_toolkit = toolkit_add (toolkit_add \<lparr>service_funcs = []\<rparr> web_serarch_tool) get_weather_tool"

text \<open>
  Lines 72-78: the tool instructions are printed, then the JSON schema of every registered
  function, looked up by name in \<open>json_schemas\<close> (a dictionary of the toolkit, so a
  missing name raises \<open>KeyError\<close>), is collected in registration order and printed.
\<close>

datatype 'j script_output = PrintText string | PrintSchemas "'j list"

fun collect_schemas :: "(string \<Rightarrow> 'j option) \<Rightarrow> string list \<Rightarrow> py_exc + 'j list" where
  "collect_schemas js [] = Inr []"
| "collect_schemas js (k # ks) =
     (case js k of
        None \<Rightarrow> Inl (KeyError k)
      | Some j \<Rightarrow> map_sum id (Cons j) (collect_schemas js ks))"

definition script_setup ::
  "(toolkit \<Rightarrow> string) \<Rightarrow> (toolkit \<Rightarrow> string \<Rightarrow> 'j option) \<Rightarrow>
   (py_exc + 'j list) \<times> 'j script_output list" where
  "script_setup tools_instruction json_schemas =
     (case collect_schemas (json_schemas script_toolkit) (map fst (service_funcs script_toolkit)) of
        Inl e \<Rightarrow> (Inl e, [PrintText (tools_instruction script_toolkit)])
      | Inr tools \<Rightarrow> (Inr tools, [PrintText (tools_instruction script_toolkit), PrintSchemas tools]))"

definition student_prompt :: string where
  "student_prompt = ''You are a new student in Anhui University.''"

datatype script_outcome =
    ScriptSetupRaised py_exc
  | ScriptInitRaised fmt_error
  | ScriptReplyRaised py_exc
  | ScriptReplied msg

text \<open>The outcome of the script and the events of \<open>agent1\<close>.\<close>

definition run_test_script ::
  "(toolkit \<Rightarrow> string) \<Rightarrow> string list \<Rightarrow> 'm model_client \<Rightarrow> (string \<Rightarrow> ast_outcome) \<Rightarrow> 'm \<Rightarrow>
   string \<Rightarrow> script_outcome \<times> event list" where
  "run_test_script tools_instruction base_modules llm ast_parse m0 question =
     (case init_code_agent tools_instruction base_modules ''Guofeng Yi'' m0 script_toolkit
             student_prompt None 10 True of
        (Inl e, tk) \<Rightarrow> (ScriptInitRaised e, [])
      | (Inr agent1, tk) \<Rightarrow>
          (case reply llm ast_parse agent1
                  (OneMsg \<lparr>msg_name = ''user'', content = question, role = User\<rparr>) of
             (Inl e, st) \<Rightarrow> (ScriptReplyRaised e, trace st)
           | (Inr r, st) \<Rightarrow> (ScriptReplied r, trace st)))"

text \<open>
  The whole script: the printed output of lines 72-78, then the outcome of lines 132-139 and
  the events of \<open>agent1\<close>.
\<close>

definition test_script ::
  "(toolkit \<Rightarrow> string) \<Rightarrow> (toolkit \<Rightarrow> string \<Rightarrow> 'j option) \<Rightarrow> string list \<Rightarrow> 'm model_client \<Rightarrow>
   (string \<Rightarrow> ast_outcome) \<Rightarrow> 'm \<Rightarrow> string \<Rightarrow> script_outcome \<times> 'j script_output list \<times> event list" where
  "test_script tools_instruction json_schemas base_modules llm ast_parse m0 question =
     (case script_setup tools_instruction json_schemas of
        (Inl e, outs) \<Rightarrow> (ScriptSetupRaised e, outs, [])
      | (Inr tools, outs) \<Rightarrow>
          (case run_test_script tools_instruction base_modules llm ast_parse m0 question of
             (r, evs) \<Rightarrow> (r, outs, evs)))"

text \<open>
  The shape of the dictionary \<open>sample_weather_data\<close>: its keys in insertion order, a
  \<open>str\<close> location, an \<open>int\<close> temperature that matches the unit, a \<open>str\<close> unit and the
  description.
\<close>

definition weather_record_ok :: "(string \<times> wval) list \<Rightarrow> bool" where
  "weather_record_ok d \<longleftrightarrow>
     map fst d = [''location'', ''temperature'', ''unit'', ''description''] \<and>
     (case map snd d of
        [WStr loc, WInt t, WStr u, WStr desc] \<Rightarrow>
          (u = ''c'' \<and> t = 20 \<or> u = ''f'' \<and> t = 68) \<and> desc = ''Clear''
      | _ \<Rightarrow> False)"

subsection \<open>Lemmas\<close>

lemma script_toolkit_names:
  "map fst (service_funcs script_toolkit) = [''web_serarch'', ''get_weather'']"
  by (simp add: script_toolkit_def toolkit_add_def web_serarch_tool_def get_weather_tool_def)

lemma script_setup_tools:
  assumes "json_schemas script_toolkit ''web_serarch'' = Some a"
    and "json_schemas script_toolkit ''get_weather'' = Some b"
  shows "script_setup tools_instruction json_schemas =
           (Inr [a, b], [PrintText (tools_instruction script_toolkit), PrintSchemas [a, b]])"
  using assms by (simp add: script_setup_def script_toolkit_names)

text \<open>
  \<open>agent1\<close> is built (the prompt has no braces), and its call raises the parsing error after
  one model call.
\<close>

lemma run_test_script_raises:
  "run_test_script tools_instruction base_modules llm ast_parse m0 question =
     (ScriptReplyRaised (ValueError (''Error in code parsing:\<newline>'' @
        ''CodeAgent.parse_code_blobs() takes 1 positional argument but 2 were given'' @
        ''\<newline>Make sure to provide correct code blobs.'')),
      [ModelCall \<lparr>prompt = [\<lparr>msg_name = ''system'', content = student_prompt @ ''\<newline>'', role = System\<rparr>,
                            \<lparr>msg_name = ''user'', content = question, role = User\<rparr>],
                  stop_sequences = Some reply_stop_sequences\<rparr>])"
proof -
  have bf: "brace_free student_prompt"
    by (simp add: brace_free_def student_prompt_def)
  have ne: "\<not> py_endswith student_prompt ''\<newline>''"
    by (simp add: py_endswith_def student_prompt_def)
  show ?thesis
    using ne
    by (simp add: run_test_script_def init_brace_free[OF bf] reply_first_iteration Let_def
                  parse_error_reply_def)
qed

subsection \<open>Properties\<close>

text \<open>
  C18.  The script never gets an answer.  It prints the tool instructions and the schemas
  of \<open>web_serarch\<close> and \<open>get_weather\<close>, in registration order.  Construction of
  \<open>agent1\<close> succeeds (the prompt has no braces), and \<open>agent1(Msg(...))\<close> raises
  \<open>ValueError("Error in code parsing: ...")\<close> after exactly one model call, made on the
  system message (the prompt with a newline appended) and the question.  The tools'
  instructions, the imports and the model's answer play no part.
\<close>

theorem test_script_raises:
  assumes "json_schemas script_toolkit ''web_serarch'' = Some a"
    and "json_schemas script_toolkit ''get_weather'' = Some b"
  shows "test_script tools_instruction json_schemas base_modules llm ast_parse m0 question =
     (ScriptReplyRaised (ValueError (''Error in code parsing:\<newline>'' @
        ''CodeAgent.parse_code_blobs() takes 1 positional argument but 2 were given'' @
        ''\<newline>Make sure to provide correct code blobs.'')),
      [PrintText (tools_instruction script_toolkit), PrintSchemas [a, b]],
      [ModelCall \<lparr>prompt = [\<lparr>msg_name = ''system'', content = student_prompt @ ''\<newline>'', role = System\<rparr>,
                            \<lparr>msg_name = ''user'', content = question, role = User\<rparr>],
                  stop_sequences = Some reply_stop_sequences\<rparr>])"
  by (simp add: test_script_def script_setup_tools[of json_schemas a b, OF assms] run_test_script_raises)

theorem test_script_raises_witness:
  "test_script (\<lambda>_. ''web_serarch, get_weather'')
     (\<lambda>tk k. if k \<in> set (map fst (service_funcs tk)) then Some (length k) else None) [''math'']
     (\<lambda>m req. (Suc m, \<lparr>resp_text = ''Code:'', resp_stream = None\<rparr>)) (\<lambda>_. AstOk) (0::nat) ''Hello'' =
     (ScriptReplyRaised (ValueError (''Error in code parsing:\<newline>'' @
        ''CodeAgent.parse_code_blobs() takes 1 positional argument but 2 were given'' @
        ''\<newline>Make sure to provide correct code blobs.'')),
      [PrintText ''web_serarch, get_weather'', PrintSchemas [11, 11]],
      [ModelCall \<lparr>prompt = [\<lparr>msg_name = ''system'', content = student_prompt @ ''\<newline>'', role = System\<rparr>,
                            \<lparr>msg_name = ''user'', content = ''Hello'', role = User\<rparr>],
                  stop_sequences = Some reply_stop_sequences\<rparr>])"
  using test_script_raises[of "\<lambda>tk k. if k \<in> set (map fst (service_funcs tk)) then Some (length k) else None"
          11 11 "\<lambda>_. ''web_serarch, get_weather''" "[''math'']"
          "\<lambda>m req. (Suc m, \<lparr>resp_text = ''Code:'', resp_stream = None\<rparr>)" "\<lambda>_. AstOk" "0::nat" "''Hello''"]
  by (simp add: script_toolkit_names)

text \<open>
  C19.  \<open>get_weather\<close> checks the location first: a location that is not a \<open>str\<close> raises
  \<open>TypeError\<close> whatever the unit; with a \<open>str\<close> location every unit other than the
  strings \<open>'c'\<close> and \<open>'f'\<close> (another string, or an object) raises \<open>ValueError\<close>.
\<close>

theorem get_weather_errors:
  "get_weather (PyObj cls) unit = Inl (TypeError ''location must be a string'') \<and>
   (unit \<notin> {PyStr ''c'', PyStr ''f''} \<longrightarrow>
      get_weather (PyStr loc) unit = Inl (ValueError (''unit must be '' @ [squote] @ ''c'' @ [squote] @
                                                      '' or '' @ [squote] @ ''f'' @ [squote])))"
  by (cases unit) (auto simp: get_weather_def squote_def)

text \<open>
  \<open>web_serarch\<close> returns a string, not the list of results its docstring promises: the
  text contains the API key it was given, and \<open>num_results\<close> has no effect.
\<close>

lemma web_serarch_echoes_key:
  "py_in api_key (resp_content (web_serarch query engine api_key n)) \<and>
   web_serarch query engine api_key n = web_serarch query engine api_key n'"
proof -
  have "resp_content (web_serarch query engine api_key n) =
          (''Searching the web using '' @ engine @ '' with query: '' @ query @ '' and API key: '') @ api_key"
    by (simp add: web_serarch_def)
  then show ?thesis
    by (simp only: py_in_suffix) (simp add: web_serarch_def)
qed

theorem get_weather_errors_witness:
  "get_weather (PyObj ''int'') (PyStr ''c'') = Inl (TypeError ''location must be a string'') \<and>
   get_weather (PyStr ''Shanghai'') (PyStr ''C'') =
     Inl (ValueError (''unit must be '' @ [squote] @ ''c'' @ [squote] @ '' or '' @ [squote] @ ''f'' @ [squote]))"
  using get_weather_errors[of "''int''" "PyStr ''c''" "''Shanghai''"]
        get_weather_errors[of "''int''" "PyStr ''C''" "''Shanghai''"]
  by simp

text \<open>
  C23.  Every result of \<open>get_weather\<close> is well-typed: status \<open>SUCCESS\<close>, a dictionary with
  exactly the keys \<open>location\<close>, \<open>temperature\<close>, \<open>unit\<close>, \<open>description\<close> in that order,
  with values of the types the docstring describes, and the location it was asked for.
\<close>

theorem get_weather_result_type:
  assumes "get_weather location unit = Inr r"
  shows "status r = SUCCESS \<and> weather_record_ok (resp_content r) \<and>
         location = PyStr (case map_of (resp_content r) ''location'' of Some (WStr l) \<Rightarrow> l | _ \<Rightarrow> [])"
  using assms
  by (auto simp: get_weather_def weather_record_ok_def split: pyval.splits if_splits)

theorem get_weather_result_type_witness:
  "get_weather (PyStr ''Shanghai'') (PyStr ''f'') =
     Inr \<lparr>status = SUCCESS, resp_content = [(''location'', WStr ''Shanghai''), (''temperature'', WInt 68),
                                          (''unit'', WStr ''f''), (''description'', WStr ''Clear'')]\<rparr> \<and>
   weather_record_ok [(''location'', WStr ''Shanghai''), (''temperature'', WInt 68),
                      (''unit'', WStr ''f''), (''description'', WStr ''Clear'')]"
  using get_weather_result_type[of "PyStr ''Shanghai''" "PyStr ''f''"
          "\<lparr>status = SUCCESS, resp_content = [(''location'', WStr ''Shanghai''), (''temperature'', WInt 68),
                                          (''unit'', WStr ''f''), (''description'', WStr ''Clear'')]\<rparr>"]
  by (simp add: get_weather_def)

end
