(* ===== verification/Conversation.thy ===== *)
theory Conversation
  imports Agent_Framework "HOL-Library.While_Combinator"
begin

text \<open>
  The two-agent conversation of \<open>examples/conversation_basic/conversation.py\<close>
  (\<open>main\<close>, lines 40-42):
  \<open>x = None; while x is None or x.content != "exit": x = sequentialpipeline([dialog_agent, user_agent], x)\<close>.
  The agents are framework classes outside the repository, modelled at their interface:
  the dialog agent is an oracle with a state of its own that answers the last message (or
  \<open>None\<close>), the user agent reads the next line typed by the user.  \<open>user_input inputs\<close> is
  a user who types \<open>inputs n\<close> at turn \<open>n\<close>; its state is the turn counter.  The loop may run
  forever, so it is a \<open>partial_function (option)\<close>: \<open>None\<close> is a run that never stops.  The
  theorems show that the loop stops exactly when the user types \<open>exit\<close>, after as many
  dialog turns as the user typed lines, and that the dialog agent sees \<open>None\<close> and then
  each line the user typed, in order.  \<open>agentscope.init\<close> and the agents' construction
  (lines 12-37) are configuration and are not modelled.
\<close>

subsection \<open>Definitions\<close>

type_synonym 'd dialog_agent = "'d \<Rightarrow> msg option \<Rightarrow> 'd \<times> msg"
type_synonym 'u user_agent = "'u \<Rightarrow> msg \<Rightarrow> 'u \<times> msg"

text \<open>\<open>sequentialpipeline([a, b], x)\<close>: \<open>b(a(x))\<close>, each agent updating its own state.\<close>

definition sequentialpipeline ::
  "'d dialog_agent \<Rightarrow> 'u user_agent \<Rightarrow> 'd \<times> 'u \<Rightarrow> msg option \<Rightarrow> ('d \<times> 'u) \<times> msg" where
  "sequentialpipeline dialog_agent user_agent s x =
     (let (d', y) = dialog_agent (fst s) x;
          (u', z) = user_agent (snd s) y
      in ((d', u'), z))"

text \<open>The loop condition \<open>x is None or x.content != "exit"\<close>.\<close>

definition conv_continues :: "msg option \<Rightarrow> bool" where
  "conv_continues x \<longleftrightarrow> (case x of None \<Rightarrow> True | Some m \<Rightarrow> content m \<noteq> ''exit'')"

partial_function (option) conversation_loop ::
  "'d dialog_agent \<Rightarrow> 'u user_agent \<Rightarrow> 'd \<times> 'u \<Rightarrow> msg option \<Rightarrow> (('d \<times> 'u) \<times> msg option) option" where
  "conversation_loop dialog_agent user_agent s x =
     (if conv_continues x
      then (let (s', x') = sequentialpipeline dialog_agent user_agent s x
            in conversation_loop dialog_agent user_agent s' (Some x'))
      else Some (s, x))"

definition user_input :: "(nat \<Rightarrow> string) \<Rightarrow> nat user_agent" where
  "user_input inputs n y = (Suc n, \<lparr>msg_name = ''User'', content = inputs n, role = User\<rparr>)"


definition conversation_main :: "'d dialog_agent \<Rightarrow> 'u user_agent \<Rightarrow> 'd \<Rightarrow> 'u \<Rightarrow> (('d \<times> 'u) \<times> msg option) option" where
  "conversation_main dialog_agent user_agent d0 u0 = conversation_loop dialog_agent user_agent (d0, u0) None"

definition exit_msg :: msg where
  "exit_msg = \<lparr>msg_name = ''User'', content = ''exit'', role = User\<rparr>"

text \<open>One round of the \<open>while\<close> body (line 42) on the pair of agent states and the last
  message, the form \<open>while_option\<close> iterates.\<close>

definition conv_step :: "'d dialog_agent \<Rightarrow> 'u user_agent \<Rightarrow> ('d \<times> 'u) \<times> msg option \<Rightarrow> ('d \<times> 'u) \<times> msg option" where
  "conv_step dlg usr p = (case sequentialpipeline dlg usr (fst p) (snd p) of (s', x') \<Rightarrow> (s', Some x'))"

subsection \<open>Lemmas\<close>

lemma pipeline_user_input:
  "sequentialpipeline dlg (user_input inputs) (d, n) x =
     ((fst (dlg d x), Suc n), \<lparr>msg_name = ''User'', content = inputs n, role = User\<rparr>)"
  by (simp add: sequentialpipeline_def user_input_def split: prod.split)

lemma conversation_loop_step:
  "conv_continues x \<Longrightarrow>
   conversation_loop dlg (user_input inputs) (d, n) x =
     conversation_loop dlg (user_input inputs) (fst (dlg d x), Suc n)
       (Some \<lparr>msg_name = ''User'', content = inputs n, role = User\<rparr>)"
  by (simp add: conversation_loop.simps[of dlg _ "(d, n)"] pipeline_user_input)

text \<open>A run that meets the first \<open>exit\<close> at turn \<open>k\<close>: the dialog agent is called on the
  last message and then on each line the user typed before \<open>exit\<close>, in order.\<close>

lemma conversation_loop_exit_state:
  assumes "inputs k = ''exit''" and "\<forall>i. n \<le> i \<and> i < k \<longrightarrow> inputs i \<noteq> ''exit''"
    and "n \<le> k" and "conv_continues x"
  shows "conversation_loop dlg (user_input inputs) (d, n) x =
           Some ((fold (\<lambda>y e. fst (dlg e y))
                    (x # map (\<lambda>i. Some \<lparr>msg_name = ''User'', content = inputs i, role = User\<rparr>) [n..<k]) d,
                  Suc k), Some exit_msg)"
  using assms
proof (induction "k - n" arbitrary: n d x)
  case 0
  then have n: "n = k" by simp
  show ?case
    using "0.prems"(1,4)
    by (simp add: n conversation_loop_step conversation_loop.simps[of dlg _ "(_, Suc k)"]
                  conv_continues_def exit_msg_def)
next
  case (Suc j)
  then have nk: "n < k" and cont: "conv_continues (Some \<lparr>msg_name = ''User'', content = inputs n, role = User\<rparr>)"
    by (auto simp: conv_continues_def)
  have up: "[n..<k] = n # [Suc n..<k]"
    using nk by (simp add: upt_conv_Cons)
  show ?case
    using Suc.hyps(1)[of "Suc n"] Suc.hyps(2) Suc.prems(1,2,4) nk cont
    by (simp add: conversation_loop_step up)
qed

lemma conversation_loop_reaches_exit:
  assumes "inputs k = ''exit''" and "\<forall>i. n \<le> i \<and> i < k \<longrightarrow> inputs i \<noteq> ''exit''"
    and "n \<le> k" and "conv_continues x"
  shows "\<exists>d'. conversation_loop dlg (user_input inputs) (d, n) x = Some ((d', Suc k), Some exit_msg)"
  by (rule exI, rule conversation_loop_exit_state[OF assms])

lemma conversation_loop_returns_exit:
  fixes dlg :: "'d dialog_agent"
  assumes "conversation_loop dlg usr s x = Some r"
  shows "usr = user_input inputs \<longrightarrow> conv_continues x \<longrightarrow> (\<exists>i \<ge> snd s. inputs i = ''exit'')"
proof (rule conversation_loop.raw_induct[where
      P = "\<lambda>dl us st xx rr. us = user_input inputs \<longrightarrow>
             conv_continues xx \<longrightarrow> (\<exists>i \<ge> snd st. inputs i = ''exit'')"
      and xa = "(((dlg, usr), s), x)" and y = r, simplified])
  fix loop :: "'d dialog_agent \<Rightarrow> nat user_agent \<Rightarrow> 'd \<times> nat \<Rightarrow> msg option \<Rightarrow> (('d \<times> nat) \<times> msg option) option"
    and dlg :: "'d dialog_agent" and usr :: "nat user_agent" and s :: "'d \<times> nat" and x r
  assume IH: "\<And>usr s x b y. loop usr s x b = Some y \<Longrightarrow>
                s = user_input inputs \<longrightarrow> conv_continues b \<longrightarrow> (\<exists>i \<ge> snd x. inputs i = ''exit'')"
  assume body: "(if conv_continues x
    then let (s', x') = sequentialpipeline dlg usr s x in loop dlg usr s' (Some x')
    else Some (s, x)) = Some r"
  show "usr = user_input inputs \<longrightarrow> conv_continues x \<longrightarrow> (\<exists>i \<ge> snd s. inputs i = ''exit'')"
  proof (intro impI)
    assume u: "usr = user_input inputs" and c: "conv_continues x"
    obtain d n where s: "s = (d, n)" by (cases s)
    have "loop dlg usr (fst (dlg d x), Suc n) (Some \<lparr>msg_name = ''User'', content = inputs n, role = User\<rparr>) = Some r"
      using body c by (simp add: s u pipeline_user_input)
    from IH[OF this] u
    have "conv_continues (Some \<lparr>msg_name = ''User'', content = inputs n, role = User\<rparr>) \<longrightarrow>
          (\<exists>i \<ge> Suc n. inputs i = ''exit'')"
      by simp
    then show "\<exists>i \<ge> snd s. inputs i = ''exit''"
      by (cases "inputs n = ''exit''") (auto simp: s conv_continues_def intro: Suc_leD)
  qed
next
  show "conversation_loop dlg usr s x = Some r"
    by (rule assms)
qed

lemma conversation_loop_unfold:
  "conversation_loop dlg usr s x =
     (if conv_continues x
      then conversation_loop dlg usr (fst (conv_step dlg usr (s, x))) (snd (conv_step dlg usr (s, x)))
      else Some (s, x))"
  by (subst conversation_loop.simps) (simp add: conv_step_def split: prod.split)

lemma while_to_loop:
  "\<not> conv_continues (snd ((conv_step dlg usr ^^ k) p)) \<Longrightarrow>
   (\<forall>i < k. conv_continues (snd ((conv_step dlg usr ^^ i) p))) \<Longrightarrow>
   conversation_loop dlg usr (fst p) (snd p) = Some ((conv_step dlg usr ^^ k) p)"
proof (induction k arbitrary: p)
  case 0
  then show ?case by (subst conversation_loop_unfold) simp
next
  case (Suc k)
  have c: "conv_continues (snd p)" using Suc.prems(2) by (metis funpow_0 zero_less_Suc)
  have pre: "\<forall>i < k. conv_continues (snd ((conv_step dlg usr ^^ i) (conv_step dlg usr p)))"
  proof (intro allI impI)
    fix i assume "i < k"
    then have "conv_continues (snd ((conv_step dlg usr ^^ Suc i) p))"
      using Suc.prems(2) by blast
    then show "conv_continues (snd ((conv_step dlg usr ^^ i) (conv_step dlg usr p)))"
      by (simp only: funpow_Suc_right comp_def)
  qed
  have last: "\<not> conv_continues (snd ((conv_step dlg usr ^^ k) (conv_step dlg usr p)))"
    using Suc.prems(1) by (metis funpow_Suc_right comp_apply)
  have "conversation_loop dlg usr (fst (conv_step dlg usr p)) (snd (conv_step dlg usr p)) =
          Some ((conv_step dlg usr ^^ k) (conv_step dlg usr p))"
    by (rule Suc.IH[OF last pre])
  then show ?case
    using c by (subst conversation_loop_unfold) (simp add: funpow_Suc_right del: funpow.simps)
qed

lemma loop_to_while:
  fixes dlg :: "'d dialog_agent" and usr :: "'u user_agent"
  assumes "conversation_loop dlg usr s x = Some r"
  shows "while_option (\<lambda>p. conv_continues (snd p)) (conv_step dlg usr) (s, x) = Some r"
proof (rule conversation_loop.raw_induct[where
      P = "\<lambda>dl us st xx rr. while_option (\<lambda>p. conv_continues (snd p)) (conv_step dl us) (st, xx) = Some rr"
      and xa = "(((dlg, usr), s), x)" and y = r, unfolded prod.case])
  fix loop :: "'d dialog_agent \<Rightarrow> 'u user_agent \<Rightarrow> 'd \<times> 'u \<Rightarrow> msg option \<Rightarrow> (('d \<times> 'u) \<times> msg option) option"
    and dlg :: "'d dialog_agent" and usr :: "'u user_agent" and s :: "'d \<times> 'u" and x r
  assume IH: "\<And>usr s x b y. loop usr s x b = Some y \<Longrightarrow>
                while_option (\<lambda>p. conv_continues (snd p)) (conv_step usr s) (x, b) = Some y"
  assume body: "(if conv_continues x
    then let (s', x') = sequentialpipeline dlg usr s x in loop dlg usr s' (Some x')
    else Some (s, x)) = Some r"
  show "while_option (\<lambda>p. conv_continues (snd p)) (conv_step dlg usr) (s, x) = Some r"
  proof (cases "conv_continues x")
    case True
    obtain s' x' where sp: "sequentialpipeline dlg usr s x = (s', x')"
      by (rule prod.exhaust)
    have "loop dlg usr s' (Some x') = Some r"
      using body by (simp only: if_P[OF True] sp Let_def prod.case)
    then have w: "while_option (\<lambda>p. conv_continues (snd p)) (conv_step dlg usr) (s', Some x') = Some r"
      by (rule IH)
    have st: "conv_step dlg usr (s, x) = (s', Some x')"
      by (simp only: conv_step_def fst_conv snd_conv sp prod.case)
    show ?thesis
      by (subst while_option_unfold) (simp only: snd_conv if_P[OF True] st w)
  next
    case False
    have "Some (s, x) = Some r"
      using body by (simp only: if_not_P[OF False])
    then show ?thesis
      by (subst while_option_unfold) (simp only: snd_conv if_not_P[OF False])
  qed
next
  show "conversation_loop dlg usr s x = Some r" by (rule assms)
qed

subsection \<open>Properties\<close>

text \<open>
  C13.  The two agents alternate as \<open>sequentialpipeline([dialog_agent, user_agent], x)\<close>
  orders them.  If the user first types \<open>exit\<close> at turn \<open>k\<close>, the dialog agent is called
  exactly \<open>k + 1\<close> times.  The first call gets \<open>None\<close> and call \<open>i + 1\<close> gets the line
  the user typed at turn \<open>i\<close>, never the agent's own answer, so its final state is its
  step folded over that sequence.
\<close>

theorem conversation_dialog_inputs:
  assumes "inputs k = ''exit''" and "\<forall>i < k. inputs i \<noteq> ''exit''"
  shows "conversation_main dlg (user_input inputs) d0 0 =
           Some ((fold (\<lambda>y d. fst (dlg d y))
                    (None # map (\<lambda>i. Some \<lparr>msg_name = ''User'', content = inputs i, role = User\<rparr>) [0..<k]) d0,
                  Suc k), Some exit_msg)"
  using conversation_loop_exit_state[of inputs k 0 None dlg d0] assms
  by (simp add: conversation_main_def conv_continues_def)

theorem conversation_dialog_inputs_witness:
  "conversation_main (\<lambda>h x. (h @ [x], \<lparr>msg_name = ''Assistant'', content = ''Hello!'', role = Assistant\<rparr>))
     (user_input (\<lambda>i. if i = 2 then ''exit'' else if i = 0 then ''hi'' else ''bye'')) [] 0 =
   Some (([None, Some \<lparr>msg_name = ''User'', content = ''hi'', role = User\<rparr>,
                 Some \<lparr>msg_name = ''User'', content = ''bye'', role = User\<rparr>], 3), Some exit_msg)"
  using conversation_dialog_inputs[of "\<lambda>i. if i = 2 then ''exit'' else if i = 0 then ''hi'' else ''bye''" 2
          "\<lambda>h x. (h @ [x], \<lparr>msg_name = ''Assistant'', content = ''Hello!'', role = Assistant\<rparr>)" "[]"]
  by (simp add: numeral_2_eq_2 numeral_3_eq_3 less_Suc_eq)

text \<open>
  C20.  If the user types \<open>exit\<close> for the first time at turn \<open>k\<close>, the conversation stops
  there: \<open>main\<close> returns after \<open>k + 1\<close> rounds of the pipeline, and the last message is
  the user's \<open>exit\<close>.
\<close>

theorem conversation_terminates:
  assumes "inputs k = ''exit''" and "\<forall>i < k. inputs i \<noteq> ''exit''"
  shows "\<exists>d. conversation_main dlg (user_input inputs) d0 0 = Some ((d, Suc k), Some exit_msg)"
  using conversation_loop_reaches_exit[of inputs k 0 None dlg d0] assms
  by (simp add: conversation_main_def conv_continues_def)

text \<open>
  C21.  If the user never types \<open>exit\<close>, the conversation never stops, whatever the dialog
  agent answers.
\<close>

theorem conversation_diverges:
  assumes "\<forall>i. inputs i \<noteq> ''exit''"
  shows "conversation_main dlg (user_input inputs) d0 0 = None"
proof (rule ccontr)
  assume "conversation_main dlg (user_input inputs) d0 0 \<noteq> None"
  then obtain r where "conversation_loop dlg (user_input inputs) (d0, 0) None = Some r"
    by (auto simp: conversation_main_def)
  from conversation_loop_returns_exit[OF this, where inputs = inputs] assms show False
    by (simp add: conv_continues_def)
qed

text \<open>
  The recursive loop is the \<open>while\<close> statement of the source: for every pair of agents,
  start state and first message, \<open>conversation_loop\<close> returns exactly what
  \<open>while_option\<close> returns when it iterates the pipeline round \<open>conv_step\<close> while
  \<open>conv_continues\<close> holds of the last message, and it runs forever (\<open>None\<close>) exactly when
  that iteration never stops.
\<close>

lemma conversation_loop_while_option:
  "conversation_loop dlg usr s x = while_option (\<lambda>p. conv_continues (snd p)) (conv_step dlg usr) (s, x)"
proof (cases "while_option (\<lambda>p. conv_continues (snd p)) (conv_step dlg usr) (s, x)")
  case None
  show ?thesis
  proof (cases "conversation_loop dlg usr s x")
    case (Some r)
    from loop_to_while[OF Some] None show ?thesis by (simp only: option.distinct(1))
  qed (simp only: None)
next
  case (Some r)
  let ?b = "\<lambda>p. conv_continues (snd p)" and ?c = "conv_step dlg usr"
  let ?P = "\<lambda>k. \<not> ?b ((?c ^^ k) (s, x))"
  have d: "(if \<exists>k. ?P k then Some ((?c ^^ (LEAST k. ?P k)) (s, x)) else None) = Some r"
    using Some by (simp only: while_option_def)
  have ex: "\<exists>k. ?P k"
  proof (rule ccontr)
    assume n: "\<not> (\<exists>k. ?P k)"
    have "None = Some r" using d by (simp only: if_not_P[OF n])
    then show False by (rule option.distinct(1)[THEN notE])
  qed
  have r: "(?c ^^ (LEAST k. ?P k)) (s, x) = r"
    using d by (simp only: if_P[OF ex] option.inject)
  define K where "K = (LEAST k. ?P k)"
  have stop: "?P K"
    unfolding K_def using ex by (rule LeastI_ex)
  have run: "\<forall>i < K. ?b ((?c ^^ i) (s, x))"
    unfolding K_def by (intro allI impI) (erule not_less_Least[THEN notnotD])
  have "conversation_loop dlg usr (fst (s, x)) (snd (s, x)) = Some ((?c ^^ K) (s, x))"
    using stop run by (rule while_to_loop)
  then have "conversation_loop dlg usr s x = Some r"
    by (simp only: fst_conv snd_conv K_def r)
  then show ?thesis by (simp only: Some)
qed

theorem conversation_terminates_witness:
  "\<exists>d. conversation_main (\<lambda>d x. (Suc d, \<lparr>msg_name = ''Assistant'', content = ''Hello!'', role = Assistant\<rparr>))
         (user_input (\<lambda>i. if i = 2 then ''exit'' else ''hi'')) (0::nat) 0 = Some ((d, 3), Some exit_msg)"
  using conversation_terminates[of "\<lambda>i. if i = 2 then ''exit'' else ''hi''" 2
          "\<lambda>d x. (Suc d, \<lparr>msg_name = ''Assistant'', content = ''Hello!'', role = Assistant\<rparr>)" "0::nat"]
  by (simp add: numeral_2_eq_2 numeral_3_eq_3 less_Suc_eq)

theorem conversation_diverges_witness:
  "conversation_main (\<lambda>d x. (Suc d, \<lparr>msg_name = ''Assistant'', content = ''Hello!'', role = Assistant\<rparr>))
     (user_input (\<lambda>i. ''hi'')) (0::nat) 0 = None"
  using conversation_diverges[of "\<lambda>i. ''hi''"
          "\<lambda>d x. (Suc d, \<lparr>msg_name = ''Assistant'', content = ''Hello!'', role = Assistant\<rparr>)" "0::nat"]
  by simp

end
