(* ===== verification/Spec2Isabelle.thy ===== *)
theory Spec2Isabelle
  imports Code_Agent Test_Script Conversation
begin

text \<open>
  \<^bold>\<open>A verification model of the CodeAct agent of AgentScope (Yimi81/agentscope).\<close>

  \<^bold>\<open>The program.\<close>  The repository holds three Python files.
  \<^item> \<open>src/src/agentscope/agents/code_agent.py\<close>: the template \<open>CODE_SYSTEM_PROMPT\<close>
    (lines 24-183) and the class \<open>CodeAgent\<close>.  \<open>__init__\<close> (199-264) registers the
    \<open>finish\<close> tool in the caller's toolkit, formats the template with the agent's name,
    replaces the placeholders for the tools and the authorized imports, and puts the
    system message in memory.  \<open>parse_code_blobs\<close> (266-295) extracts fenced code from a
    model answer.  \<open>reply\<close> (297-335) is the turn loop with a fallback summary, and
    \<open>finish\<close> (338-349) is the terminal tool.
  \<^item> \<open>src/src/agentscope/agents/test_code_agent.py\<close>: two tool functions, a toolkit,
    and a script that builds an agent and asks it one question.
  \<^item> \<open>src/examples/conversation_basic/conversation.py\<close>: a dialog loop between an
    assistant and a user.
  The framework these files call is not in the repository: messages, memory, the tool
  registry, the model client, the dialog and user agents, the sandboxed interpreter.

  \<^bold>\<open>The theories.\<close>
  \<^item> \<open>Py_Prelude\<close>: the \<open>str\<close> operations the code applies.  \<open>py_in\<close> is \<open>in\<close>,
    \<open>py_endswith\<close>, \<open>py_strip\<close> (with CPython's whitespace set), \<open>py_join\<close> and
    \<open>py_replace\<close> (with the empty-pattern case).  Each is characterised against the list
    library (\<open>sublist\<close>, \<open>prefix\<close>, \<open>suffix\<close>); the characterisations form the \<open>py_str\<close>
    collection.
  \<^item> \<open>Py_Builtins\<close>: \<open>repr\<close>/\<open>ascii\<close> of a \<open>str\<close>, \<open>str\<close> of a list of strings, \<open>str\<close> of a
    natural number, and the exceptions (\<open>py_exc\<close>) with the text \<open>str(e)\<close> gives.
    \<open>py_split\<close> is \<open>str.split(sep)\<close> and \<open>py_unrepr\<close> reads a string literal back.
    Library lemmas: \<open>s.replace(old, new)\<close> is \<open>new.join(s.split(old))\<close>, and reading
    back \<open>repr(s)\<close> gives \<open>s\<close>.
  \<^item> \<open>Py_Format_Spec\<close>: the format specification mini-language for a \<open>str\<close> value,
    after CPython 3.11's \<open>formatter_unicode.c\<close>: \<open>read_int\<close> (its \<open>get_integer\<close>),
    \<open>parse_spec\<close> (fill, alignment, sign, \<open>z\<close>, \<open>#\<close>, \<open>0\<close>, width, grouping, precision,
    type, each error message), \<open>pad_string\<close> (\<open>calc_padding\<close>), \<open>format_str_internal\<close>
    with its fast path, and \<open>format_str\<close>.  Library lemmas: widths read back as printed,
    the fast path agrees with the reference padding, a well-formed specifier is read back
    from its printed form (\<open>print_spec\<close>), and the layout of a padded value.
  \<^item> \<open>Py_Format\<close>: \<open>str.format\<close> with keyword arguments.  It is a one-character step
    function \<open>fmt_step\<close> that follows CPython's \<open>MarkupIterator_next\<close> and \<open>parse_field\<close>,
    with every error message, including the \<open>Py_ssize_t\<close> overflow check of
    \<open>get_integer\<close>.  Lemmas compose the scanner over concatenations
    (\<open>fmt_steps_append\<close>), so whole templates are handled without evaluating them.
    Field names are walked over the value (\<open>field_walk\<close>: indexing, attribute errors),
    and a spec holding a field is expanded one recursion level down (\<open>spec_expand\<close>).
    \<open>str.format\<close> is shown to refine a reference semantics of templates
    (\<open>tpl_part\<close>, \<open>print_tpl\<close>, \<open>render_tpl\<close>): literal text with doubled braces and
    keyword fields render as substitution, the way a compiler is shown to agree with the
    evaluator of its source language.  Library lemmas cover plain, positional, indexed,
    aligned and nested fields and the error messages; the definitions were compared with
    CPython 3.11 on their cases.  These are properties of the built-in that line 248
    calls; the claims about the program that rest on them are in \<open>Code_Agent\<close>.
  \<^item> \<open>Code_Prompt\<close>: \<open>CODE_SYSTEM_PROMPT\<close>, verbatim, as a list of its 159 lines.  It proves
    that formatting it raises \<open>KeyError('question')\<close> for every name, because of the
    example dictionary on line 67.
  \<^item> \<open>Code_Extractor\<close>: \<open>re.findall\<close> for the fence pattern, as a leftmost search with
    ordered alternatives and a lazy body (\<open>findall_code\<close>), and \<open>parse_code_blobs\<close>.
    \<open>ast.parse\<close> is a parameter.  \<open>call_parse_code_blobs\<close> is Python's argument binding
    for the method, which is declared without \<open>self\<close>.  C2 and C8-C10 cover the four
    branches of the spec's extraction algorithm.  C22: every block \<open>findall_code\<close>
    returns occurs in the answer behind one of the fence tags and contains no closing
    fence.
  \<^item> \<open>Agent_Framework\<close>: the framework interfaces, modelled from the spec's section 6.
    Messages and the model client's request and response are records.  The model client
    is an oracle \<open>'m \<Rightarrow> model_request \<Rightarrow> 'm \<times> model_response\<close> with a state of its own.
    Memory is the list of messages; the toolkit is an association list.  Everything the
    agent sends or prints is an \<open>event\<close> of its trace.
  \<^item> \<open>Code_Agent\<close>: the instance as a record \<open>code_agent\<close>, with \<open>init_code_agent\<close>
    (\<open>__init__\<close>), \<open>reply_loop\<close> and \<open>summarize\<close> (the two halves of \<open>reply\<close>), \<open>reply\<close>,
    \<open>finish\<close>, the reachable states as the inductive \<open>reachable_agent\<close>, and
    \<open>reply_seq\<close>, a caller that calls one instance on a sequence of inputs.
    \<open>agent_inv\<close> is the invariant of the instance: the system message heads the
    memory, both prompts end in a newline, and the executor's tools are the
    toolkit's, \<open>finish\<close> among them.  C1, C3-C7, C11, C12, C14-C17 and C24 are its
    properties.
  \<^item> \<open>Test_Script\<close>: \<open>web_serarch\<close>, \<open>get_weather\<close>, the toolkit, the script's setup
    (\<open>script_setup\<close>: the prints of the instructions and the schemas) and its whole run
    (\<open>test_script\<close>) (C18, C19, C23).
  \<^item> \<open>Conversation\<close>: the dialog loop as a \<open>partial_function (option)\<close> (C13, C20,
    C21), and its equivalence with \<open>while_option\<close> iterating one round \<open>conv_step\<close>.
  \<^item> This theory: the turn loop of the specification (section 4.2) as an abstract machine,
    \<open>spec_loop\<close> and \<open>spec_reply\<close>, with the sandbox as an oracle that signals
    \<open>Continue\<close>, \<open>Terminate\<close> or an error, and the comparison with the code.
    \<open>abs_agent\<close> abstracts an instance to the specification's state (model, sandbox,
    memory, number of model calls).  Two lemmas compare them: the divergence on the
    spec's scenario, and the agreement on the path the code implements
    (\<open>max_iters <= 0\<close>).

  \<^bold>\<open>What the theorems show.\<close>
  \<^item> The code extractor does what the spec's section 4.3 says (C2, C8-C10).
  \<^item> It is never reached, because \<open>self.parse_code_blobs(response)\<close> passes two arguments
    to a function of one parameter.  Every \<open>reply\<close> with \<open>max_iters > 0\<close> raises
    \<open>ValueError\<close> after exactly one model call (C1, C6), and the test script never gets an
    answer (C18).
  \<^item> Construction on any template of text and plain fields renders it with the one
    keyword \<open>name\<close> and then replaces the placeholders (C11).  It raises \<open>KeyError\<close> at
    the first field other than \<open>{name}\<close> (C12).  The default template raises
    \<open>KeyError('question')\<close> from the format spec of its example dictionary (C3).
  \<^item> With a template that uses the doubled-brace placeholders, the placeholders survive
    into the prompt unfilled (C4).  A template that escapes them twice gets the tool text
    verbatim (C24).
  \<^item> The additional imports never reach the prompt (C16).
  \<^item> \<open>finish\<close> is always registered (C17).
  \<^item> Every reachable instance satisfies \<open>agent_inv\<close>; in particular the memory always
    starts with the system message (C5).
  \<^item> The fallback path never raises (C7).  It echoes the hint when verbose, makes the one
    summarizing call and speaks the stream or the text, in that order (C15).
  \<^item> Over any sequence of calls the memory holds the system message and the inputs only,
    never a model answer, with one model call per call (C14).
  \<^item> The conversation loop stops exactly when the user types \<open>exit\<close> (C20, C21).  The
    dialog agent is called once per round, first on \<open>None\<close> and then on each line the
    user typed, in order (C13).
  \<^item> \<open>get_weather\<close> checks its arguments in the source's order (C19), and its results are
    well-typed (C23).

  \<^bold>\<open>Bounds and fuel.\<close>
  \<^item> The turn loop recurses on \<open>nat (max_iters)\<close>, so a negative \<open>max_iters\<close> gives the
    empty \<open>range\<close> as in Python.
  \<^item> The regex search and the format scanner recurse structurally on the input.
  \<^item> No fuel is needed anywhere.  The only loop that may not end, the conversation, is a
    \<open>partial_function (option)\<close>.  Its termination is proved as \<open>Some\<close> of the final state,
    and its divergence as \<open>None\<close>.
  \<^item> Integers are Python's unbounded ints (\<open>int\<close>).  The only bound the code checks is
    \<open>Py_ssize_t\<close> in the two \<open>get_integer\<close>s of \<open>str.format\<close>, which is written out.
  \<^item> Nested format specs recurse through a parameter, not a recursive call: the scanner
    at depth 2 expands a spec with the scanner at depth 1, whose expansion raises.

  \<^bold>\<open>Not modelled.\<close>
  \<^item> The sandboxed interpreter (\<open>LocalPythonInterpreter\<close>) and
    \<open>fix_final_answer_code\<close>: the loop never reaches the interpreter, and the rewrite's
    result is never used.
  \<^item> The Python grammar, which is a parameter.
  \<^item> The toolkit's rendering of tool instructions and JSON schemas, which is a parameter.
  \<^item> The order of \<open>list(set(BASE_BUILTIN_MODULES))\<close>, which is a parameter.
  \<^item> The rendering of an existing attribute of a \<open>str\<close> in a template
    (\<open>{name.upper}\<close>), a bound method whose text holds a memory address: it gives
    \<open>FmtNotModelled\<close> rather than a value.  A width too large to allocate
    (\<open>MemoryError\<close>) is not modelled.
  \<^item> Characters beyond Latin-1, and \<open>agentscope.init\<close> and the construction of the
    dialog and user agents in the scripts, which are configuration.
\<close>

subsection \<open>The turn loop of the specification\<close>

text \<open>
  The contract of section 4.2 of the specification, as an abstract machine beside the code.
  A turn calls the model with the stop sequences on the memory, extracts the code
  (\<open>extract\<close>, a failure is fatal), and runs it in the sandbox (\<open>exec\<close>, an oracle with
  its own state that signals \<open>Continue\<close> with an observation, \<open>Terminate\<close> with the
  payload of \<open>finish\<close>, or an execution error).  On \<open>Continue\<close> the model's answer and the
  observation are appended to the memory and the next turn starts.  After \<open>n\<close> turns the
  summarizer makes one more call, without stop sequences.  \<open>sp_calls\<close> counts the model
  calls.
\<close>

datatype exec_signal = Continue string | Terminate string | ExecError string

record ('m, 'e) spec_state =
  sp_model :: 'm
  sp_exec :: 'e
  sp_memory :: "msg list"
  sp_calls :: nat

datatype spec_outcome = SpecReply string | SpecParseError py_exc | SpecExecError string

fun spec_loop ::
  "'m model_client \<Rightarrow> (string \<Rightarrow> py_exc + string) \<Rightarrow> ('e \<Rightarrow> string \<Rightarrow> 'e \<times> exec_signal) \<Rightarrow> nat \<Rightarrow>
   ('m, 'e) spec_state \<Rightarrow> spec_outcome option \<times> ('m, 'e) spec_state" where
  "spec_loop llm extract exec 0 st = (None, st)"
| "spec_loop llm extract exec (Suc k) st =
     (let req = \<lparr>prompt = sp_memory st, stop_sequences = Some reply_stop_sequences\<rparr>;
          (m', res) = llm (sp_model st) req;
          st1 = st\<lparr>sp_model := m', sp_calls := Suc (sp_calls st)\<rparr>
      in case extract (resp_text res) of
           Inl e \<Rightarrow> (Some (SpecParseError e), st1)
         | Inr code \<Rightarrow>
             (case exec (sp_exec st1) code of
                (e', Terminate payload) \<Rightarrow> (Some (SpecReply payload), st1\<lparr>sp_exec := e'\<rparr>)
              | (e', ExecError d) \<Rightarrow> (Some (SpecExecError d), st1\<lparr>sp_exec := e'\<rparr>)
              | (e', Continue obs) \<Rightarrow>
                  spec_loop llm extract exec k
                    (st1\<lparr>sp_exec := e',
                         sp_memory := sp_memory st1 @
                           [\<lparr>msg_name = ''assistant'', content = resp_text res, role = Assistant\<rparr>,
                            \<lparr>msg_name = ''system'', content = obs, role = System\<rparr>]\<rparr>)))"

definition spec_reply ::
  "'m model_client \<Rightarrow> (string \<Rightarrow> py_exc + string) \<Rightarrow> ('e \<Rightarrow> string \<Rightarrow> 'e \<times> exec_signal) \<Rightarrow> nat \<Rightarrow>
   ('m, 'e) spec_state \<Rightarrow> reply_input \<Rightarrow> spec_outcome \<times> ('m, 'e) spec_state" where
  "spec_reply llm extract exec n st x =
     (case spec_loop llm extract exec n (st\<lparr>sp_memory := sp_memory st @ input_msgs x\<rparr>) of
        (Some r, st') \<Rightarrow> (r, st')
      | (None, st') \<Rightarrow>
          (let (m', res) = llm (sp_model st') \<lparr>prompt = sp_memory st' @ [hint_msg], stop_sequences = None\<rparr>
           in (SpecReply (resp_text res), st'\<lparr>sp_model := m', sp_calls := Suc (sp_calls st')\<rparr>)))"

text \<open>
  The abstraction from an instance of the code to a state of the specified machine: the
  model client's state, the memory, and the number of model calls in the trace; the sandbox
  state \<open>e\<close> is untouched, since the code never reaches the sandbox.
\<close>

definition abs_agent :: "'e \<Rightarrow> 'm code_agent \<Rightarrow> ('m, 'e) spec_state" where
  "abs_agent e st = \<lparr>sp_model = model st, sp_exec = e, sp_memory = memory st,
                     sp_calls = length (filter is_model_call (trace st))\<rparr>"

text \<open>
  The scenario of section 8: the first answer runs code without \<open>finish\<close>, the second calls
  \<open>finish("42")\<close>.
\<close>

definition scenario_model :: "nat model_client" where
  "scenario_model n req =
     (Suc n, \<lparr>resp_text = (if n = 0 then ''Thought: check.\<newline>Code:\<newline>```py\<newline>print(x)\<newline>```''
                          else ''Code:\<newline>```py\<newline>finish(\"42\")\<newline>```''),
              resp_stream = None\<rparr>)"

definition scenario_exec :: "nat \<Rightarrow> string \<Rightarrow> nat \<times> exec_signal" where
  "scenario_exec e code = (Suc e, if py_in ''finish'' code then Terminate ''42'' else Continue ''1'')"

definition scenario_agent :: "nat code_agent" where
  "scenario_agent = \<lparr>agent_name = ''assistant'', model = 0,
     memory = [\<lparr>msg_name = ''system'', content = ''Solve.'', role = System\<rparr>],
     service_toolkit = \<lparr>service_funcs = [(''finish'', finish_tool)]\<rparr>, verbose = True,
     max_iters = 10, authorized_imports = [], additional_authorized_imports = [],
     sys_prompt = ''Solve.'', system_prompt = ''Solve.'',
     python_executor = \<lparr>exec_authorized_imports = [], exec_tools = [''finish'']\<rparr>, trace = []\<rparr>"

definition scenario_spec_state :: "(nat, nat) spec_state" where
  "scenario_spec_state = \<lparr>sp_model = 0, sp_exec = 0,
     sp_memory = [\<lparr>msg_name = ''system'', content = ''Solve.'', role = System\<rparr>], sp_calls = 0\<rparr>"

definition scenario_question :: reply_input where
  "scenario_question = OneMsg \<lparr>msg_name = ''user'', content = ''Q'', role = User\<rparr>"

subsection \<open>Properties that span the components\<close>

text \<open>
  On the scenario of section 8 of the specification, the specified loop answers
  \<open>42\<close> after two model calls, with the extractor of the code (called unbound) and the
  finish tool.  The code's \<open>reply\<close> on the same model raises the parsing \<open>ValueError\<close>
  after one call.  The agent does not implement its specification.
\<close>

lemma spec_scenario_not_refined:
  "fst (spec_reply scenario_model (parse_code_blobs (\<lambda>_. AstOk)) scenario_exec 10
          scenario_spec_state scenario_question) = SpecReply ''42''
   \<and> sp_calls (snd (spec_reply scenario_model (parse_code_blobs (\<lambda>_. AstOk)) scenario_exec 10
          scenario_spec_state scenario_question)) = 2
   \<and> fst (reply scenario_model (\<lambda>_. AstOk) scenario_agent scenario_question) =
       Inl (parse_error_reply
              (TypeError ''CodeAgent.parse_code_blobs() takes 1 positional argument but 2 were given''))
   \<and> length (filter is_model_call
        (trace (snd (reply scenario_model (\<lambda>_. AstOk) scenario_agent scenario_question)))) = 1"
proof -
  have spec: "spec_reply scenario_model (parse_code_blobs (\<lambda>_. AstOk)) scenario_exec 10
          scenario_spec_state scenario_question =
        (SpecReply ''42'', snd (spec_reply scenario_model (parse_code_blobs (\<lambda>_. AstOk)) scenario_exec 10
          scenario_spec_state scenario_question)) \<and>
        sp_calls (snd (spec_reply scenario_model (parse_code_blobs (\<lambda>_. AstOk)) scenario_exec 10
          scenario_spec_state scenario_question)) = 2"
    by (simp add: spec_reply_def scenario_spec_state_def scenario_question_def scenario_model_def
                  numeral_eq_Suc Let_def parse_code_blobs_def match_at_def fence_open_def fence_tags_def
                  fence_close_def py_strip_def py_lstrip_def py_rstrip_def py_isspace_def
                  scenario_exec_def)
  have code: "reply scenario_model (\<lambda>_. AstOk) scenario_agent scenario_question =
      (let req = \<lparr>prompt = memory scenario_agent @ input_msgs scenario_question,
                  stop_sequences = Some reply_stop_sequences\<rparr>
       in (Inl (parse_error_reply
                (TypeError ''CodeAgent.parse_code_blobs() takes 1 positional argument but 2 were given'')),
           scenario_agent\<lparr>memory := memory scenario_agent @ input_msgs scenario_question,
             model := fst (scenario_model (model scenario_agent) req),
             trace := trace scenario_agent @ [ModelCall req]\<rparr>))"
    by (rule reply_first_iteration) (simp add: scenario_agent_def)
  have tr: "trace scenario_agent = []"
    by (simp add: scenario_agent_def)
  have fst_spec: "fst (spec_reply scenario_model (parse_code_blobs (\<lambda>_. AstOk)) scenario_exec 10
          scenario_spec_state scenario_question) = SpecReply ''42''"
    using spec by (metis fst_conv)
  show ?thesis
    using spec fst_spec by (simp add: code Let_def is_model_call_def tr)
qed

text \<open>
  On the path the code does implement, \<open>max_iters <= 0\<close>, \<open>reply\<close> refines the
  specified loop.  Both skip the turns and make the one summarizing call.  Through
  \<open>abs_agent\<close> the final states agree on the model's state, the memory and the number of
  model calls, and the reply's content is the specified answer.  It holds for every
  extractor and every sandbox.
\<close>

lemma reply_refines_spec_without_iterations:
  assumes "max_iters st \<le> 0"
  shows "\<exists>r st'. reply llm ast_parse st x = (Inr r, st') \<and>
           spec_reply llm extract exec (nat (max_iters st)) (abs_agent e st) x =
             (SpecReply (content r), abs_agent e st')"
proof -
  have n: "nat (max_iters st) = 0" using assms by simp
  show ?thesis
    using reply_no_iterations[OF assms, of llm ast_parse x]
    by (simp add: n spec_reply_def abs_agent_def summarize_def Let_def is_model_call_def
             split: prod.split)
qed

lemma reply_refines_spec_without_iterations_witness:
  "\<exists>r st'. reply scenario_model (\<lambda>_. AstOk) (scenario_agent\<lparr>max_iters := 0\<rparr>) scenario_question =
             (Inr r, st') \<and>
           spec_reply scenario_model (parse_code_blobs (\<lambda>_. AstOk)) scenario_exec
             (nat (max_iters (scenario_agent\<lparr>max_iters := 0\<rparr>)))
             (abs_agent (0::nat) (scenario_agent\<lparr>max_iters := 0\<rparr>)) scenario_question =
             (SpecReply (content r), abs_agent 0 st')"
  by (rule reply_refines_spec_without_iterations) simp

end
